theory Spec2Isabelle
  imports Complex_Main
begin

section \<open>Numbers, engine constants and small engine helpers\<close>

text \<open>
  The animation instance computes with \<^verbatim>\<open>float\<close> and \<^verbatim>\<open>double\<close>. Both are modelled as
  \<^typ>\<open>real\<close>: the embedding follows the branch structure and the arithmetic of the source
  exactly, but without rounding and infinities. \<^verbatim>\<open>UE_REAL_TO_FLOAT\<close> is the identity. The one
  place where the source divides zero by zero, the velocity blend, keeps the result apart
  from the numbers (see \<open>FloatValue\<close> below). A division of a non-zero number by zero, an
  infinity in the source, has no counterpart in the model (the play rates divide by the
  stride blend amount and the scale): no statement below depends on such a value.

  The constants and the two weight tests below belong to the engine (Unreal Engine's
  \<^verbatim>\<open>FMath\<close> and \<^verbatim>\<open>FAnimWeight\<close>), not to this repository.
\<close>

definition SMALL_NUMBER :: real where
  "SMALL_NUMBER = 1 / 100000000"

definition KINDA_SMALL_NUMBER :: real where
  "KINDA_SMALL_NUMBER = 1 / 10000"

definition ZERO_ANIMWEIGHT_THRESH :: real where
  "ZERO_ANIMWEIGHT_THRESH = 1 / 100000"

definition IsRelevant :: "real \<Rightarrow> bool" where
  "IsRelevant InWeight \<longleftrightarrow> InWeight > ZERO_ANIMWEIGHT_THRESH"

text \<open>
  \<^verbatim>\<open>FAnimWeight::IsFullWeight\<close> compares with \<^verbatim>\<open>1.f - ZERO_ANIMWEIGHT_THRESH\<close>, a constant of
  single precision: the \<^verbatim>\<open>float\<close> nearest to 1 - 0.00001, which is 16777048 / 2 ^ 24, a
  little below 1 - 1 / 100000. The model compares with that value, so that the test agrees
  with the engine on every weight that is a \<^verbatim>\<open>float\<close>. (\<^verbatim>\<open>IsRelevant\<close> compares strictly with
  the \<^verbatim>\<open>float\<close> nearest to 0.00001, which lies below 1 / 100000 with no \<^verbatim>\<open>float\<close> between the
  two: on every \<^verbatim>\<open>float\<close> the test with 1 / 100000 gives the same answer.)
\<close>

definition FULL_ANIMWEIGHT_THRESH :: real where
  "FULL_ANIMWEIGHT_THRESH = 2097131 / 2097152"

definition IsFullWeight :: "real \<Rightarrow> bool" where
  "IsFullWeight InWeight \<longleftrightarrow> InWeight \<ge> FULL_ANIMWEIGHT_THRESH"

text \<open>
  A \<^verbatim>\<open>float\<close> that may be the result of dividing zero by zero: a number, or not a number.
\<close>

datatype FloatValue = Number real | NotANumber

fun FloatValue_add :: "FloatValue \<Rightarrow> FloatValue \<Rightarrow> FloatValue" where
  "FloatValue_add (Number a) (Number b) = Number (a + b)"
| "FloatValue_add NotANumber b = NotANumber"
| "FloatValue_add (Number a) NotANumber = NotANumber"

definition Clamp :: "real \<Rightarrow> real \<Rightarrow> real \<Rightarrow> real" where
  "Clamp x MinValue MaxValue = max (min x MaxValue) MinValue"

definition Lerp :: "real \<Rightarrow> real \<Rightarrow> real \<Rightarrow> real" where
  "Lerp A B Alpha = A + Alpha * (B - A)"

definition Square :: "real \<Rightarrow> real" where
  "Square A = A * A"

definition bool_to_float :: "bool \<Rightarrow> real" where
  "bool_to_float b = (if b then 1 else 0)"

text \<open>
  Modelled from the spec: \<^verbatim>\<open>UAlsMath::Clamp01\<close> is declared in \<^verbatim>\<open>Utility/AlsMath.h\<close>, which is
  not among the sources. The specification describes it as the mapping of a raw curve value
  to a weight clamped to the interval from 0 to 1.
\<close>

definition Clamp01 :: "real \<Rightarrow> real" where
  "Clamp01 v = (if v \<le> 0 then 0 else if v \<ge> 1 then 1 else v)"


section \<open>Geometry values\<close>

record FVector =
  X :: real
  Y :: real
  Z :: real

record FVector2D =
  V2_X :: real
  V2_Y :: real

record FRotator =
  Pitch :: real
  Yaw :: real
  Roll :: real

record FQuat =
  Quat_X :: real
  Quat_Y :: real
  Quat_Z :: real
  Quat_W :: real

record FTransform =
  Transform_Rotation :: FQuat
  Transform_Translation :: FVector
  Transform_Scale3D :: FVector

record FHitResult =
  Hit_bBlockingHit :: bool
  Hit_bStartPenetrating :: bool
  Hit_Time :: real
  Hit_ImpactPoint :: FVector
  Hit_ImpactNormal :: FVector

record FAlsSpringVectorState =
  Spring_Velocity :: FVector
  Spring_PreviousTarget :: FVector
  Spring_bStateValid :: bool

definition ZeroVector :: FVector where
  "ZeroVector = \<lparr>X = 0, Y = 0, Z = 0\<rparr>"

definition QuatIdentity :: FQuat where
  "QuatIdentity = \<lparr>Quat_X = 0, Quat_Y = 0, Quat_Z = 0, Quat_W = 1\<rparr>"

definition FVector_add :: "FVector \<Rightarrow> FVector \<Rightarrow> FVector" where
  "FVector_add a b = \<lparr>X = X a + X b, Y = Y a + Y b, Z = Z a + Z b\<rparr>"

definition FVector_sub :: "FVector \<Rightarrow> FVector \<Rightarrow> FVector" where
  "FVector_sub a b = \<lparr>X = X a - X b, Y = Y a - Y b, Z = Z a - Z b\<rparr>"

definition FVector_scale :: "FVector \<Rightarrow> real \<Rightarrow> FVector" where
  "FVector_scale a k = \<lparr>X = X a * k, Y = Y a * k, Z = Z a * k\<rparr>"

definition FVector_div :: "FVector \<Rightarrow> real \<Rightarrow> FVector" where
  "FVector_div a k = \<lparr>X = X a / k, Y = Y a / k, Z = Z a / k\<rparr>"

definition FVector_dot :: "FVector \<Rightarrow> FVector \<Rightarrow> real" where
  "FVector_dot a b = X a * X b + Y a * Y b + Z a * Z b"

definition DistSquared :: "FVector \<Rightarrow> FVector \<Rightarrow> real" where
  "DistSquared a b = Square (X b - X a) + Square (Y b - Y a) + Square (Z b - Z a)"

definition FVector_Lerp :: "FVector \<Rightarrow> FVector \<Rightarrow> real \<Rightarrow> FVector" where
  "FVector_Lerp A B Alpha = FVector_add A (FVector_scale (FVector_sub B A) Alpha)"

definition IsValidBlockingHit :: "FHitResult \<Rightarrow> bool" where
  "IsValidBlockingHit Hit \<longleftrightarrow> Hit_bBlockingHit Hit \<and> \<not> Hit_bStartPenetrating Hit"


section \<open>Tags and enumerations\<close>

datatype EAlsStance = Standing | Crouching

datatype EAlsGait = Walking | Running | Sprinting

datatype EAlsRotationMode = LookingDirection | VelocityDirection | Aiming

datatype EAlsViewMode = FirstPerson | ThirdPerson

datatype EAlsMovementDirection = Forward | Backward | Left | Right

text \<open>
  Locomotion modes and locomotion actions are gameplay tags. The source compares them with
  the tags \<^verbatim>\<open>Grounded\<close>, \<^verbatim>\<open>InAir\<close> and \<^verbatim>\<open>Ragdolling\<close> and tests an action for validity
  (the empty tag is not valid); every other tag is kept by its number.
\<close>

datatype LocomotionModeTag = LocomotionMode_Grounded | LocomotionMode_InAir | LocomotionMode_Other nat

datatype LocomotionActionTag = EmptyTag | Ragdolling | LocomotionAction_Other nat

definition IsValidTag :: "LocomotionActionTag \<Rightarrow> bool" where
  "IsValidTag t \<longleftrightarrow> t \<noteq> EmptyTag"

datatype SlotName = NAME_None | TransitionSlot | TurnInPlaceStandingSlot | TurnInPlaceCrouchingSlot

datatype CurveName =
    LayerHeadCurve | LayerHeadAdditiveCurve | LayerHeadSlotCurve
  | LayerArmLeftCurve | LayerArmLeftAdditiveCurve | LayerArmLeftSlotCurve | LayerArmLeftLocalSpaceCurve
  | LayerArmRightCurve | LayerArmRightAdditiveCurve | LayerArmRightSlotCurve | LayerArmRightLocalSpaceCurve
  | LayerHandLeftCurve | LayerHandRightCurve
  | LayerSpineCurve | LayerSpineAdditiveCurve | LayerSpineSlotCurve
  | LayerPelvisCurve | LayerPelvisSlotCurve
  | LayerLegsCurve | LayerLegsSlotCurve
  | PoseGaitCurve | PoseMovingCurve | PoseStandingCurve | PoseCrouchingCurve
  | PoseGroundedCurve | PoseInAirCurve
  | AimBlockCurve | AimManualCurve
  | SprintBlockCurve | HipsDirectionLockCurve
  | GroundPredictionBlockCurve
  | FootPlantedCurve | FeetCrossingCurve
  | FootLeftIkCurve | FootLeftLockCurve | FootRightIkCurve | FootRightLockCurve
  | AllowTransitionsCurve

datatype BoneName = FootLeftIkBone | FootLeftVirtualBone | FootRightIkBone | FootRightVirtualBone | RootBone

text \<open>Objects are referred to by identity; a pointer that may be null is an \<^typ>\<open>'a option\<close>.\<close>

type_synonym UAnimSequenceBase = nat
type_synonym UPrimitiveComponent = nat
type_synonym FName = nat


section \<open>The engine and the world as parameters\<close>

text \<open>
  The source calls into the engine's mathematics library and into \<^verbatim>\<open>UAlsMath\<close>, whose
  implementations are not among the sources. They are pure functions; the embedding takes
  them as the fields of an \<open>Engine\<close> value, so that every theorem holds for any implementation
  of them. \<open>SpringReset\<close> is the state a spring has after \<^verbatim>\<open>Reset()\<close>. Three fields say what
  these libraries return for an operand that is not a number: \<open>Clamp01NaN\<close> for
  \<^verbatim>\<open>UAlsMath::Clamp01\<close>, \<open>AbsClampNaN\<close> for \<^verbatim>\<open>FMath::Abs(FMath::Clamp(..))\<close> with the given
  bounds, and \<open>FInterpToNaN\<close> for \<^verbatim>\<open>FMath::FInterpTo\<close> when the current or the target value is
  not a number.
\<close>

record Engine =
  NormalizeAxis :: "real \<Rightarrow> real"
  CounterClockwiseRotationAngleThreshold :: real
  ExponentialDecay :: "real \<Rightarrow> real \<Rightarrow> real"
  ExponentialDecayRotator :: "FRotator \<Rightarrow> FRotator \<Rightarrow> real \<Rightarrow> real \<Rightarrow> FRotator"
  FInterpTo :: "real \<Rightarrow> real \<Rightarrow> real \<Rightarrow> real \<Rightarrow> real"
  FInterpToNaN :: "FloatValue \<Rightarrow> FloatValue \<Rightarrow> real \<Rightarrow> real \<Rightarrow> FloatValue"
  Clamp01NaN :: FloatValue
  AbsClampNaN :: "real \<Rightarrow> real \<Rightarrow> FloatValue"
  VInterpTo :: "FVector \<Rightarrow> FVector \<Rightarrow> real \<Rightarrow> real \<Rightarrow> FVector"
  QInterpTo :: "FQuat \<Rightarrow> FQuat \<Rightarrow> real \<Rightarrow> real \<Rightarrow> FQuat"
  SpringDamp :: "FVector \<Rightarrow> FVector \<Rightarrow> FAlsSpringVectorState \<Rightarrow> real \<Rightarrow> real \<Rightarrow> real \<Rightarrow> real
    \<Rightarrow> FVector \<times> FAlsSpringVectorState"
  SpringReset :: FAlsSpringVectorState
  QuatInverse :: "FQuat \<Rightarrow> FQuat"
  QuatMul :: "FQuat \<Rightarrow> FQuat \<Rightarrow> FQuat"
  RotateVector :: "FQuat \<Rightarrow> FVector \<Rightarrow> FVector"
  UnrotateVector :: "FQuat \<Rightarrow> FVector \<Rightarrow> FVector"
  Slerp :: "FQuat \<Rightarrow> FQuat \<Rightarrow> real \<Rightarrow> FQuat"
  RotatorQuaternion :: "FRotator \<Rightarrow> FQuat"
  GetSafeNormal :: "FVector \<Rightarrow> FVector"
  Normalize :: "FVector \<Rightarrow> FVector"
  GetMappedRangeValueClamped :: "FVector2D \<Rightarrow> FVector2D \<Rightarrow> real \<Rightarrow> real"
  LerpClamped :: "real \<Rightarrow> real \<Rightarrow> real \<Rightarrow> real"
  DirectionToAngle :: "FVector2D \<Rightarrow> real"
  CalculateMovementDirection :: "real \<Rightarrow> real \<Rightarrow> real \<Rightarrow> EAlsMovementDirection"
  ClampMagnitude01 :: "FVector \<Rightarrow> FVector"
  TransformInverse :: "FTransform \<Rightarrow> FTransform"
  TransformPosition :: "FTransform \<Rightarrow> FVector \<Rightarrow> FVector"
  TransformRotation :: "FTransform \<Rightarrow> FQuat \<Rightarrow> FQuat"


section \<open>Settings\<close>

text \<open>
  The settings object (\<^verbatim>\<open>UAlsAnimationInstanceSettings\<close>) is declared outside the sources;
  the records hold the fields the animation instance reads. A float curve asset is the
  function \<^verbatim>\<open>GetFloatValue\<close> evaluates.
\<close>

record FAlsGeneralAnimationSettings =
  General_bUseFootIkBones :: bool
  General_MovingSmoothSpeedThreshold :: real
  General_LeanInterpolationSpeed :: real

record FAlsViewAnimationSettings =
  View_LookTowardsCameraRotationInterpolationSpeed :: real
  View_LookTowardsInputYawAngleInterpolationSpeed :: real

record FAlsGroundedSettings =
  Grounded_AnimatedWalkSpeed :: real
  Grounded_AnimatedRunSpeed :: real
  Grounded_AnimatedSprintSpeed :: real
  Grounded_AnimatedCrouchSpeed :: real
  Grounded_VelocityBlendInterpolationSpeed :: real
  Grounded_RotationYawOffsetForwardCurve :: "real \<Rightarrow> real"
  Grounded_RotationYawOffsetBackwardCurve :: "real \<Rightarrow> real"
  Grounded_RotationYawOffsetLeftCurve :: "real \<Rightarrow> real"
  Grounded_RotationYawOffsetRightCurve :: "real \<Rightarrow> real"
  Grounded_StrideBlendAmountWalkCurve :: "real \<Rightarrow> real"
  Grounded_StrideBlendAmountRunCurve :: "real \<Rightarrow> real"
  Grounded_PivotActivationSpeedThreshold :: real

record FAlsInAirSettings =
  InAir_LeanAmountCurve :: "real \<Rightarrow> real"
  InAir_GroundPredictionSweepObjectTypes :: "nat list"
  InAir_GroundPredictionAmountCurve :: "real \<Rightarrow> real"

record FAlsFeetSettings =
  Feet_bDisableFootLock :: bool
  Feet_FootHeight :: real
  Feet_IkTraceChannel :: nat
  Feet_IkTraceDistanceUpward :: real
  Feet_IkTraceDistanceDownward :: real

record FAlsTransitionsSettings =
  Transitions_DynamicTransitionFootLockDistanceThreshold :: real
  Transitions_DynamicTransitionBlendTime :: real
  Transitions_DynamicTransitionPlayRate :: real
  Transitions_StandingDynamicTransitionLeftAnimation :: "UAnimSequenceBase option"
  Transitions_StandingDynamicTransitionRightAnimation :: "UAnimSequenceBase option"
  Transitions_CrouchingDynamicTransitionLeftAnimation :: "UAnimSequenceBase option"
  Transitions_CrouchingDynamicTransitionRightAnimation :: "UAnimSequenceBase option"

record FAlsRotateInPlaceSettings =
  RotateInPlace_ViewYawAngleThreshold :: real
  RotateInPlace_ReferenceViewYawSpeed :: FVector2D
  RotateInPlace_PlayRate :: FVector2D
  RotateInPlace_bDisableFootLock :: bool
  RotateInPlace_FootLockBlockViewYawAngleThreshold :: real
  RotateInPlace_FootLockBlockViewYawSpeedThreshold :: real

record UAlsTurnInPlaceSettings =
  Turn_Animation :: "UAnimSequenceBase option"
  Turn_PlayRate :: real
  Turn_bScalePlayRateByAnimatedTurnAngle :: bool
  Turn_AnimatedTurnAngle :: real

record FAlsGeneralTurnInPlaceSettings =
  TurnInPlace_ViewYawAngleThreshold :: real
  TurnInPlace_ViewYawSpeedThreshold :: real
  TurnInPlace_ViewYawAngleToActivationDelay :: FVector2D
  TurnInPlace_Turn180AngleThreshold :: real
  TurnInPlace_BlendTime :: real
  TurnInPlace_bDisableFootLock :: bool
  TurnInPlace_StandingTurn90Left :: "UAlsTurnInPlaceSettings option"
  TurnInPlace_StandingTurn90Right :: "UAlsTurnInPlaceSettings option"
  TurnInPlace_StandingTurn180Left :: "UAlsTurnInPlaceSettings option"
  TurnInPlace_StandingTurn180Right :: "UAlsTurnInPlaceSettings option"
  TurnInPlace_CrouchingTurn90Left :: "UAlsTurnInPlaceSettings option"
  TurnInPlace_CrouchingTurn90Right :: "UAlsTurnInPlaceSettings option"
  TurnInPlace_CrouchingTurn180Left :: "UAlsTurnInPlaceSettings option"
  TurnInPlace_CrouchingTurn180Right :: "UAlsTurnInPlaceSettings option"

record UAlsAnimationInstanceSettings =
  General :: FAlsGeneralAnimationSettings
  View :: FAlsViewAnimationSettings
  Grounded :: FAlsGroundedSettings
  InAir :: FAlsInAirSettings
  Feet :: FAlsFeetSettings
  Transitions :: FAlsTransitionsSettings
  RotateInPlace :: FAlsRotateInPlaceSettings
  TurnInPlace :: FAlsGeneralTurnInPlaceSettings


section \<open>The character and the world\<close>

text \<open>
  The character actor is the external collaborator the game-thread pass reads. The record
  holds what the accessors used by the animation instance return.
\<close>

record FAlsLocomotionState =
  CharLocomotion_bHasInput :: bool
  CharLocomotion_bHasSpeed :: bool
  CharLocomotion_bMoving :: bool
  CharLocomotion_InputYawAngle :: real
  CharLocomotion_Speed :: real
  CharLocomotion_Velocity :: FVector
  CharLocomotion_VelocityYawAngle :: real
  CharLocomotion_Acceleration :: FVector
  CharLocomotion_TargetYawAngle :: real
  CharLocomotion_Location :: FVector
  CharLocomotion_Rotation :: FRotator
  CharLocomotion_RotationQuaternion :: FQuat
  CharLocomotion_YawSpeed :: real

record FAlsViewState =
  CharView_Rotation :: FRotator
  CharView_YawSpeed :: real

record FBasedMovementInfo =
  Based_MovementBase :: "UPrimitiveComponent option"
  Based_BoneName :: FName
  Based_HasRelativeLocation :: bool

record AAlsCharacter =
  GetStance :: EAlsStance
  GetGait :: EAlsGait
  GetRotationMode :: EAlsRotationMode
  GetLocomotionMode :: LocomotionModeTag
  GetLocomotionAction :: LocomotionActionTag
  GetViewMode :: EAlsViewMode
  GetOverlayMode :: nat
  GetViewState :: FAlsViewState
  GetLocomotionState :: FAlsLocomotionState
  GetMaxAcceleration :: real
  GetMaxBrakingDeceleration :: real
  GetWalkableFloorZ :: real
  GetScaledCapsuleRadius :: real
  GetScaledCapsuleHalfHeight :: real
  GetBasedMovement :: FBasedMovementInfo

text \<open>
  What the host gives the instance during one frame: the curve values evaluated by the pose
  graph, the thread the pass runs on, the component transform, the skeletal mesh, and the
  collision queries of the world.
\<close>

record World =
  GetCurveValue :: "CurveName \<Rightarrow> real"
  IsInGameThread :: bool
  WITH_EDITOR :: bool
  IsGameWorld :: bool
  GetComponentTransform :: FTransform
  GetComponentScaleZ :: real
  GetSocketTransform :: "BoneName \<Rightarrow> FTransform"
  GetPhysicsLinearVelocitySize :: "BoneName \<Rightarrow> real"
  GetMovementBaseTransform :: "UPrimitiveComponent option \<Rightarrow> FName \<Rightarrow> FVector \<times> FQuat"
  ApplyRotationYawSpeedFromAnimationInstance :: "real \<Rightarrow> AAlsCharacter \<Rightarrow> AAlsCharacter"
  SweepSingleByObjectType :: "FVector \<Rightarrow> FVector \<Rightarrow> nat list \<Rightarrow> real \<Rightarrow> real \<Rightarrow> FHitResult"
  LineTraceSingleByChannel :: "FVector \<Rightarrow> FVector \<Rightarrow> nat \<Rightarrow> FHitResult"


section \<open>State blocks of the animation instance\<close>

record FAlsLayeringState =
  LayeringState_HeadBlendAmount :: real
  LayeringState_HeadAdditiveBlendAmount :: real
  LayeringState_HeadSlotBlendAmount :: real
  LayeringState_ArmLeftBlendAmount :: real
  LayeringState_ArmLeftAdditiveBlendAmount :: real
  LayeringState_ArmLeftSlotBlendAmount :: real
  LayeringState_ArmLeftLocalSpaceBlendAmount :: real
  LayeringState_ArmLeftMeshSpaceBlendAmount :: real
  LayeringState_ArmRightBlendAmount :: real
  LayeringState_ArmRightAdditiveBlendAmount :: real
  LayeringState_ArmRightSlotBlendAmount :: real
  LayeringState_ArmRightLocalSpaceBlendAmount :: real
  LayeringState_ArmRightMeshSpaceBlendAmount :: real
  LayeringState_HandLeftBlendAmount :: real
  LayeringState_HandRightBlendAmount :: real
  LayeringState_SpineBlendAmount :: real
  LayeringState_SpineAdditiveBlendAmount :: real
  LayeringState_SpineSlotBlendAmount :: real
  LayeringState_PelvisBlendAmount :: real
  LayeringState_PelvisSlotBlendAmount :: real
  LayeringState_LegsBlendAmount :: real
  LayeringState_LegsSlotBlendAmount :: real

record FAlsPoseState =
  PoseState_GaitAmount :: real
  PoseState_GaitWalkingAmount :: real
  PoseState_GaitRunningAmount :: real
  PoseState_GaitSprintingAmount :: real
  PoseState_MovingAmount :: real
  PoseState_StandingAmount :: real
  PoseState_CrouchingAmount :: real
  PoseState_GroundedAmount :: real
  PoseState_InAirAmount :: real

record FAlsLookTowardsInputState =
  LookTowardsInput_bReinitializationRequired :: bool
  LookTowardsInput_YawAngle :: real
  LookTowardsInput_YawAmount :: real

record FAlsLookTowardsCameraState =
  LookTowardsCamera_bReinitializationRequired :: bool
  LookTowardsCamera_Rotation :: FRotator
  LookTowardsCamera_YawAngle :: real
  LookTowardsCamera_PitchAngle :: real
  LookTowardsCamera_YawForwardAmount :: real
  LookTowardsCamera_YawLeftAmount :: real
  LookTowardsCamera_YawRightAmount :: real

record FAlsViewAnimationState =
  ViewState_Rotation :: FRotator
  ViewState_YawSpeed :: real
  ViewState_YawAngle :: real
  ViewState_PitchAngle :: real
  ViewState_PitchAmount :: real
  ViewState_LookAmount :: real
  ViewState_TargetSpineYawAngle :: real
  ViewState_SpineYawAngle :: real
  ViewState_LookTowardsInput :: FAlsLookTowardsInputState
  ViewState_LookTowardsCamera :: FAlsLookTowardsCameraState

record FAlsMovementBaseState =
  BasedMovement_Primitive :: "UPrimitiveComponent option"
  BasedMovement_BoneName :: FName
  BasedMovement_bBaseChanged :: bool
  BasedMovement_bHasRelativeLocation :: bool
  BasedMovement_Location :: FVector
  BasedMovement_Rotation :: FQuat

record FAlsLocomotionAnimationState =
  LocomotionState_bHasInput :: bool
  LocomotionState_InputYawAngle :: real
  LocomotionState_Speed :: real
  LocomotionState_Velocity :: FVector
  LocomotionState_VelocityYawAngle :: real
  LocomotionState_Acceleration :: FVector
  LocomotionState_MaxAcceleration :: real
  LocomotionState_MaxBrakingDeceleration :: real
  LocomotionState_WalkableFloorZ :: real
  LocomotionState_bMoving :: bool
  LocomotionState_bMovingSmooth :: bool
  LocomotionState_TargetYawAngle :: real
  LocomotionState_Location :: FVector
  LocomotionState_Rotation :: FRotator
  LocomotionState_RotationQuaternion :: FQuat
  LocomotionState_YawSpeed :: real
  LocomotionState_Scale :: real
  LocomotionState_CapsuleRadius :: real
  LocomotionState_CapsuleHalfHeight :: real
  LocomotionState_BasedMovement :: FAlsMovementBaseState

record FAlsVelocityBlendState =
  VelocityBlend_bReinitializationRequired :: bool
  VelocityBlend_ForwardAmount :: FloatValue
  VelocityBlend_BackwardAmount :: FloatValue
  VelocityBlend_LeftAmount :: FloatValue
  VelocityBlend_RightAmount :: FloatValue

record FAlsRotationYawOffsetsState =
  RotationYawOffsets_ForwardAngle :: real
  RotationYawOffsets_BackwardAngle :: real
  RotationYawOffsets_LeftAngle :: real
  RotationYawOffsets_RightAngle :: real

record FAlsGroundedState =
  GroundedState_bPivotActivationRequested :: bool
  GroundedState_bPivotActive :: bool
  GroundedState_SprintBlockAmount :: real
  GroundedState_HipsDirectionLockAmount :: real
  GroundedState_MovementDirection :: EAlsMovementDirection
  GroundedState_VelocityBlend :: FAlsVelocityBlendState
  GroundedState_RotationYawOffsets :: FAlsRotationYawOffsetsState
  GroundedState_SprintTime :: real
  GroundedState_SprintAccelerationAmount :: real
  GroundedState_StrideBlendAmount :: real
  GroundedState_WalkRunBlendAmount :: real
  GroundedState_StandingPlayRate :: real
  GroundedState_CrouchingPlayRate :: real

record FAlsLeanState =
  LeanState_RightAmount :: real
  LeanState_ForwardAmount :: real

record FAlsInAirState =
  InAirState_bJumpRequested :: bool
  InAirState_bJumped :: bool
  InAirState_JumpPlayRate :: real
  InAirState_VerticalVelocity :: real
  InAirState_GroundPredictionAmount :: real

record FAlsFootState =
  Foot_IkAmount :: real
  Foot_LockAmount :: real
  Foot_TargetLocation :: FVector
  Foot_TargetRotation :: FQuat
  Foot_LockLocation :: FVector
  Foot_LockRotation :: FQuat
  Foot_LockComponentRelativeLocation :: FVector
  Foot_LockComponentRelativeRotation :: FQuat
  Foot_LockMovementBaseRelativeLocation :: FVector
  Foot_LockMovementBaseRelativeRotation :: FQuat
  Foot_OffsetTargetLocation :: FVector
  Foot_OffsetTargetRotation :: FQuat
  Foot_OffsetSpringState :: FAlsSpringVectorState
  Foot_OffsetLocation :: FVector
  Foot_OffsetRotation :: FQuat
  Foot_IkLocation :: FVector
  Foot_IkRotation :: FQuat

record FAlsFeetState =
  FeetState_bReinitializationRequired :: bool
  FeetState_FootPlantedAmount :: real
  FeetState_FeetCrossingAmount :: real
  FeetState_Left :: FAlsFootState
  FeetState_Right :: FAlsFootState
  FeetState_MinMaxPelvisOffsetZ :: FVector2D

record FAlsTransitionsState =
  TransitionsState_bTransitionsAllowed :: bool
  TransitionsState_DynamicTransitionsFrameDelay :: int
  TransitionsState_QueuedDynamicTransitionAnimation :: "UAnimSequenceBase option"

record FAlsRotateInPlaceState =
  RotateInPlaceState_bRotatingLeft :: bool
  RotateInPlaceState_bRotatingRight :: bool
  RotateInPlaceState_PlayRate :: real
  RotateInPlaceState_FootLockBlockAmount :: real

record FAlsTurnInPlaceState =
  TurnInPlaceState_ActivationDelay :: real
  TurnInPlaceState_QueuedSettings :: "UAlsTurnInPlaceSettings option"
  TurnInPlaceState_QueuedSlotName :: SlotName
  TurnInPlaceState_QueuedTurnYawAngle :: real
  TurnInPlaceState_PlayRate :: real
  TurnInPlaceState_bFootLockDisabled :: bool

record FAlsRagdollingAnimationState =
  RagdollingState_FlailPlayRate :: real

text \<open>
  Playing a montage is an effect on the animation system outside the instance; the model
  records every call of \<^verbatim>\<open>PlaySlotAnimationAsDynamicMontage\<close>, in order, with its arguments
  (animation, slot, blend-in time, blend-out time, play rate, loop count, blend-out trigger
  time, start time).
\<close>

datatype MontageCall =
  PlaySlotAnimationAsDynamicMontage "UAnimSequenceBase option" SlotName real real real int real real

record UAlsAnimationInstance =
  Settings :: "UAlsAnimationInstanceSettings option"
  Character :: "AAlsCharacter option"
  bPendingUpdate :: bool
  bTeleported :: bool
  bAnimationCurvesRelevant :: bool
  bAnimationCurvesRelevantGameThread :: bool
  Stance :: EAlsStance
  Gait :: EAlsGait
  RotationMode :: EAlsRotationMode
  LocomotionMode :: LocomotionModeTag
  LocomotionAction :: LocomotionActionTag
  ViewMode :: EAlsViewMode
  OverlayMode :: nat
  GroundedEntryMode :: nat
  LayeringState :: FAlsLayeringState
  PoseState :: FAlsPoseState
  ViewState :: FAlsViewAnimationState
  LocomotionState :: FAlsLocomotionAnimationState
  GroundedState :: FAlsGroundedState
  LeanState :: FAlsLeanState
  InAirState :: FAlsInAirState
  FeetState :: FAlsFeetState
  TransitionsState :: FAlsTransitionsState
  RotateInPlaceState :: FAlsRotateInPlaceState
  TurnInPlaceState :: FAlsTurnInPlaceState
  RagdollingState :: FAlsRagdollingAnimationState
  PlayedMontages :: "MontageCall list"


section \<open>Curve values\<close>

definition GetCurveValueClamped01 :: "World \<Rightarrow> CurveName \<Rightarrow> real" where
  "GetCurveValueClamped01 w Name = Clamp01 (GetCurveValue w Name)"


section \<open>View\<close>

text \<open>
  The functions of the instance dereference \<^verbatim>\<open>Settings\<close> only below the null test of the
  per-frame entry points; they take the settings object \<open>st\<close> as an argument.
\<close>

definition IsSpineRotationAllowed :: "UAlsAnimationInstance \<Rightarrow> bool" where
  "IsSpineRotationAllowed s \<longleftrightarrow> RotationMode s = Aiming"

definition RefreshLookTowardsInput ::
  "Engine \<Rightarrow> UAlsAnimationInstanceSettings \<Rightarrow> UAlsAnimationInstance \<Rightarrow> real \<Rightarrow> UAlsAnimationInstance" where
  "RefreshLookTowardsInput eng st s DeltaTime =
    (let Locomotion = LocomotionState s;
         LookTowardsInput = ViewState_LookTowardsInput (ViewState s);
         bReinitializationRequired =
           (LookTowardsInput_bReinitializationRequired LookTowardsInput \<or> bPendingUpdate s);
         TargetYawAngle = NormalizeAxis eng
           ((if LocomotionState_bHasInput Locomotion then LocomotionState_InputYawAngle Locomotion
             else LocomotionState_TargetYawAngle Locomotion) -
            Yaw (LocomotionState_Rotation Locomotion));
         YawAngle =
           (if bReinitializationRequired \<or>
               View_LookTowardsInputYawAngleInterpolationSpeed (View st) \<le> 0
            then TargetYawAngle
            else
              (let TargetYawAngle' =
                     (if TargetYawAngle > 180 - CounterClockwiseRotationAngleThreshold eng
                      then TargetYawAngle - 360 else TargetYawAngle);
                   YawAngle0 = NormalizeAxis eng
                     (LookTowardsInput_YawAngle LookTowardsInput -
                      Yaw (LocomotionState_Rotation Locomotion));
                   DeltaYawAngle0 = Clamp (TargetYawAngle' - YawAngle0) (- 90) 90;
                   DeltaYawAngle =
                     (if \<bar>LocomotionState_YawSpeed Locomotion\<bar> > SMALL_NUMBER \<and>
                         \<bar>TargetYawAngle'\<bar> > 90 \<and>
                         \<bar>TargetYawAngle'\<bar> < 180 - CounterClockwiseRotationAngleThreshold eng
                      then (if LocomotionState_YawSpeed Locomotion > 0
                            then \<bar>DeltaYawAngle0\<bar> else - \<bar>DeltaYawAngle0\<bar>)
                      else DeltaYawAngle0)
               in NormalizeAxis eng
                    (YawAngle0 + DeltaYawAngle *
                       ExponentialDecay eng DeltaTime
                         (View_LookTowardsInputYawAngleInterpolationSpeed (View st)))))
     in s\<lparr>ViewState := (ViewState s)\<lparr>ViewState_LookTowardsInput := LookTowardsInput
          \<lparr>LookTowardsInput_YawAngle :=
             NormalizeAxis eng (Yaw (LocomotionState_Rotation Locomotion) + Clamp YawAngle (- 90) 90),
           LookTowardsInput_YawAmount := YawAngle / 180 + 1 / 2,
           LookTowardsInput_bReinitializationRequired := False\<rparr>\<rparr>\<rparr>)"

definition RefreshLookTowardsCamera ::
  "Engine \<Rightarrow> UAlsAnimationInstanceSettings \<Rightarrow> UAlsAnimationInstance \<Rightarrow> real \<Rightarrow> UAlsAnimationInstance" where
  "RefreshLookTowardsCamera eng st s DeltaTime =
    (let LookTowardsCamera = ViewState_LookTowardsCamera (ViewState s);
         bReinitializationRequired =
           (LookTowardsCamera_bReinitializationRequired LookTowardsCamera \<or> bPendingUpdate s);
         Rotation =
           (if bReinitializationRequired then ViewState_Rotation (ViewState s)
            else ExponentialDecayRotator eng (LookTowardsCamera_Rotation LookTowardsCamera)
                   (ViewState_Rotation (ViewState s)) DeltaTime
                   (View_LookTowardsCameraRotationInterpolationSpeed (View st)));
         YawAngle = NormalizeAxis eng (Yaw Rotation - Yaw (LocomotionState_Rotation (LocomotionState s)));
         PitchAngle = NormalizeAxis eng (Pitch Rotation - Pitch (LocomotionState_Rotation (LocomotionState s)));
         YawForwardAmount = YawAngle / 360 + 1 / 2
     in s\<lparr>ViewState := (ViewState s)\<lparr>ViewState_LookTowardsCamera := LookTowardsCamera
          \<lparr>LookTowardsCamera_Rotation := Rotation,
           LookTowardsCamera_YawAngle := YawAngle,
           LookTowardsCamera_PitchAngle := PitchAngle,
           LookTowardsCamera_YawForwardAmount := YawForwardAmount,
           LookTowardsCamera_YawLeftAmount := 1 / 2 - \<bar>YawForwardAmount - 1 / 2\<bar>,
           LookTowardsCamera_YawRightAmount := 1 / 2 + \<bar>YawForwardAmount - 1 / 2\<bar>,
           LookTowardsCamera_bReinitializationRequired := False\<rparr>\<rparr>\<rparr>)"

definition AimingAllowedAmount :: "World \<Rightarrow> real" where
  "AimingAllowedAmount w = 1 - GetCurveValueClamped01 w AimBlockCurve"

definition AimingManualAmount :: "World \<Rightarrow> real" where
  "AimingManualAmount w = GetCurveValueClamped01 w AimManualCurve"

definition RefreshView ::
  "Engine \<Rightarrow> World \<Rightarrow> UAlsAnimationInstanceSettings \<Rightarrow> UAlsAnimationInstance \<Rightarrow> real
    \<Rightarrow> UAlsAnimationInstance" where
  "RefreshView eng w st s DeltaTime =
    (let s1 =
           (if \<not> IsValidTag (LocomotionAction s) then
              (let YawAngle = NormalizeAxis eng
                     (Yaw (ViewState_Rotation (ViewState s)) - Yaw (LocomotionState_Rotation (LocomotionState s)));
                   PitchAngle = NormalizeAxis eng
                     (Pitch (ViewState_Rotation (ViewState s)) - Pitch (LocomotionState_Rotation (LocomotionState s)))
               in s\<lparr>ViewState := (ViewState s)
                    \<lparr>ViewState_YawAngle := YawAngle,
                     ViewState_PitchAngle := PitchAngle,
                     ViewState_PitchAmount := 1 / 2 - PitchAngle / 180\<rparr>\<rparr>)
            else s);
         s2 = s1\<lparr>ViewState := (ViewState s1)
                \<lparr>ViewState_LookAmount := AimingAllowedAmount w * (1 - AimingManualAmount w)\<rparr>\<rparr>;
         s3 =
           (if IsSpineRotationAllowed s2 then
              s2\<lparr>ViewState := (ViewState s2)
                \<lparr>ViewState_TargetSpineYawAngle :=
                   (if ViewState_YawAngle (ViewState s2) > 180 - CounterClockwiseRotationAngleThreshold eng
                    then ViewState_YawAngle (ViewState s2) - 360
                    else ViewState_YawAngle (ViewState s2))\<rparr>\<rparr>
            else s2);
         s4 = s3\<lparr>ViewState := (ViewState s3)
                \<lparr>ViewState_SpineYawAngle := NormalizeAxis eng
                   (ViewState_TargetSpineYawAngle (ViewState s3) * AimingAllowedAmount w * AimingManualAmount w)\<rparr>\<rparr>
     in if \<not> IsRelevant (ViewState_LookAmount (ViewState s4)) then
          s4\<lparr>ViewState := (ViewState s4)
            \<lparr>ViewState_LookTowardsInput := (ViewState_LookTowardsInput (ViewState s4))
               \<lparr>LookTowardsInput_bReinitializationRequired := True\<rparr>,
             ViewState_LookTowardsCamera := (ViewState_LookTowardsCamera (ViewState s4))
               \<lparr>LookTowardsCamera_bReinitializationRequired := True\<rparr>\<rparr>\<rparr>
        else if RotationMode s4 = VelocityDirection then
          RefreshLookTowardsInput eng st
            (s4\<lparr>ViewState := (ViewState s4)
               \<lparr>ViewState_LookTowardsCamera := (ViewState_LookTowardsCamera (ViewState s4))
                  \<lparr>LookTowardsCamera_bReinitializationRequired := True\<rparr>\<rparr>\<rparr>) DeltaTime
        else
          RefreshLookTowardsCamera eng st
            (s4\<lparr>ViewState := (ViewState s4)
               \<lparr>ViewState_LookTowardsInput := (ViewState_LookTowardsInput (ViewState s4))
                  \<lparr>LookTowardsInput_bReinitializationRequired := True\<rparr>\<rparr>\<rparr>) DeltaTime)"


section \<open>Layering and pose\<close>

definition RefreshLayering :: "World \<Rightarrow> UAlsAnimationInstance \<Rightarrow> UAlsAnimationInstance" where
  "RefreshLayering w s =
    (if \<not> bAnimationCurvesRelevant s then s
     else
       (let L1 = (LayeringState s)
              \<lparr>LayeringState_HeadBlendAmount := GetCurveValueClamped01 w LayerHeadCurve,
               LayeringState_HeadAdditiveBlendAmount := GetCurveValueClamped01 w LayerHeadAdditiveCurve,
               LayeringState_HeadSlotBlendAmount := GetCurveValueClamped01 w LayerHeadSlotCurve,
               LayeringState_ArmLeftBlendAmount := GetCurveValueClamped01 w LayerArmLeftCurve,
               LayeringState_ArmLeftAdditiveBlendAmount := GetCurveValueClamped01 w LayerArmLeftAdditiveCurve,
               LayeringState_ArmLeftSlotBlendAmount := GetCurveValueClamped01 w LayerArmLeftSlotCurve,
               LayeringState_ArmLeftLocalSpaceBlendAmount := GetCurveValueClamped01 w LayerArmLeftLocalSpaceCurve\<rparr>;
            L2 = L1
              \<lparr>LayeringState_ArmLeftMeshSpaceBlendAmount :=
                 bool_to_float (\<not> IsFullWeight (LayeringState_ArmLeftLocalSpaceBlendAmount L1))\<rparr>;
            L3 = L2
              \<lparr>LayeringState_ArmRightBlendAmount := GetCurveValueClamped01 w LayerArmRightCurve,
               LayeringState_ArmRightAdditiveBlendAmount := GetCurveValueClamped01 w LayerArmRightAdditiveCurve,
               LayeringState_ArmRightSlotBlendAmount := GetCurveValueClamped01 w LayerArmRightSlotCurve,
               LayeringState_ArmRightLocalSpaceBlendAmount := GetCurveValueClamped01 w LayerArmRightLocalSpaceCurve\<rparr>;
            L4 = L3
              \<lparr>LayeringState_ArmRightMeshSpaceBlendAmount :=
                 bool_to_float (\<not> IsFullWeight (LayeringState_ArmRightLocalSpaceBlendAmount L3))\<rparr>;
            L5 = L4
              \<lparr>LayeringState_HandLeftBlendAmount := GetCurveValueClamped01 w LayerHandLeftCurve,
               LayeringState_HandRightBlendAmount := GetCurveValueClamped01 w LayerHandRightCurve,
               LayeringState_SpineBlendAmount := GetCurveValueClamped01 w LayerSpineCurve,
               LayeringState_SpineAdditiveBlendAmount := GetCurveValueClamped01 w LayerSpineAdditiveCurve,
               LayeringState_SpineSlotBlendAmount := GetCurveValueClamped01 w LayerSpineSlotCurve,
               LayeringState_PelvisBlendAmount := GetCurveValueClamped01 w LayerPelvisCurve,
               LayeringState_PelvisSlotBlendAmount := GetCurveValueClamped01 w LayerPelvisSlotCurve,
               LayeringState_LegsBlendAmount := GetCurveValueClamped01 w LayerLegsCurve,
               LayeringState_LegsSlotBlendAmount := GetCurveValueClamped01 w LayerLegsSlotCurve\<rparr>
        in s\<lparr>LayeringState := L5\<rparr>))"

definition RefreshPose :: "World \<Rightarrow> UAlsAnimationInstance \<Rightarrow> UAlsAnimationInstance" where
  "RefreshPose w s =
    (if \<not> bAnimationCurvesRelevant s then s
     else
       (let P1 = (PoseState s)\<lparr>PoseState_GaitAmount := Clamp (GetCurveValue w PoseGaitCurve) 0 3\<rparr>;
            P2 = P1
              \<lparr>PoseState_GaitWalkingAmount := Clamp01 (PoseState_GaitAmount P1),
               PoseState_GaitRunningAmount := Clamp01 (PoseState_GaitAmount P1 - 1),
               PoseState_GaitSprintingAmount := Clamp01 (PoseState_GaitAmount P1 - 2),
               PoseState_MovingAmount := GetCurveValueClamped01 w PoseMovingCurve,
               PoseState_StandingAmount := GetCurveValueClamped01 w PoseStandingCurve,
               PoseState_CrouchingAmount := GetCurveValueClamped01 w PoseCrouchingCurve,
               PoseState_GroundedAmount := GetCurveValueClamped01 w PoseGroundedCurve,
               PoseState_InAirAmount := GetCurveValueClamped01 w PoseInAirCurve\<rparr>
        in s\<lparr>PoseState := P2\<rparr>))"


section \<open>Grounded\<close>

definition RefreshMovementDirection :: "Engine \<Rightarrow> UAlsAnimationInstance \<Rightarrow> UAlsAnimationInstance" where
  "RefreshMovementDirection eng s =
    (if Gait s = Sprinting \<or> RotationMode s = VelocityDirection then
       s\<lparr>GroundedState := (GroundedState s)\<lparr>GroundedState_MovementDirection := Forward\<rparr>\<rparr>
     else
       s\<lparr>GroundedState := (GroundedState s)\<lparr>GroundedState_MovementDirection :=
           CalculateMovementDirection eng
             (NormalizeAxis eng (LocomotionState_VelocityYawAngle (LocomotionState s) -
                                 Yaw (ViewState_Rotation (ViewState s))))
             70 5\<rparr>\<rparr>)"

text \<open>
  The two local constants of \<^verbatim>\<open>RefreshVelocityBlend\<close>: the unit vector of the velocity in
  the frame of the character, and that vector divided by the sum of the absolute values of
  its components. When the sum is zero, every component is zero and the source divides zero
  by zero: the direction is then a vector of values that are not numbers, \<open>None\<close> in the model.
\<close>

definition RelativeVelocityDirection :: "Engine \<Rightarrow> UAlsAnimationInstance \<Rightarrow> FVector" where
  "RelativeVelocityDirection eng s =
    GetSafeNormal eng
      (UnrotateVector eng (LocomotionState_RotationQuaternion (LocomotionState s))
         (LocomotionState_Velocity (LocomotionState s)))"

definition RelativeDirection :: "Engine \<Rightarrow> UAlsAnimationInstance \<Rightarrow> FVector option" where
  "RelativeDirection eng s =
    (if \<bar>X (RelativeVelocityDirection eng s)\<bar> + \<bar>Y (RelativeVelocityDirection eng s)\<bar> +
        \<bar>Z (RelativeVelocityDirection eng s)\<bar> = 0
     then None
     else Some (FVector_div (RelativeVelocityDirection eng s)
       (\<bar>X (RelativeVelocityDirection eng s)\<bar> + \<bar>Y (RelativeVelocityDirection eng s)\<bar> +
        \<bar>Z (RelativeVelocityDirection eng s)\<bar>)))"

text \<open>
  The components of the direction as \<^verbatim>\<open>float\<close> values, and the three operations the velocity
  blend applies to them, on numbers as everywhere else and on a value that is not a number
  as the engine has it.
\<close>

fun ComponentX :: "FVector option \<Rightarrow> FloatValue" where
  "ComponentX (Some V) = Number (X V)"
| "ComponentX None = NotANumber"

fun ComponentY :: "FVector option \<Rightarrow> FloatValue" where
  "ComponentY (Some V) = Number (Y V)"
| "ComponentY None = NotANumber"

fun Clamp01Value :: "Engine \<Rightarrow> FloatValue \<Rightarrow> FloatValue" where
  "Clamp01Value eng (Number v) = Number (Clamp01 v)"
| "Clamp01Value eng NotANumber = Clamp01NaN eng"

fun AbsClampValue :: "Engine \<Rightarrow> FloatValue \<Rightarrow> real \<Rightarrow> real \<Rightarrow> FloatValue" where
  "AbsClampValue eng (Number v) MinValue MaxValue = Number \<bar>Clamp v MinValue MaxValue\<bar>"
| "AbsClampValue eng NotANumber MinValue MaxValue = AbsClampNaN eng MinValue MaxValue"

fun FInterpToValue :: "Engine \<Rightarrow> FloatValue \<Rightarrow> FloatValue \<Rightarrow> real \<Rightarrow> real \<Rightarrow> FloatValue" where
  "FInterpToValue eng (Number Current) (Number Target) DeltaTime InterpSpeed =
     Number (FInterpTo eng Current Target DeltaTime InterpSpeed)"
| "FInterpToValue eng NotANumber Target DeltaTime InterpSpeed =
     FInterpToNaN eng NotANumber Target DeltaTime InterpSpeed"
| "FInterpToValue eng (Number Current) NotANumber DeltaTime InterpSpeed =
     FInterpToNaN eng (Number Current) NotANumber DeltaTime InterpSpeed"

definition RefreshVelocityBlend ::
  "Engine \<Rightarrow> UAlsAnimationInstanceSettings \<Rightarrow> UAlsAnimationInstance \<Rightarrow> real \<Rightarrow> UAlsAnimationInstance" where
  "RefreshVelocityBlend eng st s DeltaTime =
    (let VelocityBlend0 = GroundedState_VelocityBlend (GroundedState s);
         VelocityBlend = VelocityBlend0
           \<lparr>VelocityBlend_bReinitializationRequired :=
              (VelocityBlend_bReinitializationRequired VelocityBlend0 \<or> bPendingUpdate s)\<rparr>;
         Direction = RelativeDirection eng s;
         Speed = Grounded_VelocityBlendInterpolationSpeed (Grounded st)
     in if VelocityBlend_bReinitializationRequired VelocityBlend then
          s\<lparr>GroundedState := (GroundedState s)\<lparr>GroundedState_VelocityBlend := VelocityBlend
            \<lparr>VelocityBlend_bReinitializationRequired := False,
             VelocityBlend_ForwardAmount := Clamp01Value eng (ComponentX Direction),
             VelocityBlend_BackwardAmount := AbsClampValue eng (ComponentX Direction) (- 1) 0,
             VelocityBlend_LeftAmount := AbsClampValue eng (ComponentY Direction) (- 1) 0,
             VelocityBlend_RightAmount := Clamp01Value eng (ComponentY Direction)\<rparr>\<rparr>\<rparr>
        else
          s\<lparr>GroundedState := (GroundedState s)\<lparr>GroundedState_VelocityBlend := VelocityBlend
            \<lparr>VelocityBlend_ForwardAmount :=
               FInterpToValue eng (VelocityBlend_ForwardAmount VelocityBlend)
                 (Clamp01Value eng (ComponentX Direction)) DeltaTime Speed,
             VelocityBlend_BackwardAmount :=
               FInterpToValue eng (VelocityBlend_BackwardAmount VelocityBlend)
                 (AbsClampValue eng (ComponentX Direction) (- 1) 0) DeltaTime Speed,
             VelocityBlend_LeftAmount :=
               FInterpToValue eng (VelocityBlend_LeftAmount VelocityBlend)
                 (AbsClampValue eng (ComponentY Direction) (- 1) 0) DeltaTime Speed,
             VelocityBlend_RightAmount :=
               FInterpToValue eng (VelocityBlend_RightAmount VelocityBlend)
                 (Clamp01Value eng (ComponentY Direction)) DeltaTime Speed\<rparr>\<rparr>\<rparr>)"

definition RefreshRotationYawOffsets ::
  "Engine \<Rightarrow> UAlsAnimationInstanceSettings \<Rightarrow> UAlsAnimationInstance \<Rightarrow> UAlsAnimationInstance" where
  "RefreshRotationYawOffsets eng st s =
    (let RotationYawOffset = NormalizeAxis eng
           (LocomotionState_VelocityYawAngle (LocomotionState s) - Yaw (ViewState_Rotation (ViewState s)))
     in s\<lparr>GroundedState := (GroundedState s)\<lparr>GroundedState_RotationYawOffsets :=
          (GroundedState_RotationYawOffsets (GroundedState s))
          \<lparr>RotationYawOffsets_ForwardAngle := Grounded_RotationYawOffsetForwardCurve (Grounded st) RotationYawOffset,
           RotationYawOffsets_BackwardAngle := Grounded_RotationYawOffsetBackwardCurve (Grounded st) RotationYawOffset,
           RotationYawOffsets_LeftAngle := Grounded_RotationYawOffsetLeftCurve (Grounded st) RotationYawOffset,
           RotationYawOffsets_RightAngle := Grounded_RotationYawOffsetRightCurve (Grounded st) RotationYawOffset\<rparr>\<rparr>\<rparr>)"

definition RefreshSprint :: "UAlsAnimationInstance \<Rightarrow> FVector \<Rightarrow> real \<Rightarrow> UAlsAnimationInstance" where
  "RefreshSprint s RelativeAccelerationAmount DeltaTime =
    (if Gait s \<noteq> Sprinting then
       s\<lparr>GroundedState := (GroundedState s)
         \<lparr>GroundedState_SprintTime := 0, GroundedState_SprintAccelerationAmount := 0\<rparr>\<rparr>
     else
       (let TimeThreshold = 1 / 2;
            SprintTime = (if bPendingUpdate s then TimeThreshold
                          else GroundedState_SprintTime (GroundedState s) + DeltaTime)
        in s\<lparr>GroundedState := (GroundedState s)
             \<lparr>GroundedState_SprintTime := SprintTime,
              GroundedState_SprintAccelerationAmount :=
                (if SprintTime \<ge> TimeThreshold then 0 else X RelativeAccelerationAmount)\<rparr>\<rparr>))"

definition RefreshStrideBlendAmount ::
  "UAlsAnimationInstanceSettings \<Rightarrow> UAlsAnimationInstance \<Rightarrow> UAlsAnimationInstance" where
  "RefreshStrideBlendAmount st s =
    (let Speed = LocomotionState_Speed (LocomotionState s) / LocomotionState_Scale (LocomotionState s);
         StandingStrideBlend =
           Lerp (Grounded_StrideBlendAmountWalkCurve (Grounded st) Speed)
                (Grounded_StrideBlendAmountRunCurve (Grounded st) Speed)
                (PoseState_GaitRunningAmount (PoseState s))
     in s\<lparr>GroundedState := (GroundedState s)\<lparr>GroundedState_StrideBlendAmount :=
          Lerp StandingStrideBlend (Grounded_StrideBlendAmountWalkCurve (Grounded st) Speed)
               (PoseState_CrouchingAmount (PoseState s))\<rparr>\<rparr>)"

definition RefreshWalkRunBlendAmount :: "UAlsAnimationInstance \<Rightarrow> UAlsAnimationInstance" where
  "RefreshWalkRunBlendAmount s =
    s\<lparr>GroundedState := (GroundedState s)\<lparr>GroundedState_WalkRunBlendAmount :=
       (if Gait s = Walking then 0 else 1)\<rparr>\<rparr>"

definition RefreshStandingPlayRate ::
  "UAlsAnimationInstanceSettings \<Rightarrow> UAlsAnimationInstance \<Rightarrow> UAlsAnimationInstance" where
  "RefreshStandingPlayRate st s =
    (let Speed = LocomotionState_Speed (LocomotionState s);
         WalkRunSpeedAmount =
           Lerp (Speed / Grounded_AnimatedWalkSpeed (Grounded st))
                (Speed / Grounded_AnimatedRunSpeed (Grounded st))
                (PoseState_GaitRunningAmount (PoseState s));
         WalkRunSprintSpeedAmount =
           Lerp WalkRunSpeedAmount (Speed / Grounded_AnimatedSprintSpeed (Grounded st))
                (PoseState_GaitSprintingAmount (PoseState s))
     in s\<lparr>GroundedState := (GroundedState s)\<lparr>GroundedState_StandingPlayRate :=
          Clamp (WalkRunSprintSpeedAmount /
                 (GroundedState_StrideBlendAmount (GroundedState s) * LocomotionState_Scale (LocomotionState s)))
                0 3\<rparr>\<rparr>)"

definition RefreshCrouchingPlayRate ::
  "UAlsAnimationInstanceSettings \<Rightarrow> UAlsAnimationInstance \<Rightarrow> UAlsAnimationInstance" where
  "RefreshCrouchingPlayRate st s =
    s\<lparr>GroundedState := (GroundedState s)\<lparr>GroundedState_CrouchingPlayRate :=
       Clamp (LocomotionState_Speed (LocomotionState s) /
              (Grounded_AnimatedCrouchSpeed (Grounded st) * GroundedState_StrideBlendAmount (GroundedState s) *
               LocomotionState_Scale (LocomotionState s)))
             0 2\<rparr>\<rparr>"

definition RefreshGroundedLeanAmount ::
  "Engine \<Rightarrow> UAlsAnimationInstanceSettings \<Rightarrow> UAlsAnimationInstance \<Rightarrow> FVector \<Rightarrow> real
    \<Rightarrow> UAlsAnimationInstance" where
  "RefreshGroundedLeanAmount eng st s RelativeAccelerationAmount DeltaTime =
    (if bPendingUpdate s then
       s\<lparr>LeanState := (LeanState s)
         \<lparr>LeanState_RightAmount := Y RelativeAccelerationAmount,
          LeanState_ForwardAmount := X RelativeAccelerationAmount\<rparr>\<rparr>
     else
       s\<lparr>LeanState := (LeanState s)
         \<lparr>LeanState_RightAmount := FInterpTo eng (LeanState_RightAmount (LeanState s))
            (Y RelativeAccelerationAmount) DeltaTime (General_LeanInterpolationSpeed (General st)),
          LeanState_ForwardAmount := FInterpTo eng (LeanState_ForwardAmount (LeanState s))
            (X RelativeAccelerationAmount) DeltaTime (General_LeanInterpolationSpeed (General st))\<rparr>\<rparr>)"

definition ResetGroundedLeanAmount ::
  "Engine \<Rightarrow> UAlsAnimationInstanceSettings \<Rightarrow> UAlsAnimationInstance \<Rightarrow> real \<Rightarrow> UAlsAnimationInstance" where
  "ResetGroundedLeanAmount eng st s DeltaTime =
    s\<lparr>LeanState := (LeanState s)
      \<lparr>LeanState_RightAmount := FInterpTo eng (LeanState_RightAmount (LeanState s)) 0 DeltaTime
         (General_LeanInterpolationSpeed (General st)),
       LeanState_ForwardAmount := FInterpTo eng (LeanState_ForwardAmount (LeanState s)) 0 DeltaTime
         (General_LeanInterpolationSpeed (General st))\<rparr>\<rparr>"

definition RefreshGrounded ::
  "Engine \<Rightarrow> World \<Rightarrow> UAlsAnimationInstanceSettings \<Rightarrow> UAlsAnimationInstance \<Rightarrow> real
    \<Rightarrow> UAlsAnimationInstance" where
  "RefreshGrounded eng w st s DeltaTime =
    (let s1 = s\<lparr>GroundedState := (GroundedState s)
               \<lparr>GroundedState_SprintBlockAmount := GetCurveValueClamped01 w SprintBlockCurve,
                GroundedState_HipsDirectionLockAmount := Clamp (GetCurveValue w HipsDirectionLockCurve) (- 1) 1\<rparr>\<rparr>
     in if LocomotionMode s1 \<noteq> LocomotionMode_Grounded then
          s1\<lparr>GroundedState := (GroundedState s1)
            \<lparr>GroundedState_VelocityBlend := (GroundedState_VelocityBlend (GroundedState s1))
               \<lparr>VelocityBlend_bReinitializationRequired := True\<rparr>,
             GroundedState_SprintTime := 0\<rparr>\<rparr>
        else if \<not> LocomotionState_bMoving (LocomotionState s1) then
          ResetGroundedLeanAmount eng st s1 DeltaTime
        else
          (let Locomotion = LocomotionState s1;
               RelativeAccelerationAmount =
                 (if FVector_dot (LocomotionState_Acceleration Locomotion) (LocomotionState_Velocity Locomotion) \<ge> 0
                  then ClampMagnitude01 eng
                         (FVector_div
                            (UnrotateVector eng (LocomotionState_RotationQuaternion Locomotion)
                               (LocomotionState_Acceleration Locomotion))
                            (LocomotionState_MaxAcceleration Locomotion))
                  else ClampMagnitude01 eng
                         (FVector_div
                            (UnrotateVector eng (LocomotionState_RotationQuaternion Locomotion)
                               (LocomotionState_Acceleration Locomotion))
                            (LocomotionState_MaxBrakingDeceleration Locomotion)));
               s2 = RefreshMovementDirection eng s1;
               s3 = RefreshVelocityBlend eng st s2 DeltaTime;
               s4 = RefreshRotationYawOffsets eng st s3;
               s5 = RefreshSprint s4 RelativeAccelerationAmount DeltaTime;
               s6 = RefreshStrideBlendAmount st s5;
               s7 = RefreshWalkRunBlendAmount s6;
               s8 = RefreshStandingPlayRate st s7;
               s9 = RefreshCrouchingPlayRate st s8
           in RefreshGroundedLeanAmount eng st s9 RelativeAccelerationAmount DeltaTime))"


section \<open>In air\<close>

text \<open>
  The ground prediction sweeps the capsule of the character along the velocity. The object
  types of the settings are handed to the sweep of the world, which converts them to
  collision channels.
\<close>

definition RefreshGroundPredictionAmount ::
  "Engine \<Rightarrow> World \<Rightarrow> UAlsAnimationInstanceSettings \<Rightarrow> UAlsAnimationInstance \<Rightarrow> UAlsAnimationInstance" where
  "RefreshGroundPredictionAmount eng w st s =
    (let VerticalVelocityThreshold = - 200
     in if InAirState_VerticalVelocity (InAirState s) > VerticalVelocityThreshold then
          s\<lparr>InAirState := (InAirState s)\<lparr>InAirState_GroundPredictionAmount := 0\<rparr>\<rparr>
        else
          (let AllowanceAmount = 1 - GetCurveValueClamped01 w GroundPredictionBlockCurve
           in if AllowanceAmount \<le> KINDA_SMALL_NUMBER then
                s\<lparr>InAirState := (InAirState s)\<lparr>InAirState_GroundPredictionAmount := 0\<rparr>\<rparr>
              else
                (let Locomotion = LocomotionState s;
                     SweepStartLocation = LocomotionState_Location Locomotion;
                     MinVerticalVelocity = - 4000;
                     MaxVerticalVelocity = - 200;
                     VelocityDirection = Normalize eng
                       ((LocomotionState_Velocity Locomotion)
                          \<lparr>Z := Clamp (Z (LocomotionState_Velocity Locomotion)) MinVerticalVelocity MaxVerticalVelocity\<rparr>);
                     MinSweepDistance = 150;
                     MaxSweepDistance = 2000;
                     SweepVector =
                       FVector_scale
                         (FVector_scale VelocityDirection
                            (GetMappedRangeValueClamped eng
                               \<lparr>V2_X = MaxVerticalVelocity, V2_Y = MinVerticalVelocity\<rparr>
                               \<lparr>V2_X = MinSweepDistance, V2_Y = MaxSweepDistance\<rparr>
                               (InAirState_VerticalVelocity (InAirState s))))
                         (LocomotionState_Scale Locomotion);
                     Hit = SweepSingleByObjectType w SweepStartLocation
                             (FVector_add SweepStartLocation SweepVector)
                             (InAir_GroundPredictionSweepObjectTypes (InAir st))
                             (LocomotionState_CapsuleRadius Locomotion)
                             (LocomotionState_CapsuleHalfHeight Locomotion);
                     bGroundValid =
                       (IsValidBlockingHit Hit \<and>
                        Z (Hit_ImpactNormal Hit) \<ge> LocomotionState_WalkableFloorZ Locomotion)
                 in s\<lparr>InAirState := (InAirState s)\<lparr>InAirState_GroundPredictionAmount :=
                      (if bGroundValid
                       then InAir_GroundPredictionAmountCurve (InAir st) (Hit_Time Hit) * AllowanceAmount
                       else 0)\<rparr>\<rparr>)))"

definition RefreshInAirLeanAmount ::
  "Engine \<Rightarrow> UAlsAnimationInstanceSettings \<Rightarrow> UAlsAnimationInstance \<Rightarrow> real \<Rightarrow> UAlsAnimationInstance" where
  "RefreshInAirLeanAmount eng st s DeltaTime =
    (let ReferenceSpeed = 350;
         RelativeVelocity =
           FVector_scale
             (FVector_div
                (UnrotateVector eng (LocomotionState_RotationQuaternion (LocomotionState s))
                   (LocomotionState_Velocity (LocomotionState s)))
                ReferenceSpeed)
             (InAir_LeanAmountCurve (InAir st) (InAirState_VerticalVelocity (InAirState s)))
     in if bPendingUpdate s then
          s\<lparr>LeanState := (LeanState s)
            \<lparr>LeanState_RightAmount := Y RelativeVelocity,
             LeanState_ForwardAmount := X RelativeVelocity\<rparr>\<rparr>
        else
          s\<lparr>LeanState := (LeanState s)
            \<lparr>LeanState_RightAmount := FInterpTo eng (LeanState_RightAmount (LeanState s))
               (Y RelativeVelocity) DeltaTime (General_LeanInterpolationSpeed (General st)),
             LeanState_ForwardAmount := FInterpTo eng (LeanState_ForwardAmount (LeanState s))
               (X RelativeVelocity) DeltaTime (General_LeanInterpolationSpeed (General st))\<rparr>\<rparr>)"

definition RefreshInAir ::
  "Engine \<Rightarrow> World \<Rightarrow> UAlsAnimationInstanceSettings \<Rightarrow> UAlsAnimationInstance \<Rightarrow> real
    \<Rightarrow> UAlsAnimationInstance" where
  "RefreshInAir eng w st s DeltaTime =
    (let s1 =
           (if InAirState_bJumped (InAirState s) then
              (let ReferenceSpeed = 600; MinPlayRate = 6 / 5; MaxPlayRate = 3 / 2
               in s\<lparr>InAirState := (InAirState s)\<lparr>InAirState_JumpPlayRate :=
                    LerpClamped eng MinPlayRate MaxPlayRate
                      (LocomotionState_Speed (LocomotionState s) / ReferenceSpeed)\<rparr>\<rparr>)
            else s)
     in if LocomotionMode s1 \<noteq> LocomotionMode_InAir then s1
        else
          (let s2 = s1\<lparr>InAirState := (InAirState s1)\<lparr>InAirState_VerticalVelocity :=
                      Z (LocomotionState_Velocity (LocomotionState s1))\<rparr>\<rparr>;
               s3 = RefreshGroundPredictionAmount eng w st s2
           in RefreshInAirLeanAmount eng st s3 DeltaTime))"


section \<open>Feet\<close>

text \<open>
  The functions on one foot receive the foot by reference together with the instance, of
  which they read the reinitialisation flag of the feet, the locomotion state and the
  locomotion mode. In the model they take the instance \<open>s\<close> and the foot \<open>FootState\<close> and
  return the new foot; \<^verbatim>\<open>FinalLocation\<close> and \<^verbatim>\<open>FinalRotation\<close>, passed by reference in the
  source, are passed in and returned.
\<close>

definition ProcessFootLockTeleport ::
  "Engine \<Rightarrow> World \<Rightarrow> UAlsAnimationInstance \<Rightarrow> FAlsFootState \<Rightarrow> FAlsFootState" where
  "ProcessFootLockTeleport eng w s FootState =
    (if \<not> bTeleported s \<or> FeetState_bReinitializationRequired (FeetState s) \<or>
        \<not> IsRelevant (Foot_IkAmount FootState * Foot_LockAmount FootState)
     then FootState
     else
       (let ComponentTransform = GetComponentTransform w;
            Base = LocomotionState_BasedMovement (LocomotionState s);
            F1 = FootState
              \<lparr>Foot_LockLocation :=
                 TransformPosition eng ComponentTransform (Foot_LockComponentRelativeLocation FootState),
               Foot_LockRotation :=
                 TransformRotation eng ComponentTransform (Foot_LockComponentRelativeRotation FootState)\<rparr>
        in if BasedMovement_bHasRelativeLocation Base then
             (let BaseRotationInverse = QuatInverse eng (BasedMovement_Rotation Base)
              in F1\<lparr>Foot_LockMovementBaseRelativeLocation :=
                      RotateVector eng BaseRotationInverse
                        (FVector_sub (Foot_LockLocation F1) (BasedMovement_Location Base)),
                    Foot_LockMovementBaseRelativeRotation :=
                      QuatMul eng BaseRotationInverse (Foot_LockRotation F1)\<rparr>)
           else F1))"

definition ProcessFootLockBaseChange ::
  "Engine \<Rightarrow> UAlsAnimationInstance \<Rightarrow> FAlsFootState \<Rightarrow> FTransform \<Rightarrow> FAlsFootState" where
  "ProcessFootLockBaseChange eng s FootState ComponentTransformInverse =
    (let Base = LocomotionState_BasedMovement (LocomotionState s)
     in if (\<not> BasedMovement_bBaseChanged Base \<and> \<not> FeetState_bReinitializationRequired (FeetState s)) \<or>
           \<not> IsRelevant (Foot_IkAmount FootState * Foot_LockAmount FootState)
        then FootState
        else
          (let F1 =
                 (if FeetState_bReinitializationRequired (FeetState s) then
                    FootState\<lparr>Foot_LockLocation := Foot_TargetLocation FootState,
                              Foot_LockRotation := Foot_TargetRotation FootState\<rparr>
                  else FootState);
               F2 = F1
                 \<lparr>Foot_LockComponentRelativeLocation :=
                    TransformPosition eng ComponentTransformInverse (Foot_LockLocation F1),
                  Foot_LockComponentRelativeRotation :=
                    TransformRotation eng ComponentTransformInverse (Foot_LockRotation F1)\<rparr>
           in if BasedMovement_bHasRelativeLocation Base then
                (let BaseRotationInverse = QuatInverse eng (BasedMovement_Rotation Base)
                 in F2\<lparr>Foot_LockMovementBaseRelativeLocation :=
                         RotateVector eng BaseRotationInverse
                           (FVector_sub (Foot_LockLocation F2) (BasedMovement_Location Base)),
                       Foot_LockMovementBaseRelativeRotation :=
                         QuatMul eng BaseRotationInverse (Foot_LockRotation F2)\<rparr>)
              else
                F2\<lparr>Foot_LockMovementBaseRelativeLocation := ZeroVector,
                   Foot_LockMovementBaseRelativeRotation := QuatIdentity\<rparr>))"

text \<open>
  The local variable \<^verbatim>\<open>NewFootLockAmount\<close> of \<^verbatim>\<open>RefreshFootLock\<close>: the clamped value of the
  lock curve, replaced by a decreasing amount while the character moves or is not grounded.
\<close>

definition NewFootLockAmount ::
  "World \<Rightarrow> UAlsAnimationInstance \<Rightarrow> FAlsFootState \<Rightarrow> CurveName \<Rightarrow> real \<Rightarrow> real" where
  "NewFootLockAmount w s FootState FootLockCurveName DeltaTime =
    (let NewFootLockAmount0 = GetCurveValueClamped01 w FootLockCurveName
     in if LocomotionState_bMovingSmooth (LocomotionState s) \<or> LocomotionMode s \<noteq> LocomotionMode_Grounded then
          (let MovingDecreaseSpeed = 5; NotGroundedDecreaseSpeed = 3 / 5
           in if FeetState_bReinitializationRequired (FeetState s) then 0
              else max 0 (min NewFootLockAmount0
                     (Foot_LockAmount FootState - DeltaTime *
                        (if LocomotionState_bMovingSmooth (LocomotionState s)
                         then MovingDecreaseSpeed else NotGroundedDecreaseSpeed))))
        else NewFootLockAmount0)"

definition RefreshFootLock ::
  "Engine \<Rightarrow> World \<Rightarrow> UAlsAnimationInstanceSettings \<Rightarrow> UAlsAnimationInstance \<Rightarrow> FAlsFootState
    \<Rightarrow> CurveName \<Rightarrow> FTransform \<Rightarrow> real \<Rightarrow> FVector \<times> FQuat \<Rightarrow> FAlsFootState \<times> FVector \<times> FQuat" where
  "RefreshFootLock eng w st s FootState FootLockCurveName ComponentTransformInverse DeltaTime Final =
    (let FinalLocation = fst Final;
         FinalRotation = snd Final;
         Base = LocomotionState_BasedMovement (LocomotionState s);
         NewAmount = NewFootLockAmount w s FootState FootLockCurveName DeltaTime
     in if Feet_bDisableFootLock (Feet st) \<or> \<not> IsRelevant (Foot_IkAmount FootState * NewAmount) then
          (if Foot_LockAmount FootState > 0 then
             (FootState
                \<lparr>Foot_LockAmount := 0,
                 Foot_LockLocation := ZeroVector,
                 Foot_LockRotation := QuatIdentity,
                 Foot_LockComponentRelativeLocation := ZeroVector,
                 Foot_LockComponentRelativeRotation := QuatIdentity,
                 Foot_LockMovementBaseRelativeLocation := ZeroVector,
                 Foot_LockMovementBaseRelativeRotation := QuatIdentity\<rparr>,
              FinalLocation, FinalRotation)
           else (FootState, FinalLocation, FinalRotation))
        else
          (let bNewAmountEqualOne = IsFullWeight NewAmount;
               bNewAmountGreaterThanPrevious = (NewAmount > Foot_LockAmount FootState);
               F1 =
                 (if bNewAmountEqualOne then
                    (let F1a =
                           (if bNewAmountGreaterThanPrevious then
                              (let F1b =
                                     (if Foot_LockAmount FootState \<le> 9 / 10 then
                                        FootState\<lparr>Foot_LockLocation := FinalLocation,
                                                  Foot_LockRotation := FinalRotation\<rparr>
                                      else FootState)
                               in if BasedMovement_bHasRelativeLocation Base then
                                    (let BaseRotationInverse = QuatInverse eng (BasedMovement_Rotation Base)
                                     in F1b\<lparr>Foot_LockMovementBaseRelativeLocation :=
                                              RotateVector eng BaseRotationInverse
                                                (FVector_sub FinalLocation (BasedMovement_Location Base)),
                                            Foot_LockMovementBaseRelativeRotation :=
                                              QuatMul eng BaseRotationInverse FinalRotation\<rparr>)
                                  else
                                    F1b\<lparr>Foot_LockMovementBaseRelativeLocation := ZeroVector,
                                        Foot_LockMovementBaseRelativeRotation := QuatIdentity\<rparr>)
                            else FootState)
                     in F1a\<lparr>Foot_LockAmount := 1\<rparr>)
                  else if \<not> bNewAmountGreaterThanPrevious then
                    FootState\<lparr>Foot_LockAmount := NewAmount\<rparr>
                  else FootState);
               F2 =
                 (if BasedMovement_bHasRelativeLocation Base then
                    F1\<lparr>Foot_LockLocation :=
                         FVector_add (BasedMovement_Location Base)
                           (RotateVector eng (BasedMovement_Rotation Base) (Foot_LockMovementBaseRelativeLocation F1)),
                       Foot_LockRotation :=
                         QuatMul eng (BasedMovement_Rotation Base) (Foot_LockMovementBaseRelativeRotation F1)\<rparr>
                  else F1);
               F3 = F2
                 \<lparr>Foot_LockComponentRelativeLocation :=
                    TransformPosition eng ComponentTransformInverse (Foot_LockLocation F2),
                  Foot_LockComponentRelativeRotation :=
                    TransformRotation eng ComponentTransformInverse (Foot_LockRotation F2)\<rparr>
           in (F3,
               FVector_Lerp FinalLocation (Foot_LockLocation F3) (Foot_LockAmount F3),
               Slerp eng FinalRotation (Foot_LockRotation F3) (Foot_LockAmount F3))))"

text \<open>
  Three local values of \<^verbatim>\<open>RefreshFootOffset\<close>: the foot location moved to the height of the
  component, the result of the line trace below it, and the test that the trace found
  walkable ground.
\<close>

definition FootOffsetFootLocation :: "World \<Rightarrow> FVector \<Rightarrow> FVector" where
  "FootOffsetFootLocation w FinalLocation =
    FinalLocation\<lparr>Z := Z (Transform_Translation (GetComponentTransform w))\<rparr>"

definition FootOffsetHit ::
  "World \<Rightarrow> UAlsAnimationInstanceSettings \<Rightarrow> UAlsAnimationInstance \<Rightarrow> FVector \<Rightarrow> FHitResult" where
  "FootOffsetHit w st s FinalLocation =
    LineTraceSingleByChannel w
      (FVector_add (FootOffsetFootLocation w FinalLocation)
         \<lparr>X = 0, Y = 0, Z = Feet_IkTraceDistanceUpward (Feet st) * LocomotionState_Scale (LocomotionState s)\<rparr>)
      (FVector_sub (FootOffsetFootLocation w FinalLocation)
         \<lparr>X = 0, Y = 0, Z = Feet_IkTraceDistanceDownward (Feet st) * LocomotionState_Scale (LocomotionState s)\<rparr>)
      (Feet_IkTraceChannel (Feet st))"

definition FootOffsetGroundValid ::
  "World \<Rightarrow> UAlsAnimationInstanceSettings \<Rightarrow> UAlsAnimationInstance \<Rightarrow> FVector \<Rightarrow> bool" where
  "FootOffsetGroundValid w st s FinalLocation \<longleftrightarrow>
    IsValidBlockingHit (FootOffsetHit w st s FinalLocation) \<and>
    Z (Hit_ImpactNormal (FootOffsetHit w st s FinalLocation)) \<ge> LocomotionState_WalkableFloorZ (LocomotionState s)"


definition RefreshFootOffset ::
  "Engine \<Rightarrow> World \<Rightarrow> UAlsAnimationInstanceSettings \<Rightarrow> UAlsAnimationInstance \<Rightarrow> FAlsFootState
    \<Rightarrow> real \<Rightarrow> FVector \<times> FQuat \<Rightarrow> FAlsFootState \<times> FVector \<times> FQuat" where
  "RefreshFootOffset eng w st s FootState DeltaTime Final =
    (let FinalLocation = fst Final;
         FinalRotation = snd Final
     in if \<not> IsRelevant (Foot_IkAmount FootState) then
          (FootState
             \<lparr>Foot_OffsetTargetLocation := ZeroVector,
              Foot_OffsetTargetRotation := QuatIdentity,
              Foot_OffsetSpringState := SpringReset eng\<rparr>,
           FinalLocation, FinalRotation)
        else if LocomotionMode s = LocomotionMode_InAir then
          (let F1 = FootState
                 \<lparr>Foot_OffsetTargetLocation := ZeroVector,
                  Foot_OffsetTargetRotation := QuatIdentity,
                  Foot_OffsetSpringState := SpringReset eng\<rparr>
           in if FeetState_bReinitializationRequired (FeetState s) then
                (F1\<lparr>Foot_OffsetLocation := ZeroVector, Foot_OffsetRotation := QuatIdentity\<rparr>,
                 FinalLocation, FinalRotation)
              else
                (let InterpolationSpeed = 15;
                     F2 = F1
                       \<lparr>Foot_OffsetLocation :=
                          VInterpTo eng (Foot_OffsetLocation F1) ZeroVector DeltaTime InterpolationSpeed,
                        Foot_OffsetRotation :=
                          QInterpTo eng (Foot_OffsetRotation F1) QuatIdentity DeltaTime InterpolationSpeed\<rparr>
                 in (F2,
                     FVector_add FinalLocation (Foot_OffsetLocation F2),
                     QuatMul eng (Foot_OffsetRotation F2) FinalRotation)))
        else
          (let FootLocation = FootOffsetFootLocation w FinalLocation;
               Hit = FootOffsetHit w st s FinalLocation;
               bGroundValid = FootOffsetGroundValid w st s FinalLocation;
               F1 =
                 (if bGroundValid then
                    (let FootHeight = Feet_FootHeight (Feet st) * LocomotionState_Scale (LocomotionState s);
                         OffsetTargetLocation =
                           FVector_add (FVector_sub (Hit_ImpactPoint Hit) FootLocation)
                             (FVector_scale (Hit_ImpactNormal Hit) FootHeight)
                     in FootState
                          \<lparr>Foot_OffsetTargetLocation :=
                             OffsetTargetLocation\<lparr>Z := Z OffsetTargetLocation - FootHeight\<rparr>,
                           Foot_OffsetTargetRotation :=
                             RotatorQuaternion eng
                               \<lparr>Pitch = - DirectionToAngle eng
                                   \<lparr>V2_X = Z (Hit_ImpactNormal Hit), V2_Y = X (Hit_ImpactNormal Hit)\<rparr>,
                                Yaw = 0,
                                Roll = DirectionToAngle eng
                                   \<lparr>V2_X = Z (Hit_ImpactNormal Hit), V2_Y = Y (Hit_ImpactNormal Hit)\<rparr>\<rparr>\<rparr>)
                  else FootState);
               F2 =
                 (if FeetState_bReinitializationRequired (FeetState s) then
                    F1\<lparr>Foot_OffsetSpringState := SpringReset eng,
                       Foot_OffsetLocation := Foot_OffsetTargetLocation F1,
                       Foot_OffsetRotation := Foot_OffsetTargetRotation F1\<rparr>
                  else
                    (let LocationInterpolationFrequency = 2 / 5;
                         LocationInterpolationDampingRatio = 4;
                         LocationInterpolationTargetVelocityAmount = 1;
                         Damped = SpringDamp eng (Foot_OffsetLocation F1) (Foot_OffsetTargetLocation F1)
                                    (Foot_OffsetSpringState F1) DeltaTime LocationInterpolationFrequency
                                    LocationInterpolationDampingRatio LocationInterpolationTargetVelocityAmount;
                         RotationInterpolationSpeed = 30
                     in F1\<lparr>Foot_OffsetLocation := fst Damped,
                           Foot_OffsetSpringState := snd Damped,
                           Foot_OffsetRotation :=
                             QInterpTo eng (Foot_OffsetRotation F1) (Foot_OffsetTargetRotation F1)
                               DeltaTime RotationInterpolationSpeed\<rparr>))
           in (F2,
               FVector_add FinalLocation (Foot_OffsetLocation F2),
               QuatMul eng (Foot_OffsetRotation F2) FinalRotation)))"

definition RefreshFoot ::
  "Engine \<Rightarrow> World \<Rightarrow> UAlsAnimationInstanceSettings \<Rightarrow> UAlsAnimationInstance \<Rightarrow> FAlsFootState
    \<Rightarrow> CurveName \<Rightarrow> CurveName \<Rightarrow> FTransform \<Rightarrow> real \<Rightarrow> FAlsFootState" where
  "RefreshFoot eng w st s FootState FootIkCurveName FootLockCurveName ComponentTransformInverse DeltaTime =
    (let F1 = FootState\<lparr>Foot_IkAmount := GetCurveValueClamped01 w FootIkCurveName\<rparr>;
         F2 = ProcessFootLockTeleport eng w s F1;
         F3 = ProcessFootLockBaseChange eng s F2 ComponentTransformInverse;
         Final = (Foot_TargetLocation F3, Foot_TargetRotation F3);
         Locked = RefreshFootLock eng w st s F3 FootLockCurveName ComponentTransformInverse DeltaTime Final;
         Offset = RefreshFootOffset eng w st s (fst Locked) DeltaTime (snd Locked);
         F4 = fst Offset;
         FinalLocation = fst (snd Offset);
         FinalRotation = snd (snd Offset)
     in F4\<lparr>Foot_IkLocation := TransformPosition eng ComponentTransformInverse FinalLocation,
           Foot_IkRotation := TransformRotation eng ComponentTransformInverse FinalRotation\<rparr>)"

definition RefreshFeet ::
  "Engine \<Rightarrow> World \<Rightarrow> UAlsAnimationInstanceSettings \<Rightarrow> UAlsAnimationInstance \<Rightarrow> real
    \<Rightarrow> UAlsAnimationInstance" where
  "RefreshFeet eng w st s DeltaTime =
    (let s0 = s\<lparr>FeetState := (FeetState s)\<lparr>FeetState_bReinitializationRequired :=
                 (FeetState_bReinitializationRequired (FeetState s) \<or>
                  (bPendingUpdate s \<or> \<not> bAnimationCurvesRelevant s))\<rparr>\<rparr>
     in if \<not> bAnimationCurvesRelevant s0 then s0
        else
          (let s1 = s0\<lparr>FeetState := (FeetState s0)
                      \<lparr>FeetState_FootPlantedAmount := Clamp (GetCurveValue w FootPlantedCurve) (- 1) 1,
                       FeetState_FeetCrossingAmount := GetCurveValueClamped01 w FeetCrossingCurve,
                       FeetState_MinMaxPelvisOffsetZ := \<lparr>V2_X = 0, V2_Y = 0\<rparr>\<rparr>\<rparr>;
               ComponentTransformInverse = TransformInverse eng (GetComponentTransform w);
               s2 = s1\<lparr>FeetState := (FeetState s1)\<lparr>FeetState_Left :=
                      RefreshFoot eng w st s1 (FeetState_Left (FeetState s1)) FootLeftIkCurve FootLeftLockCurve
                        ComponentTransformInverse DeltaTime\<rparr>\<rparr>;
               s3 = s2\<lparr>FeetState := (FeetState s2)\<lparr>FeetState_Right :=
                      RefreshFoot eng w st s2 (FeetState_Right (FeetState s2)) FootRightIkCurve FootRightLockCurve
                        ComponentTransformInverse DeltaTime\<rparr>\<rparr>
           in s3\<lparr>FeetState := (FeetState s3)
                \<lparr>FeetState_MinMaxPelvisOffsetZ :=
                   \<lparr>V2_X = min (Z (Foot_OffsetTargetLocation (FeetState_Left (FeetState s3))))
                               (Z (Foot_OffsetTargetLocation (FeetState_Right (FeetState s3)))),
                    V2_Y = max (Z (Foot_OffsetTargetLocation (FeetState_Left (FeetState s3))))
                               (Z (Foot_OffsetTargetLocation (FeetState_Right (FeetState s3))))\<rparr>,
                 FeetState_bReinitializationRequired := False\<rparr>\<rparr>))"


section \<open>Transitions\<close>

definition PlayQueuedDynamicTransitionAnimation ::
  "UAlsAnimationInstanceSettings \<Rightarrow> UAlsAnimationInstance \<Rightarrow> UAlsAnimationInstance" where
  "PlayQueuedDynamicTransitionAnimation st s =
    s\<lparr>PlayedMontages := PlayedMontages s @
         [PlaySlotAnimationAsDynamicMontage
            (TransitionsState_QueuedDynamicTransitionAnimation (TransitionsState s)) TransitionSlot
            (Transitions_DynamicTransitionBlendTime (Transitions st))
            (Transitions_DynamicTransitionBlendTime (Transitions st))
            (Transitions_DynamicTransitionPlayRate (Transitions st)) 1 0 0],
      TransitionsState := (TransitionsState s)
        \<lparr>TransitionsState_QueuedDynamicTransitionAnimation := None\<rparr>\<rparr>"

text \<open>
  The local constants of \<^verbatim>\<open>RefreshDynamicTransition\<close>: the squared distances between the
  target and the lock location of each foot, the squared threshold, and the two tests that
  allow a transition on a foot. The source writes the choice of the animation by stance out
  in each of its four branches; the model names it once for the left and once for the right
  foot.
\<close>

definition FootLockDistanceThresholdSquared ::
  "UAlsAnimationInstanceSettings \<Rightarrow> UAlsAnimationInstance \<Rightarrow> real" where
  "FootLockDistanceThresholdSquared st s =
    Square (Transitions_DynamicTransitionFootLockDistanceThreshold (Transitions st) *
            LocomotionState_Scale (LocomotionState s))"

definition FootLockLeftDistanceSquared :: "UAlsAnimationInstance \<Rightarrow> real" where
  "FootLockLeftDistanceSquared s =
    DistSquared (Foot_TargetLocation (FeetState_Left (FeetState s)))
                (Foot_LockLocation (FeetState_Left (FeetState s)))"

definition FootLockRightDistanceSquared :: "UAlsAnimationInstance \<Rightarrow> real" where
  "FootLockRightDistanceSquared s =
    DistSquared (Foot_TargetLocation (FeetState_Right (FeetState s)))
                (Foot_LockLocation (FeetState_Right (FeetState s)))"

definition bTransitionLeftAllowed :: "UAlsAnimationInstanceSettings \<Rightarrow> UAlsAnimationInstance \<Rightarrow> bool" where
  "bTransitionLeftAllowed st s \<longleftrightarrow>
    IsRelevant (Foot_LockAmount (FeetState_Left (FeetState s))) \<and>
    FootLockLeftDistanceSquared s > FootLockDistanceThresholdSquared st s"

definition bTransitionRightAllowed :: "UAlsAnimationInstanceSettings \<Rightarrow> UAlsAnimationInstance \<Rightarrow> bool" where
  "bTransitionRightAllowed st s \<longleftrightarrow>
    IsRelevant (Foot_LockAmount (FeetState_Right (FeetState s))) \<and>
    FootLockRightDistanceSquared s > FootLockDistanceThresholdSquared st s"

definition DynamicTransitionLeftAnimation ::
  "UAlsAnimationInstanceSettings \<Rightarrow> UAlsAnimationInstance \<Rightarrow> UAnimSequenceBase option" where
  "DynamicTransitionLeftAnimation st s =
    (if Stance s = Crouching then Transitions_CrouchingDynamicTransitionLeftAnimation (Transitions st)
     else Transitions_StandingDynamicTransitionLeftAnimation (Transitions st))"

definition DynamicTransitionRightAnimation ::
  "UAlsAnimationInstanceSettings \<Rightarrow> UAlsAnimationInstance \<Rightarrow> UAnimSequenceBase option" where
  "DynamicTransitionRightAnimation st s =
    (if Stance s = Crouching then Transitions_CrouchingDynamicTransitionRightAnimation (Transitions st)
     else Transitions_StandingDynamicTransitionRightAnimation (Transitions st))"

definition RefreshDynamicTransition ::
  "World \<Rightarrow> UAlsAnimationInstanceSettings \<Rightarrow> UAlsAnimationInstance \<Rightarrow> UAlsAnimationInstance" where
  "RefreshDynamicTransition w st s =
    (if TransitionsState_DynamicTransitionsFrameDelay (TransitionsState s) > 0 then
       s\<lparr>TransitionsState := (TransitionsState s)\<lparr>TransitionsState_DynamicTransitionsFrameDelay :=
            TransitionsState_DynamicTransitionsFrameDelay (TransitionsState s) - 1\<rparr>\<rparr>
     else if \<not> bAnimationCurvesRelevant s \<or> \<not> TransitionsState_bTransitionsAllowed (TransitionsState s) \<or>
             LocomotionState_bMoving (LocomotionState s) \<or> LocomotionMode s \<noteq> LocomotionMode_Grounded then s
     else if \<not> bTransitionLeftAllowed st s \<and> \<not> bTransitionRightAllowed st s then s
     else
       (let DynamicTransitionAnimation =
              (if \<not> bTransitionLeftAllowed st s then DynamicTransitionRightAnimation st s
               else if \<not> bTransitionRightAllowed st s then DynamicTransitionLeftAnimation st s
               else if FootLockLeftDistanceSquared s \<ge> FootLockRightDistanceSquared s
                 then DynamicTransitionLeftAnimation st s
               else DynamicTransitionRightAnimation st s)
        in if DynamicTransitionAnimation \<noteq> None then
             (let s1 = s\<lparr>TransitionsState := (TransitionsState s)
                         \<lparr>TransitionsState_DynamicTransitionsFrameDelay := 2,
                          TransitionsState_QueuedDynamicTransitionAnimation := DynamicTransitionAnimation\<rparr>\<rparr>
              in if IsInGameThread w then PlayQueuedDynamicTransitionAnimation st s1 else s1)
           else s))"

definition RefreshTransitions ::
  "World \<Rightarrow> UAlsAnimationInstanceSettings \<Rightarrow> UAlsAnimationInstance \<Rightarrow> UAlsAnimationInstance" where
  "RefreshTransitions w st s =
    RefreshDynamicTransition w st
      (s\<lparr>TransitionsState := (TransitionsState s)\<lparr>TransitionsState_bTransitionsAllowed :=
          IsFullWeight (GetCurveValue w AllowTransitionsCurve)\<rparr>\<rparr>)"


section \<open>Rotate in place and turn in place\<close>

definition IsRotateInPlaceAllowed :: "UAlsAnimationInstance \<Rightarrow> bool" where
  "IsRotateInPlaceAllowed s \<longleftrightarrow> RotationMode s = Aiming \<or> ViewMode s = FirstPerson"

definition RefreshRotateInPlace ::
  "Engine \<Rightarrow> UAlsAnimationInstanceSettings \<Rightarrow> UAlsAnimationInstance \<Rightarrow> real \<Rightarrow> UAlsAnimationInstance" where
  "RefreshRotateInPlace eng st s DeltaTime =
    (let PlayRateInterpolationSpeed = 5;
         R = RotateInPlaceState s;
         IdlePlayRate =
           (if bPendingUpdate s then V2_X (RotateInPlace_PlayRate (RotateInPlace st))
            else FInterpTo eng (RotateInPlaceState_PlayRate R) (V2_X (RotateInPlace_PlayRate (RotateInPlace st)))
                   DeltaTime PlayRateInterpolationSpeed)
     in if LocomotionState_bMoving (LocomotionState s) \<or> LocomotionMode s \<noteq> LocomotionMode_Grounded \<or>
           \<not> IsRotateInPlaceAllowed s
        then
          s\<lparr>RotateInPlaceState := R
            \<lparr>RotateInPlaceState_bRotatingLeft := False,
             RotateInPlaceState_bRotatingRight := False,
             RotateInPlaceState_PlayRate := IdlePlayRate,
             RotateInPlaceState_FootLockBlockAmount := 0\<rparr>\<rparr>
        else
          (let bRotatingLeft =
                 (ViewState_YawAngle (ViewState s) < - RotateInPlace_ViewYawAngleThreshold (RotateInPlace st));
               bRotatingRight =
                 (ViewState_YawAngle (ViewState s) > RotateInPlace_ViewYawAngleThreshold (RotateInPlace st))
           in if \<not> bRotatingLeft \<and> \<not> bRotatingRight then
                s\<lparr>RotateInPlaceState := R
                  \<lparr>RotateInPlaceState_bRotatingLeft := bRotatingLeft,
                   RotateInPlaceState_bRotatingRight := bRotatingRight,
                   RotateInPlaceState_PlayRate := IdlePlayRate,
                   RotateInPlaceState_FootLockBlockAmount := 0\<rparr>\<rparr>
              else
                (let PlayRate = GetMappedRangeValueClamped eng
                       (RotateInPlace_ReferenceViewYawSpeed (RotateInPlace st))
                       (RotateInPlace_PlayRate (RotateInPlace st))
                       (ViewState_YawSpeed (ViewState s));
                     BlockInterpolationSpeed = 5
                 in s\<lparr>RotateInPlaceState := R
                      \<lparr>RotateInPlaceState_bRotatingLeft := bRotatingLeft,
                       RotateInPlaceState_bRotatingRight := bRotatingRight,
                       RotateInPlaceState_PlayRate :=
                         (if bPendingUpdate s then PlayRate
                          else FInterpTo eng (RotateInPlaceState_PlayRate R) PlayRate
                                 DeltaTime PlayRateInterpolationSpeed),
                       RotateInPlaceState_FootLockBlockAmount :=
                         (if RotateInPlace_bDisableFootLock (RotateInPlace st) then 0
                          else if \<bar>ViewState_YawAngle (ViewState s)\<bar> >
                                  RotateInPlace_FootLockBlockViewYawAngleThreshold (RotateInPlace st) then 1
                          else if ViewState_YawSpeed (ViewState s) \<le>
                                  RotateInPlace_FootLockBlockViewYawSpeedThreshold (RotateInPlace st) then 0
                          else if bPendingUpdate s then 1
                          else FInterpTo eng (RotateInPlaceState_FootLockBlockAmount R) 1
                                 DeltaTime BlockInterpolationSpeed)\<rparr>\<rparr>)))"

definition IsTurnInPlaceAllowed :: "UAlsAnimationInstance \<Rightarrow> bool" where
  "IsTurnInPlaceAllowed s \<longleftrightarrow> RotationMode s = LookingDirection \<and> ViewMode s \<noteq> FirstPerson"

definition PlayQueuedTurnInPlaceAnimation ::
  "UAlsAnimationInstanceSettings \<Rightarrow> UAlsAnimationInstance \<Rightarrow> UAlsAnimationInstance" where
  "PlayQueuedTurnInPlaceAnimation st s =
    (case TurnInPlaceState_QueuedSettings (TurnInPlaceState s) of
       None \<Rightarrow> s
     | Some TurnInPlaceSettings \<Rightarrow>
         s\<lparr>PlayedMontages := PlayedMontages s @
              [PlaySlotAnimationAsDynamicMontage (Turn_Animation TurnInPlaceSettings)
                 (TurnInPlaceState_QueuedSlotName (TurnInPlaceState s))
                 (TurnInPlace_BlendTime (TurnInPlace st)) (TurnInPlace_BlendTime (TurnInPlace st))
                 (Turn_PlayRate TurnInPlaceSettings) 1 0 0],
           TurnInPlaceState := (TurnInPlaceState s)
             \<lparr>TurnInPlaceState_PlayRate :=
                (if Turn_bScalePlayRateByAnimatedTurnAngle TurnInPlaceSettings
                 then Turn_PlayRate TurnInPlaceSettings *
                      \<bar>TurnInPlaceState_QueuedTurnYawAngle (TurnInPlaceState s) /
                       Turn_AnimatedTurnAngle TurnInPlaceSettings\<bar>
                 else Turn_PlayRate TurnInPlaceSettings),
              TurnInPlaceState_bFootLockDisabled := TurnInPlace_bDisableFootLock (TurnInPlace st),
              TurnInPlaceState_QueuedSettings := None,
              TurnInPlaceState_QueuedSlotName := NAME_None,
              TurnInPlaceState_QueuedTurnYawAngle := 0\<rparr>\<rparr>)"

text \<open>
  Local values of \<^verbatim>\<open>RefreshTurnInPlace\<close>: the delay mapped from the absolute view yaw
  angle, which the accumulated delay has to exceed; the test that selects a turn to the
  left; and the settings and the slot selected by stance, side and angle.
\<close>

definition TurnInPlaceActivationDelay ::
  "Engine \<Rightarrow> UAlsAnimationInstanceSettings \<Rightarrow> UAlsAnimationInstance \<Rightarrow> real" where
  "TurnInPlaceActivationDelay eng st s =
    GetMappedRangeValueClamped eng
      \<lparr>V2_X = TurnInPlace_ViewYawAngleThreshold (TurnInPlace st), V2_Y = 180\<rparr>
      (TurnInPlace_ViewYawAngleToActivationDelay (TurnInPlace st))
      \<bar>ViewState_YawAngle (ViewState s)\<bar>"

definition bTurnLeft :: "Engine \<Rightarrow> UAlsAnimationInstance \<Rightarrow> bool" where
  "bTurnLeft eng s \<longleftrightarrow>
    ViewState_YawAngle (ViewState s) \<le> 0 \<or>
    ViewState_YawAngle (ViewState s) > 180 - CounterClockwiseRotationAngleThreshold eng"

definition SelectTurnInPlaceSettings ::
  "Engine \<Rightarrow> UAlsAnimationInstanceSettings \<Rightarrow> UAlsAnimationInstance \<Rightarrow> UAlsTurnInPlaceSettings option" where
  "SelectTurnInPlaceSettings eng st s =
    (if Stance s = Standing then
       (if \<bar>ViewState_YawAngle (ViewState s)\<bar> < TurnInPlace_Turn180AngleThreshold (TurnInPlace st) then
          (if bTurnLeft eng s then TurnInPlace_StandingTurn90Left (TurnInPlace st)
           else TurnInPlace_StandingTurn90Right (TurnInPlace st))
        else
          (if bTurnLeft eng s then TurnInPlace_StandingTurn180Left (TurnInPlace st)
           else TurnInPlace_StandingTurn180Right (TurnInPlace st)))
     else if Stance s = Crouching then
       (if \<bar>ViewState_YawAngle (ViewState s)\<bar> < TurnInPlace_Turn180AngleThreshold (TurnInPlace st) then
          (if bTurnLeft eng s then TurnInPlace_CrouchingTurn90Left (TurnInPlace st)
           else TurnInPlace_CrouchingTurn90Right (TurnInPlace st))
        else
          (if bTurnLeft eng s then TurnInPlace_CrouchingTurn180Left (TurnInPlace st)
           else TurnInPlace_CrouchingTurn180Right (TurnInPlace st)))
     else None)"

definition SelectTurnInPlaceSlotName :: "UAlsAnimationInstance \<Rightarrow> SlotName" where
  "SelectTurnInPlaceSlotName s =
    (if Stance s = Standing then TurnInPlaceStandingSlot
     else if Stance s = Crouching then TurnInPlaceCrouchingSlot
     else NAME_None)"

definition RefreshTurnInPlace ::
  "Engine \<Rightarrow> World \<Rightarrow> UAlsAnimationInstanceSettings \<Rightarrow> UAlsAnimationInstance \<Rightarrow> real
    \<Rightarrow> UAlsAnimationInstance" where
  "RefreshTurnInPlace eng w st s DeltaTime =
    (if LocomotionState_bMoving (LocomotionState s) \<or> LocomotionMode s \<noteq> LocomotionMode_Grounded \<or>
        \<not> IsTurnInPlaceAllowed s
     then
       s\<lparr>TurnInPlaceState := (TurnInPlaceState s)
         \<lparr>TurnInPlaceState_ActivationDelay := 0, TurnInPlaceState_bFootLockDisabled := False\<rparr>\<rparr>
     else if \<not> TransitionsState_bTransitionsAllowed (TransitionsState s) then
       s\<lparr>TurnInPlaceState := (TurnInPlaceState s)\<lparr>TurnInPlaceState_ActivationDelay := 0\<rparr>\<rparr>
     else if ViewState_YawSpeed (ViewState s) \<ge> TurnInPlace_ViewYawSpeedThreshold (TurnInPlace st) \<or>
             \<bar>ViewState_YawAngle (ViewState s)\<bar> \<le> TurnInPlace_ViewYawAngleThreshold (TurnInPlace st)
     then
       s\<lparr>TurnInPlaceState := (TurnInPlaceState s)
         \<lparr>TurnInPlaceState_ActivationDelay := 0, TurnInPlaceState_bFootLockDisabled := False\<rparr>\<rparr>
     else
       (let s1 = s\<lparr>TurnInPlaceState := (TurnInPlaceState s)\<lparr>TurnInPlaceState_ActivationDelay :=
                   (if bPendingUpdate s then 0
                    else TurnInPlaceState_ActivationDelay (TurnInPlaceState s) + DeltaTime)\<rparr>\<rparr>;
            ActivationDelay = TurnInPlaceActivationDelay eng st s1
        in if TurnInPlaceState_ActivationDelay (TurnInPlaceState s1) \<le> ActivationDelay then s1
           else
             (case SelectTurnInPlaceSettings eng st s1 of
                None \<Rightarrow> s1
              | Some TurnInPlaceSettings \<Rightarrow>
                  if Turn_Animation TurnInPlaceSettings \<noteq> None then
                    (let s2 = s1\<lparr>TurnInPlaceState := (TurnInPlaceState s1)
                                \<lparr>TurnInPlaceState_QueuedSettings := Some TurnInPlaceSettings,
                                 TurnInPlaceState_QueuedSlotName := SelectTurnInPlaceSlotName s1,
                                 TurnInPlaceState_QueuedTurnYawAngle := ViewState_YawAngle (ViewState s1)\<rparr>\<rparr>
                     in if IsInGameThread w then PlayQueuedTurnInPlaceAnimation st s2 else s2)
                  else s1)))"


section \<open>Game-thread refresh\<close>

text \<open>
  The game-thread functions dereference \<^verbatim>\<open>Character\<close> below the null test of
  \<^verbatim>\<open>NativeUpdateAnimation\<close>; they take the character \<open>c\<close> as an argument.
  \<^verbatim>\<open>ResetGroundedEntryMode\<close> is declared in the header of the class, outside the sources;
  it clears the grounded entry mode tag (tag number 0 is the empty tag).
\<close>

definition ResetGroundedEntryMode :: "UAlsAnimationInstance \<Rightarrow> UAlsAnimationInstance" where
  "ResetGroundedEntryMode s = s\<lparr>GroundedEntryMode := 0\<rparr>"

definition RefreshViewGameThread :: "AAlsCharacter \<Rightarrow> UAlsAnimationInstance \<Rightarrow> UAlsAnimationInstance" where
  "RefreshViewGameThread c s =
    s\<lparr>ViewState := (ViewState s)
      \<lparr>ViewState_Rotation := CharView_Rotation (GetViewState c),
       ViewState_YawSpeed := CharView_YawSpeed (GetViewState c)\<rparr>\<rparr>"

definition RefreshLocomotionGameThread ::
  "World \<Rightarrow> UAlsAnimationInstanceSettings \<Rightarrow> AAlsCharacter \<Rightarrow> UAlsAnimationInstance
    \<Rightarrow> UAlsAnimationInstance" where
  "RefreshLocomotionGameThread w st c s =
    (let Locomotion = GetLocomotionState c;
         BasedMovement = GetBasedMovement c;
         L1 = (LocomotionState s)
           \<lparr>LocomotionState_bHasInput := CharLocomotion_bHasInput Locomotion,
            LocomotionState_InputYawAngle := CharLocomotion_InputYawAngle Locomotion,
            LocomotionState_Speed := CharLocomotion_Speed Locomotion,
            LocomotionState_Velocity := CharLocomotion_Velocity Locomotion,
            LocomotionState_VelocityYawAngle := CharLocomotion_VelocityYawAngle Locomotion,
            LocomotionState_Acceleration := CharLocomotion_Acceleration Locomotion,
            LocomotionState_MaxAcceleration := GetMaxAcceleration c,
            LocomotionState_MaxBrakingDeceleration := GetMaxBrakingDeceleration c,
            LocomotionState_WalkableFloorZ := GetWalkableFloorZ c,
            LocomotionState_bMoving := CharLocomotion_bMoving Locomotion,
            LocomotionState_bMovingSmooth :=
              ((CharLocomotion_bHasInput Locomotion \<and> CharLocomotion_bHasSpeed Locomotion) \<or>
               CharLocomotion_Speed Locomotion > General_MovingSmoothSpeedThreshold (General st)),
            LocomotionState_TargetYawAngle := CharLocomotion_TargetYawAngle Locomotion,
            LocomotionState_Location := CharLocomotion_Location Locomotion,
            LocomotionState_Rotation := CharLocomotion_Rotation Locomotion,
            LocomotionState_RotationQuaternion := CharLocomotion_RotationQuaternion Locomotion,
            LocomotionState_YawSpeed := CharLocomotion_YawSpeed Locomotion,
            LocomotionState_Scale := GetComponentScaleZ w,
            LocomotionState_CapsuleRadius := GetScaledCapsuleRadius c,
            LocomotionState_CapsuleHalfHeight := GetScaledCapsuleHalfHeight c\<rparr>;
         B0 = LocomotionState_BasedMovement L1;
         B1 =
           (if Based_MovementBase BasedMovement \<noteq> BasedMovement_Primitive B0 \<or>
               Based_BoneName BasedMovement \<noteq> BasedMovement_BoneName B0
            then B0\<lparr>BasedMovement_Primitive := Based_MovementBase BasedMovement,
                    BasedMovement_BoneName := Based_BoneName BasedMovement,
                    BasedMovement_bBaseChanged := True\<rparr>
            else B0\<lparr>BasedMovement_bBaseChanged := False\<rparr>);
         BaseTransform = GetMovementBaseTransform w (Based_MovementBase BasedMovement) (Based_BoneName BasedMovement);
         B2 = B1
           \<lparr>BasedMovement_bHasRelativeLocation := Based_HasRelativeLocation BasedMovement,
            BasedMovement_Location := fst BaseTransform,
            BasedMovement_Rotation := snd BaseTransform\<rparr>
     in s\<lparr>LocomotionState := L1\<lparr>LocomotionState_BasedMovement := B2\<rparr>\<rparr>)"

definition RefreshGroundedGameThread ::
  "UAlsAnimationInstanceSettings \<Rightarrow> UAlsAnimationInstance \<Rightarrow> UAlsAnimationInstance" where
  "RefreshGroundedGameThread st s =
    s\<lparr>GroundedState := (GroundedState s)
      \<lparr>GroundedState_bPivotActive :=
         (GroundedState_bPivotActivationRequested (GroundedState s) \<and> \<not> bPendingUpdate s \<and>
          LocomotionState_Speed (LocomotionState s) < Grounded_PivotActivationSpeedThreshold (Grounded st)),
       GroundedState_bPivotActivationRequested := False\<rparr>\<rparr>"

definition RefreshInAirGameThread :: "UAlsAnimationInstance \<Rightarrow> UAlsAnimationInstance" where
  "RefreshInAirGameThread s =
    s\<lparr>InAirState := (InAirState s)
      \<lparr>InAirState_bJumped :=
         (\<not> bPendingUpdate s \<and> (InAirState_bJumped (InAirState s) \<or> InAirState_bJumpRequested (InAirState s))),
       InAirState_bJumpRequested := False\<rparr>\<rparr>"

definition RefreshFeetGameThread ::
  "World \<Rightarrow> UAlsAnimationInstanceSettings \<Rightarrow> UAlsAnimationInstance \<Rightarrow> UAlsAnimationInstance" where
  "RefreshFeetGameThread w st s =
    (let FootLeftTargetTransform = GetSocketTransform w
           (if General_bUseFootIkBones (General st) then FootLeftIkBone else FootLeftVirtualBone);
         FootRightTargetTransform = GetSocketTransform w
           (if General_bUseFootIkBones (General st) then FootRightIkBone else FootRightVirtualBone)
     in s\<lparr>FeetState := (FeetState s)
          \<lparr>FeetState_Left := (FeetState_Left (FeetState s))
             \<lparr>Foot_TargetLocation := Transform_Translation FootLeftTargetTransform,
              Foot_TargetRotation := Transform_Rotation FootLeftTargetTransform\<rparr>,
           FeetState_Right := (FeetState_Right (FeetState s))
             \<lparr>Foot_TargetLocation := Transform_Translation FootRightTargetTransform,
              Foot_TargetRotation := Transform_Rotation FootRightTargetTransform\<rparr>\<rparr>\<rparr>)"

definition RefreshRagdollingGameThread :: "World \<Rightarrow> UAlsAnimationInstance \<Rightarrow> UAlsAnimationInstance" where
  "RefreshRagdollingGameThread w s =
    (if LocomotionAction s \<noteq> Ragdolling then s
     else
       (let ReferenceSpeed = 1000
        in s\<lparr>RagdollingState := (RagdollingState s)\<lparr>RagdollingState_FlailPlayRate :=
             Clamp01 (GetPhysicsLinearVelocitySize w RootBone / ReferenceSpeed)\<rparr>\<rparr>))"


section \<open>The per-frame entry points\<close>

text \<open>
  Each entry point first calls the implementation of the engine's base class, which does
  not touch the state of this class, and then tests the settings and the character
  references. The debug drawing compiled in editor builds only is left out.
\<close>

definition NativeUpdateAnimation :: "World \<Rightarrow> UAlsAnimationInstance \<Rightarrow> real \<Rightarrow> UAlsAnimationInstance" where
  "NativeUpdateAnimation w s DeltaTime =
    (case Settings s of
       None \<Rightarrow> s
     | Some st \<Rightarrow>
        (case Character s of
           None \<Rightarrow> s
         | Some c0 \<Rightarrow>
            (let c = (if \<not> WITH_EDITOR w \<or> IsGameWorld w
                      then ApplyRotationYawSpeedFromAnimationInstance w DeltaTime c0 else c0);
                 s1 = s\<lparr>Character := Some c,
                        bAnimationCurvesRelevant := bAnimationCurvesRelevantGameThread s,
                        Stance := GetStance c,
                        Gait := GetGait c,
                        RotationMode := GetRotationMode c,
                        LocomotionMode := GetLocomotionMode c\<rparr>;
                 s2 = (if LocomotionAction s1 \<noteq> GetLocomotionAction c
                       then ResetGroundedEntryMode (s1\<lparr>LocomotionAction := GetLocomotionAction c\<rparr>)
                       else s1);
                 s3 = s2\<lparr>ViewMode := GetViewMode c, OverlayMode := GetOverlayMode c\<rparr>;
                 s4 = RefreshViewGameThread c s3;
                 s5 = RefreshLocomotionGameThread w st c s4;
                 s6 = RefreshGroundedGameThread st s5;
                 s7 = RefreshInAirGameThread s6;
                 s8 = RefreshFeetGameThread w st s7
             in RefreshRagdollingGameThread w s8)))"

definition NativeThreadSafeUpdateAnimation ::
  "Engine \<Rightarrow> World \<Rightarrow> UAlsAnimationInstance \<Rightarrow> real \<Rightarrow> UAlsAnimationInstance" where
  "NativeThreadSafeUpdateAnimation eng w s DeltaTime =
    (case Settings s of
       None \<Rightarrow> s
     | Some st \<Rightarrow>
        (case Character s of
           None \<Rightarrow> s
         | Some c \<Rightarrow>
            (let s1 = RefreshLayering w s;
                 s2 = RefreshPose w s1;
                 s3 = RefreshView eng w st s2 DeltaTime;
                 s4 = RefreshGrounded eng w st s3 DeltaTime;
                 s5 = RefreshInAir eng w st s4 DeltaTime;
                 s6 = RefreshFeet eng w st s5 DeltaTime;
                 s7 = RefreshTransitions w st s6;
                 s8 = RefreshRotateInPlace eng st s7 DeltaTime
             in RefreshTurnInPlace eng w st s8 DeltaTime)))"

definition NativePostEvaluateAnimation :: "UAlsAnimationInstance \<Rightarrow> UAlsAnimationInstance" where
  "NativePostEvaluateAnimation s =
    (case Settings s of
       None \<Rightarrow> s
     | Some st \<Rightarrow>
        (case Character s of
           None \<Rightarrow> s
         | Some c \<Rightarrow>
            (let s1 = PlayQueuedDynamicTransitionAnimation st s;
                 s2 = PlayQueuedTurnInPlaceAnimation st s1
             in s2\<lparr>bPendingUpdate := False, bTeleported := False\<rparr>)))"


section \<open>Auxiliary definitions for the statements\<close>

text \<open>A blend amount is in range when it lies between 0 and 1.\<close>

definition in01 :: "real \<Rightarrow> bool" where
  "in01 v \<longleftrightarrow> 0 \<le> v \<and> v \<le> 1"

text \<open>
  The state of \<^verbatim>\<open>RefreshView\<close> when it reaches the test of the look amount: the first four
  steps of the function, copied from its definition.
\<close>

definition RefreshView_head :: "Engine \<Rightarrow> World \<Rightarrow> UAlsAnimationInstance \<Rightarrow> UAlsAnimationInstance" where
  "RefreshView_head eng w s =
    (let s1 =
           (if \<not> IsValidTag (LocomotionAction s) then
              (let YawAngle = NormalizeAxis eng
                     (Yaw (ViewState_Rotation (ViewState s)) - Yaw (LocomotionState_Rotation (LocomotionState s)));
                   PitchAngle = NormalizeAxis eng
                     (Pitch (ViewState_Rotation (ViewState s)) - Pitch (LocomotionState_Rotation (LocomotionState s)))
               in s\<lparr>ViewState := (ViewState s)
                    \<lparr>ViewState_YawAngle := YawAngle,
                     ViewState_PitchAngle := PitchAngle,
                     ViewState_PitchAmount := 1 / 2 - PitchAngle / 180\<rparr>\<rparr>)
            else s);
         s2 = s1\<lparr>ViewState := (ViewState s1)
                \<lparr>ViewState_LookAmount := AimingAllowedAmount w * (1 - AimingManualAmount w)\<rparr>\<rparr>;
         s3 =
           (if IsSpineRotationAllowed s2 then
              s2\<lparr>ViewState := (ViewState s2)
                \<lparr>ViewState_TargetSpineYawAngle :=
                   (if ViewState_YawAngle (ViewState s2) > 180 - CounterClockwiseRotationAngleThreshold eng
                    then ViewState_YawAngle (ViewState s2) - 360
                    else ViewState_YawAngle (ViewState s2))\<rparr>\<rparr>
            else s2)
     in s3\<lparr>ViewState := (ViewState s3)
                \<lparr>ViewState_SpineYawAngle := NormalizeAxis eng
                   (ViewState_TargetSpineYawAngle (ViewState s3) * AimingAllowedAmount w * AimingManualAmount w)\<rparr>\<rparr>)"


text \<open>
  What a queued turn in place is made of: the queued settings, slot and yaw angle, and the
  montages played so far.
\<close>

definition TurnInPlaceQueue ::
  "UAlsAnimationInstance \<Rightarrow> UAlsTurnInPlaceSettings option \<times> SlotName \<times> real \<times> MontageCall list" where
  "TurnInPlaceQueue s =
    (TurnInPlaceState_QueuedSettings (TurnInPlaceState s), TurnInPlaceState_QueuedSlotName (TurnInPlaceState s),
     TurnInPlaceState_QueuedTurnYawAngle (TurnInPlaceState s), PlayedMontages s)"

text \<open>
  The queued dynamic transition together with the montages played so far, and the state
  after a dynamic transition with animation \<open>a\<close> has been selected: the last step of
  \<^verbatim>\<open>RefreshDynamicTransition\<close>, copied from its definition.
\<close>

definition DynamicTransitionQueue :: "UAlsAnimationInstance \<Rightarrow> UAnimSequenceBase option \<times> MontageCall list" where
  "DynamicTransitionQueue s =
    (TransitionsState_QueuedDynamicTransitionAnimation (TransitionsState s), PlayedMontages s)"

definition SelectDynamicTransition ::
  "World \<Rightarrow> UAlsAnimationInstanceSettings \<Rightarrow> UAlsAnimationInstance \<Rightarrow> UAnimSequenceBase
    \<Rightarrow> UAlsAnimationInstance" where
  "SelectDynamicTransition w st s a =
    (let s1 = s\<lparr>TransitionsState := (TransitionsState s)
                \<lparr>TransitionsState_DynamicTransitionsFrameDelay := 2,
                 TransitionsState_QueuedDynamicTransitionAnimation := Some a\<rparr>\<rparr>
     in if IsInGameThread w then PlayQueuedDynamicTransitionAnimation st s1 else s1)"


section \<open>A sample engine, world, settings and instance\<close>

text \<open>
  Concrete values on which the model is evaluated. The sample engine implements the scalar
  helpers as the engine documents them (angles normalised to the interval from -180 to 180,
  interpolation towards a target, range mapping, quaternion algebra); interpolation of
  rotations and the spring are kept linear. No theorem about the model depends on them.
\<close>

definition Fmod :: "real \<Rightarrow> real \<Rightarrow> real" where
  "Fmod x y = x - y * of_int (if x / y \<ge> 0 then \<lfloor>x / y\<rfloor> else \<lceil>x / y\<rceil>)"

definition sample_ClampAxis :: "real \<Rightarrow> real" where
  "sample_ClampAxis Angle = (let a = Fmod Angle 360 in if a < 0 then a + 360 else a)"

definition sample_NormalizeAxis :: "real \<Rightarrow> real" where
  "sample_NormalizeAxis Angle = (let a = sample_ClampAxis Angle in if a > 180 then a - 360 else a)"

definition sample_FInterpTo :: "real \<Rightarrow> real \<Rightarrow> real \<Rightarrow> real \<Rightarrow> real" where
  "sample_FInterpTo Current Target DeltaTime InterpSpeed =
    (if InterpSpeed \<le> 0 then Target
     else if Square (Target - Current) < SMALL_NUMBER then Target
     else Current + (Target - Current) * Clamp (DeltaTime * InterpSpeed) 0 1)"

definition sample_VInterpTo :: "FVector \<Rightarrow> FVector \<Rightarrow> real \<Rightarrow> real \<Rightarrow> FVector" where
  "sample_VInterpTo Current Target DeltaTime InterpSpeed =
    (if InterpSpeed \<le> 0 then Target
     else if DistSquared Current Target < KINDA_SMALL_NUMBER then Target
     else FVector_add Current (FVector_scale (FVector_sub Target Current) (Clamp (DeltaTime * InterpSpeed) 0 1)))"

definition sample_Slerp :: "FQuat \<Rightarrow> FQuat \<Rightarrow> real \<Rightarrow> FQuat" where
  "sample_Slerp A B Alpha =
    \<lparr>Quat_X = Lerp (Quat_X A) (Quat_X B) Alpha, Quat_Y = Lerp (Quat_Y A) (Quat_Y B) Alpha,
     Quat_Z = Lerp (Quat_Z A) (Quat_Z B) Alpha, Quat_W = Lerp (Quat_W A) (Quat_W B) Alpha\<rparr>"

definition sample_QInterpTo :: "FQuat \<Rightarrow> FQuat \<Rightarrow> real \<Rightarrow> real \<Rightarrow> FQuat" where
  "sample_QInterpTo Current Target DeltaTime InterpSpeed =
    (if InterpSpeed \<le> 0 then Target
     else if Current = Target then Target
     else sample_Slerp Current Target (Clamp (InterpSpeed * DeltaTime) 0 1))"

definition sample_QuatMul :: "FQuat \<Rightarrow> FQuat \<Rightarrow> FQuat" where
  "sample_QuatMul a b =
    \<lparr>Quat_X = Quat_W a * Quat_X b + Quat_X a * Quat_W b + Quat_Y a * Quat_Z b - Quat_Z a * Quat_Y b,
     Quat_Y = Quat_W a * Quat_Y b - Quat_X a * Quat_Z b + Quat_Y a * Quat_W b + Quat_Z a * Quat_X b,
     Quat_Z = Quat_W a * Quat_Z b + Quat_X a * Quat_Y b - Quat_Y a * Quat_X b + Quat_Z a * Quat_W b,
     Quat_W = Quat_W a * Quat_W b - Quat_X a * Quat_X b - Quat_Y a * Quat_Y b - Quat_Z a * Quat_Z b\<rparr>"

definition sample_QuatInverse :: "FQuat \<Rightarrow> FQuat" where
  "sample_QuatInverse q = \<lparr>Quat_X = - Quat_X q, Quat_Y = - Quat_Y q, Quat_Z = - Quat_Z q, Quat_W = Quat_W q\<rparr>"

definition FVector_cross :: "FVector \<Rightarrow> FVector \<Rightarrow> FVector" where
  "FVector_cross a b =
    \<lparr>X = Y a * Z b - Z a * Y b, Y = Z a * X b - X a * Z b, Z = X a * Y b - Y a * X b\<rparr>"

definition sample_RotateVector :: "FQuat \<Rightarrow> FVector \<Rightarrow> FVector" where
  "sample_RotateVector q v =
    (let Q = \<lparr>X = Quat_X q, Y = Quat_Y q, Z = Quat_Z q\<rparr>;
         TT = FVector_scale (FVector_cross Q v) 2
     in FVector_add (FVector_add v (FVector_scale TT (Quat_W q))) (FVector_cross Q TT))"

definition sample_UnrotateVector :: "FQuat \<Rightarrow> FVector \<Rightarrow> FVector" where
  "sample_UnrotateVector q v = sample_RotateVector (sample_QuatInverse q) v"

definition sample_GetSafeNormal :: "FVector \<Rightarrow> FVector" where
  "sample_GetSafeNormal v =
    (let SquareSum = FVector_dot v v
     in if SquareSum = 1 then v
        else if SquareSum < SMALL_NUMBER then ZeroVector
        else FVector_scale v (1 / sqrt SquareSum))"

definition sample_GetMappedRangeValueClamped :: "FVector2D \<Rightarrow> FVector2D \<Rightarrow> real \<Rightarrow> real" where
  "sample_GetMappedRangeValueClamped InputRange OutputRange Value =
    (let Pct =
           (if V2_X InputRange = V2_Y InputRange then (if Value \<ge> V2_Y InputRange then 1 else 0)
            else (Value - V2_X InputRange) / (V2_Y InputRange - V2_X InputRange))
     in Lerp (V2_X OutputRange) (V2_Y OutputRange) (Clamp Pct 0 1))"

definition sample_ClampMagnitude01 :: "FVector \<Rightarrow> FVector" where
  "sample_ClampMagnitude01 v =
    (let SquareSum = FVector_dot v v
     in if SquareSum \<le> 1 then v else FVector_scale v (1 / sqrt SquareSum))"

definition sample_CalculateMovementDirection :: "real \<Rightarrow> real \<Rightarrow> real \<Rightarrow> EAlsMovementDirection" where
  "sample_CalculateMovementDirection Angle ForwardHalfAngle AngleThreshold =
    (if - ForwardHalfAngle - AngleThreshold \<le> Angle \<and> Angle \<le> ForwardHalfAngle + AngleThreshold then Forward
     else if ForwardHalfAngle - AngleThreshold \<le> Angle \<and> Angle \<le> 180 - ForwardHalfAngle + AngleThreshold then Right
     else if - (180 - ForwardHalfAngle) - AngleThreshold \<le> Angle \<and> Angle \<le> - (ForwardHalfAngle - AngleThreshold) then Left
     else Backward)"

definition sample_TransformPosition :: "FTransform \<Rightarrow> FVector \<Rightarrow> FVector" where
  "sample_TransformPosition T v =
    FVector_add
      (sample_RotateVector (Transform_Rotation T)
         \<lparr>X = X (Transform_Scale3D T) * X v, Y = Y (Transform_Scale3D T) * Y v, Z = Z (Transform_Scale3D T) * Z v\<rparr>)
      (Transform_Translation T)"

definition sample_TransformInverse :: "FTransform \<Rightarrow> FTransform" where
  "sample_TransformInverse T =
    (let InvRotation = sample_QuatInverse (Transform_Rotation T);
         InvScale = \<lparr>X = (if X (Transform_Scale3D T) = 0 then 0 else 1 / X (Transform_Scale3D T)),
                     Y = (if Y (Transform_Scale3D T) = 0 then 0 else 1 / Y (Transform_Scale3D T)),
                     Z = (if Z (Transform_Scale3D T) = 0 then 0 else 1 / Z (Transform_Scale3D T))\<rparr>;
         R = sample_RotateVector InvRotation (Transform_Translation T)
     in \<lparr>Transform_Rotation = InvRotation,
         Transform_Translation = \<lparr>X = - (X InvScale * X R), Y = - (Y InvScale * Y R), Z = - (Z InvScale * Z R)\<rparr>,
         Transform_Scale3D = InvScale\<rparr>)"

definition sample_Engine :: Engine where
  "sample_Engine =
    \<lparr>NormalizeAxis = sample_NormalizeAxis,
     CounterClockwiseRotationAngleThreshold = 5,
     ExponentialDecay = (\<lambda>DeltaTime Lambda. 1 - exp (- Lambda * DeltaTime)),
     ExponentialDecayRotator = (\<lambda>Current Target DeltaTime Lambda.
        if Lambda \<le> 0 then Target
        else (let Alpha = 1 - exp (- Lambda * DeltaTime)
              in \<lparr>Pitch = Pitch Current + sample_NormalizeAxis (Pitch Target - Pitch Current) * Alpha,
                  Yaw = Yaw Current + sample_NormalizeAxis (Yaw Target - Yaw Current) * Alpha,
                  Roll = Roll Current + sample_NormalizeAxis (Roll Target - Roll Current) * Alpha\<rparr>)),
     FInterpTo = sample_FInterpTo,
     FInterpToNaN = (\<lambda>Current Target DeltaTime InterpSpeed. NotANumber),
     Clamp01NaN = NotANumber,
     AbsClampNaN = (\<lambda>MinValue MaxValue. Number \<bar>MaxValue\<bar>),
     VInterpTo = sample_VInterpTo,
     QInterpTo = sample_QInterpTo,
     SpringDamp = (\<lambda>Current Target SpringState DeltaTime Frequency DampingRatio TargetVelocityAmount.
        (FVector_Lerp Current Target (Clamp (DeltaTime * Frequency) 0 1),
         SpringState\<lparr>Spring_PreviousTarget := Target, Spring_bStateValid := True\<rparr>)),
     SpringReset =
        \<lparr>Spring_Velocity = ZeroVector, Spring_PreviousTarget = ZeroVector, Spring_bStateValid = False\<rparr>,
     QuatInverse = sample_QuatInverse,
     QuatMul = sample_QuatMul,
     RotateVector = sample_RotateVector,
     UnrotateVector = sample_UnrotateVector,
     Slerp = sample_Slerp,
     RotatorQuaternion = (\<lambda>R.
        if R = \<lparr>Pitch = 0, Yaw = 0, Roll = 0\<rparr> then QuatIdentity
        else \<lparr>Quat_X = 0, Quat_Y = 0, Quat_Z = sin (Yaw R * pi / 360), Quat_W = cos (Yaw R * pi / 360)\<rparr>),
     GetSafeNormal = sample_GetSafeNormal,
     Normalize = sample_GetSafeNormal,
     GetMappedRangeValueClamped = sample_GetMappedRangeValueClamped,
     LerpClamped = (\<lambda>A B Alpha. A + Clamp01 Alpha * (B - A)),
     DirectionToAngle = (\<lambda>Direction.
        if V2_Y Direction = 0 then 0 else arctan (V2_Y Direction / V2_X Direction) * 180 / pi),
     CalculateMovementDirection = sample_CalculateMovementDirection,
     ClampMagnitude01 = sample_ClampMagnitude01,
     TransformInverse = sample_TransformInverse,
     TransformPosition = sample_TransformPosition,
     TransformRotation = (\<lambda>T q. sample_QuatMul (Transform_Rotation T) q)\<rparr>"

definition IdentityTransform :: FTransform where
  "IdentityTransform =
    \<lparr>Transform_Rotation = QuatIdentity, Transform_Translation = ZeroVector,
     Transform_Scale3D = \<lparr>X = 1, Y = 1, Z = 1\<rparr>\<rparr>"

definition ZeroRotator :: FRotator where
  "ZeroRotator = \<lparr>Pitch = 0, Yaw = 0, Roll = 0\<rparr>"

definition sample_Hit_none :: FHitResult where
  "sample_Hit_none =
    \<lparr>Hit_bBlockingHit = False, Hit_bStartPenetrating = False, Hit_Time = 1,
     Hit_ImpactPoint = ZeroVector, Hit_ImpactNormal = ZeroVector\<rparr>"

definition sample_Hit_floor :: "FVector \<Rightarrow> FHitResult" where
  "sample_Hit_floor p =
    \<lparr>Hit_bBlockingHit = True, Hit_bStartPenetrating = False, Hit_Time = 1 / 2,
     Hit_ImpactPoint = p, Hit_ImpactNormal = \<lparr>X = 0, Y = 0, Z = 1\<rparr>\<rparr>"

definition sample_Character :: AAlsCharacter where
  "sample_Character =
    \<lparr>GetStance = Standing, GetGait = Walking, GetRotationMode = LookingDirection,
     GetLocomotionMode = LocomotionMode_Grounded, GetLocomotionAction = EmptyTag,
     GetViewMode = ThirdPerson, GetOverlayMode = 0,
     GetViewState = \<lparr>CharView_Rotation = \<lparr>Pitch = 0, Yaw = 90, Roll = 0\<rparr>, CharView_YawSpeed = 0\<rparr>,
     GetLocomotionState =
       \<lparr>CharLocomotion_bHasInput = False, CharLocomotion_bHasSpeed = False, CharLocomotion_bMoving = False,
        CharLocomotion_InputYawAngle = 0, CharLocomotion_Speed = 0, CharLocomotion_Velocity = ZeroVector,
        CharLocomotion_VelocityYawAngle = 0, CharLocomotion_Acceleration = ZeroVector,
        CharLocomotion_TargetYawAngle = 0, CharLocomotion_Location = ZeroVector,
        CharLocomotion_Rotation = ZeroRotator, CharLocomotion_RotationQuaternion = QuatIdentity,
        CharLocomotion_YawSpeed = 0\<rparr>,
     GetMaxAcceleration = 2048, GetMaxBrakingDeceleration = 2048, GetWalkableFloorZ = 7 / 10,
     GetScaledCapsuleRadius = 34, GetScaledCapsuleHalfHeight = 88,
     GetBasedMovement = \<lparr>Based_MovementBase = None, Based_BoneName = 0, Based_HasRelativeLocation = False\<rparr>\<rparr>"

definition sample_World :: World where
  "sample_World =
    \<lparr>GetCurveValue = (\<lambda>Name. 0),
     IsInGameThread = False,
     WITH_EDITOR = False,
     IsGameWorld = True,
     GetComponentTransform = IdentityTransform,
     GetComponentScaleZ = 1,
     GetSocketTransform = (\<lambda>Bone. IdentityTransform),
     GetPhysicsLinearVelocitySize = (\<lambda>Bone. 0),
     GetMovementBaseTransform = (\<lambda>Base Bone. (ZeroVector, QuatIdentity)),
     ApplyRotationYawSpeedFromAnimationInstance = (\<lambda>DeltaTime c. c),
     SweepSingleByObjectType = (\<lambda>Start End ObjectTypes Radius HalfHeight. sample_Hit_none),
     LineTraceSingleByChannel = (\<lambda>Start End Channel. sample_Hit_none)\<rparr>"

definition sample_TurnSettings :: "UAnimSequenceBase \<Rightarrow> real \<Rightarrow> UAlsTurnInPlaceSettings" where
  "sample_TurnSettings Animation Angle =
    \<lparr>Turn_Animation = Some Animation, Turn_PlayRate = 6 / 5,
     Turn_bScalePlayRateByAnimatedTurnAngle = True, Turn_AnimatedTurnAngle = Angle\<rparr>"

definition sample_Settings :: UAlsAnimationInstanceSettings where
  "sample_Settings =
    \<lparr>General = \<lparr>General_bUseFootIkBones = False, General_MovingSmoothSpeedThreshold = 150,
                General_LeanInterpolationSpeed = 4\<rparr>,
     View = \<lparr>View_LookTowardsCameraRotationInterpolationSpeed = 8,
             View_LookTowardsInputYawAngleInterpolationSpeed = 8\<rparr>,
     Grounded =
       \<lparr>Grounded_AnimatedWalkSpeed = 150, Grounded_AnimatedRunSpeed = 350,
        Grounded_AnimatedSprintSpeed = 600, Grounded_AnimatedCrouchSpeed = 150,
        Grounded_VelocityBlendInterpolationSpeed = 12,
        Grounded_RotationYawOffsetForwardCurve = (\<lambda>x. 0),
        Grounded_RotationYawOffsetBackwardCurve = (\<lambda>x. 0),
        Grounded_RotationYawOffsetLeftCurve = (\<lambda>x. 0),
        Grounded_RotationYawOffsetRightCurve = (\<lambda>x. 0),
        Grounded_StrideBlendAmountWalkCurve = (\<lambda>x. 1),
        Grounded_StrideBlendAmountRunCurve = (\<lambda>x. 1),
        Grounded_PivotActivationSpeedThreshold = 200\<rparr>,
     InAir =
       \<lparr>InAir_LeanAmountCurve = (\<lambda>x. 1),
        InAir_GroundPredictionSweepObjectTypes = [0],
        InAir_GroundPredictionAmountCurve = (\<lambda>x. 1 - x)\<rparr>,
     Feet =
       \<lparr>Feet_bDisableFootLock = False, Feet_FootHeight = 13, Feet_IkTraceChannel = 0,
        Feet_IkTraceDistanceUpward = 50, Feet_IkTraceDistanceDownward = 45\<rparr>,
     Transitions =
       \<lparr>Transitions_DynamicTransitionFootLockDistanceThreshold = 8,
        Transitions_DynamicTransitionBlendTime = 1 / 5,
        Transitions_DynamicTransitionPlayRate = 3 / 2,
        Transitions_StandingDynamicTransitionLeftAnimation = Some 1,
        Transitions_StandingDynamicTransitionRightAnimation = Some 2,
        Transitions_CrouchingDynamicTransitionLeftAnimation = Some 3,
        Transitions_CrouchingDynamicTransitionRightAnimation = Some 4\<rparr>,
     RotateInPlace =
       \<lparr>RotateInPlace_ViewYawAngleThreshold = 50,
        RotateInPlace_ReferenceViewYawSpeed = \<lparr>V2_X = 180, V2_Y = 460\<rparr>,
        RotateInPlace_PlayRate = \<lparr>V2_X = 23 / 20, V2_Y = 3\<rparr>,
        RotateInPlace_bDisableFootLock = False,
        RotateInPlace_FootLockBlockViewYawAngleThreshold = 120,
        RotateInPlace_FootLockBlockViewYawSpeedThreshold = 620\<rparr>,
     TurnInPlace =
       \<lparr>TurnInPlace_ViewYawAngleThreshold = 45,
        TurnInPlace_ViewYawSpeedThreshold = 50,
        TurnInPlace_ViewYawAngleToActivationDelay = \<lparr>V2_X = 3 / 4, V2_Y = 0\<rparr>,
        TurnInPlace_Turn180AngleThreshold = 130,
        TurnInPlace_BlendTime = 1 / 5,
        TurnInPlace_bDisableFootLock = False,
        TurnInPlace_StandingTurn90Left = Some (sample_TurnSettings 11 90),
        TurnInPlace_StandingTurn90Right = Some (sample_TurnSettings 12 90),
        TurnInPlace_StandingTurn180Left = Some (sample_TurnSettings 13 180),
        TurnInPlace_StandingTurn180Right = Some (sample_TurnSettings 14 180),
        TurnInPlace_CrouchingTurn90Left = Some (sample_TurnSettings 15 90),
        TurnInPlace_CrouchingTurn90Right = Some (sample_TurnSettings 16 90),
        TurnInPlace_CrouchingTurn180Left = Some (sample_TurnSettings 17 180),
        TurnInPlace_CrouchingTurn180Right = Some (sample_TurnSettings 18 180)\<rparr>\<rparr>"

definition sample_Foot :: FAlsFootState where
  "sample_Foot =
    \<lparr>Foot_IkAmount = 0, Foot_LockAmount = 0,
     Foot_TargetLocation = ZeroVector, Foot_TargetRotation = QuatIdentity,
     Foot_LockLocation = ZeroVector, Foot_LockRotation = QuatIdentity,
     Foot_LockComponentRelativeLocation = ZeroVector, Foot_LockComponentRelativeRotation = QuatIdentity,
     Foot_LockMovementBaseRelativeLocation = ZeroVector, Foot_LockMovementBaseRelativeRotation = QuatIdentity,
     Foot_OffsetTargetLocation = ZeroVector, Foot_OffsetTargetRotation = QuatIdentity,
     Foot_OffsetSpringState =
       \<lparr>Spring_Velocity = ZeroVector, Spring_PreviousTarget = ZeroVector, Spring_bStateValid = False\<rparr>,
     Foot_OffsetLocation = ZeroVector, Foot_OffsetRotation = QuatIdentity,
     Foot_IkLocation = ZeroVector, Foot_IkRotation = QuatIdentity\<rparr>"

definition sample_LocomotionState :: FAlsLocomotionAnimationState where
  "sample_LocomotionState =
    \<lparr>LocomotionState_bHasInput = False, LocomotionState_InputYawAngle = 0,
     LocomotionState_Speed = 0, LocomotionState_Velocity = ZeroVector,
     LocomotionState_VelocityYawAngle = 0, LocomotionState_Acceleration = ZeroVector,
     LocomotionState_MaxAcceleration = 2048, LocomotionState_MaxBrakingDeceleration = 2048,
     LocomotionState_WalkableFloorZ = 7 / 10,
     LocomotionState_bMoving = False, LocomotionState_bMovingSmooth = False,
     LocomotionState_TargetYawAngle = 0, LocomotionState_Location = ZeroVector,
     LocomotionState_Rotation = ZeroRotator, LocomotionState_RotationQuaternion = QuatIdentity,
     LocomotionState_YawSpeed = 0, LocomotionState_Scale = 1,
     LocomotionState_CapsuleRadius = 34, LocomotionState_CapsuleHalfHeight = 88,
     LocomotionState_BasedMovement =
       \<lparr>BasedMovement_Primitive = None, BasedMovement_BoneName = 0,
        BasedMovement_bBaseChanged = False, BasedMovement_bHasRelativeLocation = False,
        BasedMovement_Location = ZeroVector, BasedMovement_Rotation = QuatIdentity\<rparr>\<rparr>"

definition sample_ViewState :: FAlsViewAnimationState where
  "sample_ViewState =
    \<lparr>ViewState_Rotation = \<lparr>Pitch = 0, Yaw = 90, Roll = 0\<rparr>, ViewState_YawSpeed = 0,
     ViewState_YawAngle = 0, ViewState_PitchAngle = 0, ViewState_PitchAmount = 1 / 2,
     ViewState_LookAmount = 0, ViewState_TargetSpineYawAngle = 0, ViewState_SpineYawAngle = 0,
     ViewState_LookTowardsInput =
       \<lparr>LookTowardsInput_bReinitializationRequired = True,
        LookTowardsInput_YawAngle = 0, LookTowardsInput_YawAmount = 1 / 2\<rparr>,
     ViewState_LookTowardsCamera =
       \<lparr>LookTowardsCamera_bReinitializationRequired = True,
        LookTowardsCamera_Rotation = ZeroRotator,
        LookTowardsCamera_YawAngle = 0, LookTowardsCamera_PitchAngle = 0,
        LookTowardsCamera_YawForwardAmount = 1 / 2,
        LookTowardsCamera_YawLeftAmount = 1 / 2, LookTowardsCamera_YawRightAmount = 1 / 2\<rparr>\<rparr>"

definition sample_LayeringState :: FAlsLayeringState where
  "sample_LayeringState =
    \<lparr>LayeringState_HeadBlendAmount = 0, LayeringState_HeadAdditiveBlendAmount = 0,
     LayeringState_HeadSlotBlendAmount = 1,
     LayeringState_ArmLeftBlendAmount = 0, LayeringState_ArmLeftAdditiveBlendAmount = 0,
     LayeringState_ArmLeftSlotBlendAmount = 1, LayeringState_ArmLeftLocalSpaceBlendAmount = 0,
     LayeringState_ArmLeftMeshSpaceBlendAmount = 0,
     LayeringState_ArmRightBlendAmount = 0, LayeringState_ArmRightAdditiveBlendAmount = 0,
     LayeringState_ArmRightSlotBlendAmount = 1, LayeringState_ArmRightLocalSpaceBlendAmount = 0,
     LayeringState_ArmRightMeshSpaceBlendAmount = 0,
     LayeringState_HandLeftBlendAmount = 0, LayeringState_HandRightBlendAmount = 0,
     LayeringState_SpineBlendAmount = 0, LayeringState_SpineAdditiveBlendAmount = 0,
     LayeringState_SpineSlotBlendAmount = 1,
     LayeringState_PelvisBlendAmount = 0, LayeringState_PelvisSlotBlendAmount = 1,
     LayeringState_LegsBlendAmount = 0, LayeringState_LegsSlotBlendAmount = 1\<rparr>"

definition sample_Instance :: UAlsAnimationInstance where
  "sample_Instance =
    \<lparr>Settings = Some sample_Settings,
     Character = Some sample_Character,
     bPendingUpdate = True,
     bTeleported = False,
     bAnimationCurvesRelevant = True,
     bAnimationCurvesRelevantGameThread = True,
     Stance = Standing, Gait = Walking, RotationMode = LookingDirection,
     LocomotionMode = LocomotionMode_Grounded, LocomotionAction = EmptyTag,
     ViewMode = ThirdPerson, OverlayMode = 0, GroundedEntryMode = 0,
     LayeringState = sample_LayeringState,
     PoseState =
       \<lparr>PoseState_GaitAmount = 0, PoseState_GaitWalkingAmount = 0, PoseState_GaitRunningAmount = 0,
        PoseState_GaitSprintingAmount = 0, PoseState_MovingAmount = 0, PoseState_StandingAmount = 1,
        PoseState_CrouchingAmount = 0, PoseState_GroundedAmount = 1, PoseState_InAirAmount = 0\<rparr>,
     ViewState = sample_ViewState,
     LocomotionState = sample_LocomotionState,
     GroundedState =
       \<lparr>GroundedState_bPivotActivationRequested = False, GroundedState_bPivotActive = False,
        GroundedState_SprintBlockAmount = 0, GroundedState_HipsDirectionLockAmount = 0,
        GroundedState_MovementDirection = Forward,
        GroundedState_VelocityBlend =
          \<lparr>VelocityBlend_bReinitializationRequired = True, VelocityBlend_ForwardAmount = Number 0,
           VelocityBlend_BackwardAmount = Number 0, VelocityBlend_LeftAmount = Number 0,
           VelocityBlend_RightAmount = Number 0\<rparr>,
        GroundedState_RotationYawOffsets =
          \<lparr>RotationYawOffsets_ForwardAngle = 0, RotationYawOffsets_BackwardAngle = 0,
           RotationYawOffsets_LeftAngle = 0, RotationYawOffsets_RightAngle = 0\<rparr>,
        GroundedState_SprintTime = 0, GroundedState_SprintAccelerationAmount = 0,
        GroundedState_StrideBlendAmount = 1, GroundedState_WalkRunBlendAmount = 0,
        GroundedState_StandingPlayRate = 1, GroundedState_CrouchingPlayRate = 1\<rparr>,
     LeanState = \<lparr>LeanState_RightAmount = 0, LeanState_ForwardAmount = 0\<rparr>,
     InAirState =
       \<lparr>InAirState_bJumpRequested = False, InAirState_bJumped = False, InAirState_JumpPlayRate = 1,
        InAirState_VerticalVelocity = 0, InAirState_GroundPredictionAmount = 0\<rparr>,
     FeetState =
       \<lparr>FeetState_bReinitializationRequired = True, FeetState_FootPlantedAmount = 0,
        FeetState_FeetCrossingAmount = 0, FeetState_Left = sample_Foot, FeetState_Right = sample_Foot,
        FeetState_MinMaxPelvisOffsetZ = \<lparr>V2_X = 0, V2_Y = 0\<rparr>\<rparr>,
     TransitionsState =
       \<lparr>TransitionsState_bTransitionsAllowed = False, TransitionsState_DynamicTransitionsFrameDelay = 0,
        TransitionsState_QueuedDynamicTransitionAnimation = None\<rparr>,
     RotateInPlaceState =
       \<lparr>RotateInPlaceState_bRotatingLeft = False, RotateInPlaceState_bRotatingRight = False,
        RotateInPlaceState_PlayRate = 1, RotateInPlaceState_FootLockBlockAmount = 0\<rparr>,
     TurnInPlaceState =
       \<lparr>TurnInPlaceState_ActivationDelay = 0, TurnInPlaceState_QueuedSettings = None,
        TurnInPlaceState_QueuedSlotName = NAME_None, TurnInPlaceState_QueuedTurnYawAngle = 0,
        TurnInPlaceState_PlayRate = 1, TurnInPlaceState_bFootLockDisabled = False\<rparr>,
     RagdollingState = \<lparr>RagdollingState_FlailPlayRate = 1\<rparr>,
     PlayedMontages = []\<rparr>"

text \<open>Variations of the sample values, used where a statement needs a particular situation.\<close>

definition aim_blocked_World :: World where
  "aim_blocked_World = sample_World\<lparr>GetCurveValue := (\<lambda>Name. if Name = AimBlockCurve then 1 else 0)\<rparr>"

definition camera_active_Instance :: UAlsAnimationInstance where
  "camera_active_Instance =
    sample_Instance\<lparr>ViewState := sample_ViewState
      \<lparr>ViewState_LookTowardsCamera := (ViewState_LookTowardsCamera sample_ViewState)
         \<lparr>LookTowardsCamera_bReinitializationRequired := False\<rparr>\<rparr>\<rparr>"

definition out_of_range_World :: World where
  "out_of_range_World =
    sample_World\<lparr>GetCurveValue := (\<lambda>Name.
      if Name = LayerHeadCurve \<or> Name = FootLeftIkCurve \<or> Name = AimManualCurve then 5
      else if Name = LayerSpineCurve \<or> Name = FootRightIkCurve \<or> Name = AimBlockCurve then - 3
      else 1 / 4)\<rparr>"

definition ik_World :: World where
  "ik_World =
    sample_World\<lparr>GetCurveValue := (\<lambda>Name.
      if Name = FootLeftIkCurve \<or> Name = FootRightIkCurve then 1 else 0)\<rparr>"

definition floor_World :: World where
  "floor_World =
    ik_World\<lparr>LineTraceSingleByChannel := (\<lambda>Start End Channel. sample_Hit_floor \<lparr>X = X Start, Y = Y Start, Z = 4\<rparr>),
             SweepSingleByObjectType := (\<lambda>Start End ObjectTypes Radius HalfHeight. sample_Hit_floor End)\<rparr>"

definition lock_World :: "real \<Rightarrow> World" where
  "lock_World v =
    sample_World\<lparr>GetCurveValue := (\<lambda>Name.
      if Name = FootLeftIkCurve \<or> Name = FootRightIkCurve then 1
      else if Name = FootLeftLockCurve \<or> Name = FootRightLockCurve then v else 0)\<rparr>"

definition block_prediction_World :: World where
  "block_prediction_World =
    floor_World\<lparr>GetCurveValue := (\<lambda>Name. if Name = GroundPredictionBlockCurve then 1 else 0)\<rparr>"






definition half_locked_Foot :: FAlsFootState where
  "half_locked_Foot = sample_Foot\<lparr>Foot_IkAmount := 1, Foot_LockAmount := 3 / 10\<rparr>"

definition locked_Foot :: "real \<Rightarrow> FVector \<Rightarrow> FAlsFootState" where
  "locked_Foot Amount Location =
    sample_Foot\<lparr>Foot_IkAmount := 1, Foot_LockAmount := Amount, Foot_LockLocation := Location\<rparr>"

definition running_Instance :: UAlsAnimationInstance where
  "running_Instance =
    sample_Instance
      \<lparr>bPendingUpdate := False,
       LocomotionState := sample_LocomotionState
         \<lparr>LocomotionState_bMoving := True, LocomotionState_bMovingSmooth := True,
          LocomotionState_Speed := 300, LocomotionState_Velocity := \<lparr>X = 300, Y = 0, Z = 0\<rparr>\<rparr>,
       FeetState := (FeetState sample_Instance)\<lparr>FeetState_bReinitializationRequired := False\<rparr>\<rparr>"



definition falling_Instance :: "real \<Rightarrow> UAlsAnimationInstance" where
  "falling_Instance v =
    sample_Instance
      \<lparr>LocomotionMode := LocomotionMode_InAir,
       LocomotionState := sample_LocomotionState\<lparr>LocomotionState_Velocity := \<lparr>X = 0, Y = 0, Z = v\<rparr>\<rparr>,
       InAirState := (InAirState sample_Instance)
         \<lparr>InAirState_VerticalVelocity := v, InAirState_GroundPredictionAmount := 3 / 4\<rparr>\<rparr>"

definition moving_Instance :: "FVector \<Rightarrow> UAlsAnimationInstance" where
  "moving_Instance v =
    sample_Instance
      \<lparr>LocomotionState := sample_LocomotionState
         \<lparr>LocomotionState_bMoving := True, LocomotionState_Speed := 300, LocomotionState_Velocity := v\<rparr>\<rparr>"

definition turning_Instance :: "real \<Rightarrow> real \<Rightarrow> real \<Rightarrow> UAlsAnimationInstance" where
  "turning_Instance YawAngle YawSpeed Delay =
    sample_Instance
      \<lparr>bPendingUpdate := False,
       ViewState := sample_ViewState\<lparr>ViewState_YawAngle := YawAngle, ViewState_YawSpeed := YawSpeed\<rparr>,
       TransitionsState := (TransitionsState sample_Instance)\<lparr>TransitionsState_bTransitionsAllowed := True\<rparr>,
       TurnInPlaceState := (TurnInPlaceState sample_Instance)\<lparr>TurnInPlaceState_ActivationDelay := Delay\<rparr>\<rparr>"

definition sliding_Instance :: "real \<Rightarrow> real \<Rightarrow> int \<Rightarrow> UAlsAnimationInstance" where
  "sliding_Instance LeftDistance RightDistance Delay =
    sample_Instance
      \<lparr>TransitionsState :=
         \<lparr>TransitionsState_bTransitionsAllowed = True, TransitionsState_DynamicTransitionsFrameDelay = Delay,
          TransitionsState_QueuedDynamicTransitionAnimation = None\<rparr>,
       FeetState := (FeetState sample_Instance)
         \<lparr>FeetState_Left := sample_Foot
            \<lparr>Foot_IkAmount := 1, Foot_LockAmount := 1, Foot_LockLocation := \<lparr>X = LeftDistance, Y = 0, Z = 0\<rparr>\<rparr>,
          FeetState_Right := sample_Foot
            \<lparr>Foot_IkAmount := 1, Foot_LockAmount := 1, Foot_LockLocation := \<lparr>X = RightDistance, Y = 0, Z = 0\<rparr>\<rparr>\<rparr>\<rparr>"


definition unconfigured_Instance :: UAlsAnimationInstance where
  "unconfigured_Instance = sample_Instance\<lparr>Settings := None\<rparr>"

definition orphan_Instance :: UAlsAnimationInstance where
  "orphan_Instance = sample_Instance\<lparr>Character := None\<rparr>"


section \<open>Evaluation of the sample engine\<close>

lemma sample_NormalizeAxis_90: "sample_NormalizeAxis 90 = 90"
  by (simp add: sample_NormalizeAxis_def sample_ClampAxis_def Fmod_def Let_def)

lemma sample_NormalizeAxis_0: "sample_NormalizeAxis 0 = 0"
  by (simp add: sample_NormalizeAxis_def sample_ClampAxis_def Fmod_def Let_def)


section \<open>Look towards camera: the three yaw amounts\<close>

text \<open>
  Claim C10. After every execution of \<^verbatim>\<open>RefreshLookTowardsCamera\<close> the left and the right
  yaw amounts add up to exactly 1, and the forward yaw amount lies between 0 and 1 whenever
  the stored yaw angle is a normalised angle between -180 and 180. The engine, the settings,
  the previous state and the frame time are arbitrary.
\<close>

theorem RefreshLookTowardsCamera_yaw_amounts:
  "let L = ViewState_LookTowardsCamera (ViewState (RefreshLookTowardsCamera eng st s DeltaTime))
   in LookTowardsCamera_YawLeftAmount L + LookTowardsCamera_YawRightAmount L = 1 \<and>
      (- 180 \<le> LookTowardsCamera_YawAngle L \<and> LookTowardsCamera_YawAngle L \<le> 180 \<longrightarrow>
         0 \<le> LookTowardsCamera_YawForwardAmount L \<and> LookTowardsCamera_YawForwardAmount L \<le> 1)"
  by (simp add: RefreshLookTowardsCamera_def Let_def)

theorem RefreshLookTowardsCamera_yaw_amounts_witness:
  "LookTowardsCamera_YawAngle (ViewState_LookTowardsCamera (ViewState
      (RefreshLookTowardsCamera sample_Engine sample_Settings sample_Instance (1 / 60)))) = 90 \<and>
   LookTowardsCamera_YawForwardAmount (ViewState_LookTowardsCamera (ViewState
      (RefreshLookTowardsCamera sample_Engine sample_Settings sample_Instance (1 / 60)))) = 3 / 4 \<and>
   LookTowardsCamera_YawLeftAmount (ViewState_LookTowardsCamera (ViewState
      (RefreshLookTowardsCamera sample_Engine sample_Settings sample_Instance (1 / 60)))) +
   LookTowardsCamera_YawRightAmount (ViewState_LookTowardsCamera (ViewState
      (RefreshLookTowardsCamera sample_Engine sample_Settings sample_Instance (1 / 60)))) = 1"
proof -
  have angle: "LookTowardsCamera_YawAngle (ViewState_LookTowardsCamera (ViewState
      (RefreshLookTowardsCamera sample_Engine sample_Settings sample_Instance (1 / 60)))) = 90"
    by (simp add: RefreshLookTowardsCamera_def Let_def sample_Instance_def sample_Engine_def
        sample_ViewState_def sample_LocomotionState_def ZeroRotator_def sample_NormalizeAxis_90)
  have forward: "LookTowardsCamera_YawForwardAmount (ViewState_LookTowardsCamera (ViewState
      (RefreshLookTowardsCamera sample_Engine sample_Settings sample_Instance (1 / 60)))) = 3 / 4"
    by (simp add: RefreshLookTowardsCamera_def Let_def sample_Instance_def sample_Engine_def
        sample_ViewState_def sample_LocomotionState_def ZeroRotator_def sample_NormalizeAxis_90)
  from RefreshLookTowardsCamera_yaw_amounts
    [of sample_Engine sample_Settings sample_Instance "1 / 60"] angle forward
  show ?thesis by (simp add: Let_def)
qed


section \<open>View: which look state is refreshed\<close>

lemma RefreshView_eq:
  "RefreshView eng w st s DeltaTime =
    (let s4 = RefreshView_head eng w s
     in if \<not> IsRelevant (ViewState_LookAmount (ViewState s4)) then
          s4\<lparr>ViewState := (ViewState s4)
            \<lparr>ViewState_LookTowardsInput := (ViewState_LookTowardsInput (ViewState s4))
               \<lparr>LookTowardsInput_bReinitializationRequired := True\<rparr>,
             ViewState_LookTowardsCamera := (ViewState_LookTowardsCamera (ViewState s4))
               \<lparr>LookTowardsCamera_bReinitializationRequired := True\<rparr>\<rparr>\<rparr>
        else if RotationMode s4 = VelocityDirection then
          RefreshLookTowardsInput eng st
            (s4\<lparr>ViewState := (ViewState s4)
               \<lparr>ViewState_LookTowardsCamera := (ViewState_LookTowardsCamera (ViewState s4))
                  \<lparr>LookTowardsCamera_bReinitializationRequired := True\<rparr>\<rparr>\<rparr>) DeltaTime
        else
          RefreshLookTowardsCamera eng st
            (s4\<lparr>ViewState := (ViewState s4)
               \<lparr>ViewState_LookTowardsInput := (ViewState_LookTowardsInput (ViewState s4))
                  \<lparr>LookTowardsInput_bReinitializationRequired := True\<rparr>\<rparr>\<rparr>) DeltaTime)"
  unfolding RefreshView_def RefreshView_head_def Let_def ..

lemma RefreshView_head_frame:
  "ViewState_LookTowardsInput (ViewState (RefreshView_head eng w s)) = ViewState_LookTowardsInput (ViewState s)"
  "ViewState_LookTowardsCamera (ViewState (RefreshView_head eng w s)) = ViewState_LookTowardsCamera (ViewState s)"
  "LocomotionState (RefreshView_head eng w s) = LocomotionState s"
  "bPendingUpdate (RefreshView_head eng w s) = bPendingUpdate s"
  "RotationMode (RefreshView_head eng w s) = RotationMode s"
  "ViewState_Rotation (ViewState (RefreshView_head eng w s)) = ViewState_Rotation (ViewState s)"
  "ViewState_LookAmount (ViewState (RefreshView_head eng w s)) = AimingAllowedAmount w * (1 - AimingManualAmount w)"
  by (simp_all add: RefreshView_head_def Let_def IsSpineRotationAllowed_def)

lemma RefreshLookTowardsInput_frame:
  "ViewState_LookTowardsCamera (ViewState (RefreshLookTowardsInput eng st s dt)) =
     ViewState_LookTowardsCamera (ViewState s)"
  "ViewState_LookAmount (ViewState (RefreshLookTowardsInput eng st s dt)) = ViewState_LookAmount (ViewState s)"
  "\<not> LookTowardsInput_bReinitializationRequired
       (ViewState_LookTowardsInput (ViewState (RefreshLookTowardsInput eng st s dt)))"
  by (simp_all add: RefreshLookTowardsInput_def Let_def)

lemma RefreshLookTowardsCamera_frame:
  "ViewState_LookTowardsInput (ViewState (RefreshLookTowardsCamera eng st s dt)) =
     ViewState_LookTowardsInput (ViewState s)"
  "ViewState_LookAmount (ViewState (RefreshLookTowardsCamera eng st s dt)) = ViewState_LookAmount (ViewState s)"
  "\<not> LookTowardsCamera_bReinitializationRequired
       (ViewState_LookTowardsCamera (ViewState (RefreshLookTowardsCamera eng st s dt)))"
  by (simp_all add: RefreshLookTowardsCamera_def Let_def)

text \<open>The look states computed by the two refreshes depend on the fields they read only.\<close>

lemma RefreshLookTowardsInput_reads:
  "LocomotionState s = LocomotionState t \<Longrightarrow> bPendingUpdate s = bPendingUpdate t \<Longrightarrow>
   ViewState_LookTowardsInput (ViewState s) = ViewState_LookTowardsInput (ViewState t) \<Longrightarrow>
   ViewState_LookTowardsInput (ViewState (RefreshLookTowardsInput eng st s dt)) =
   ViewState_LookTowardsInput (ViewState (RefreshLookTowardsInput eng st t dt))"
  by (simp add: RefreshLookTowardsInput_def Let_def)

lemma RefreshLookTowardsCamera_reads:
  "LocomotionState s = LocomotionState t \<Longrightarrow> bPendingUpdate s = bPendingUpdate t \<Longrightarrow>
   ViewState_Rotation (ViewState s) = ViewState_Rotation (ViewState t) \<Longrightarrow>
   ViewState_LookTowardsCamera (ViewState s) = ViewState_LookTowardsCamera (ViewState t) \<Longrightarrow>
   ViewState_LookTowardsCamera (ViewState (RefreshLookTowardsCamera eng st s dt)) =
   ViewState_LookTowardsCamera (ViewState (RefreshLookTowardsCamera eng st t dt))"
  by (simp add: RefreshLookTowardsCamera_def Let_def)

lemma RefreshView_irrelevant:
  assumes "\<not> IsRelevant (AimingAllowedAmount w * (1 - AimingManualAmount w))"
  shows "ViewState_LookTowardsInput (ViewState (RefreshView eng w st s dt)) =
           (ViewState_LookTowardsInput (ViewState s))\<lparr>LookTowardsInput_bReinitializationRequired := True\<rparr>"
    and "ViewState_LookTowardsCamera (ViewState (RefreshView eng w st s dt)) =
           (ViewState_LookTowardsCamera (ViewState s))\<lparr>LookTowardsCamera_bReinitializationRequired := True\<rparr>"
    and "ViewState_LookAmount (ViewState (RefreshView eng w st s dt)) =
           AimingAllowedAmount w * (1 - AimingManualAmount w)"
  using assms by (simp_all add: RefreshView_eq Let_def RefreshView_head_frame)

lemma RefreshView_input:
  assumes "IsRelevant (AimingAllowedAmount w * (1 - AimingManualAmount w))"
    and "RotationMode s = VelocityDirection"
  shows "ViewState_LookTowardsInput (ViewState (RefreshView eng w st s dt)) =
           ViewState_LookTowardsInput (ViewState (RefreshLookTowardsInput eng st s dt))"
    and "ViewState_LookTowardsCamera (ViewState (RefreshView eng w st s dt)) =
           (ViewState_LookTowardsCamera (ViewState s))\<lparr>LookTowardsCamera_bReinitializationRequired := True\<rparr>"
    and "ViewState_LookAmount (ViewState (RefreshView eng w st s dt)) =
           AimingAllowedAmount w * (1 - AimingManualAmount w)"
proof -
  show "ViewState_LookTowardsInput (ViewState (RefreshView eng w st s dt)) =
           ViewState_LookTowardsInput (ViewState (RefreshLookTowardsInput eng st s dt))"
    using assms
    by (simp add: RefreshView_eq Let_def RefreshView_head_frame)
       (rule RefreshLookTowardsInput_reads; simp add: RefreshView_head_frame)
  show "ViewState_LookTowardsCamera (ViewState (RefreshView eng w st s dt)) =
           (ViewState_LookTowardsCamera (ViewState s))\<lparr>LookTowardsCamera_bReinitializationRequired := True\<rparr>"
    using assms by (simp add: RefreshView_eq Let_def RefreshView_head_frame RefreshLookTowardsInput_frame)
  show "ViewState_LookAmount (ViewState (RefreshView eng w st s dt)) =
           AimingAllowedAmount w * (1 - AimingManualAmount w)"
    using assms by (simp add: RefreshView_eq Let_def RefreshView_head_frame RefreshLookTowardsInput_frame)
qed

lemma RefreshView_camera:
  assumes "IsRelevant (AimingAllowedAmount w * (1 - AimingManualAmount w))"
    and "RotationMode s \<noteq> VelocityDirection"
  shows "ViewState_LookTowardsCamera (ViewState (RefreshView eng w st s dt)) =
           ViewState_LookTowardsCamera (ViewState (RefreshLookTowardsCamera eng st s dt))"
    and "ViewState_LookTowardsInput (ViewState (RefreshView eng w st s dt)) =
           (ViewState_LookTowardsInput (ViewState s))\<lparr>LookTowardsInput_bReinitializationRequired := True\<rparr>"
    and "ViewState_LookAmount (ViewState (RefreshView eng w st s dt)) =
           AimingAllowedAmount w * (1 - AimingManualAmount w)"
proof -
  show "ViewState_LookTowardsCamera (ViewState (RefreshView eng w st s dt)) =
           ViewState_LookTowardsCamera (ViewState (RefreshLookTowardsCamera eng st s dt))"
    using assms
    by (simp add: RefreshView_eq Let_def RefreshView_head_frame)
       (rule RefreshLookTowardsCamera_reads; simp add: RefreshView_head_frame)
  show "ViewState_LookTowardsInput (ViewState (RefreshView eng w st s dt)) =
           (ViewState_LookTowardsInput (ViewState s))\<lparr>LookTowardsInput_bReinitializationRequired := True\<rparr>"
    using assms by (simp add: RefreshView_eq Let_def RefreshView_head_frame RefreshLookTowardsCamera_frame)
  show "ViewState_LookAmount (ViewState (RefreshView eng w st s dt)) =
           AimingAllowedAmount w * (1 - AimingManualAmount w)"
    using assms by (simp add: RefreshView_eq Let_def RefreshView_head_frame RefreshLookTowardsCamera_frame)
qed

lemma RefreshView_LookAmount:
  "ViewState_LookAmount (ViewState (RefreshView eng w st s dt)) =
     AimingAllowedAmount w * (1 - AimingManualAmount w)"
  by (cases "IsRelevant (AimingAllowedAmount w * (1 - AimingManualAmount w))";
      cases "RotationMode s = VelocityDirection")
     (simp_all add: RefreshView_irrelevant RefreshView_input RefreshView_camera)

text \<open>
  Claim C9, as the code has it. When the look amount computed by the view refresh is
  relevant, exactly one look state is refreshed and the other is only marked for
  reinitialisation: in velocity-direction rotation mode the look-towards-input state is the
  result of \<^verbatim>\<open>RefreshLookTowardsInput\<close> (its flag cleared) and the look-towards-camera state
  keeps its values with its flag set; in every other rotation mode the roles are exchanged.
  When the look amount is not relevant, neither state is refreshed and both are marked.
\<close>

theorem RefreshView_look_states:
  "let s' = RefreshView eng w st s DeltaTime;
       Input = ViewState_LookTowardsInput (ViewState s);
       Camera = ViewState_LookTowardsCamera (ViewState s);
       Input' = ViewState_LookTowardsInput (ViewState s');
       Camera' = ViewState_LookTowardsCamera (ViewState s')
   in (IsRelevant (ViewState_LookAmount (ViewState s')) \<and> RotationMode s = VelocityDirection \<longrightarrow>
         Input' = ViewState_LookTowardsInput (ViewState (RefreshLookTowardsInput eng st s DeltaTime)) \<and>
         \<not> LookTowardsInput_bReinitializationRequired Input' \<and>
         Camera' = Camera\<lparr>LookTowardsCamera_bReinitializationRequired := True\<rparr>) \<and>
      (IsRelevant (ViewState_LookAmount (ViewState s')) \<and> RotationMode s \<noteq> VelocityDirection \<longrightarrow>
         Camera' = ViewState_LookTowardsCamera (ViewState (RefreshLookTowardsCamera eng st s DeltaTime)) \<and>
         \<not> LookTowardsCamera_bReinitializationRequired Camera' \<and>
         Input' = Input\<lparr>LookTowardsInput_bReinitializationRequired := True\<rparr>) \<and>
      (\<not> IsRelevant (ViewState_LookAmount (ViewState s')) \<longrightarrow>
         Input' = Input\<lparr>LookTowardsInput_bReinitializationRequired := True\<rparr> \<and>
         Camera' = Camera\<lparr>LookTowardsCamera_bReinitializationRequired := True\<rparr>)"
proof (cases "IsRelevant (AimingAllowedAmount w * (1 - AimingManualAmount w))")
  case False
  then show ?thesis by (simp add: Let_def RefreshView_irrelevant)
next
  case relevant: True
  show ?thesis
  proof (cases "RotationMode s = VelocityDirection")
    case True
    with relevant show ?thesis by (simp add: Let_def RefreshView_input RefreshLookTowardsInput_frame)
  next
    case False
    with relevant show ?thesis by (simp add: Let_def RefreshView_camera RefreshLookTowardsCamera_frame)
  qed
qed

lemma sample_look_amount:
  "ViewState_LookAmount (ViewState (RefreshView sample_Engine sample_World sample_Settings sample_Instance (1 / 60))) = 1"
  by (simp add: RefreshView_LookAmount AimingAllowedAmount_def AimingManualAmount_def
      GetCurveValueClamped01_def Clamp01_def sample_World_def)

theorem RefreshView_look_states_witness:
  "IsRelevant (ViewState_LookAmount (ViewState
      (RefreshView sample_Engine sample_World sample_Settings sample_Instance (1 / 60)))) \<and>
   RotationMode sample_Instance \<noteq> VelocityDirection \<and>
   \<not> LookTowardsCamera_bReinitializationRequired (ViewState_LookTowardsCamera (ViewState
      (RefreshView sample_Engine sample_World sample_Settings sample_Instance (1 / 60)))) \<and>
   ViewState_LookTowardsInput (ViewState
      (RefreshView sample_Engine sample_World sample_Settings sample_Instance (1 / 60))) =
   (ViewState_LookTowardsInput (ViewState sample_Instance))\<lparr>LookTowardsInput_bReinitializationRequired := True\<rparr>"
proof -
  have relevant: "IsRelevant (ViewState_LookAmount (ViewState
      (RefreshView sample_Engine sample_World sample_Settings sample_Instance (1 / 60))))"
    by (simp add: sample_look_amount IsRelevant_def ZERO_ANIMWEIGHT_THRESH_def)
  have mode: "RotationMode sample_Instance \<noteq> VelocityDirection"
    by (simp add: sample_Instance_def)
  from RefreshView_look_states [of sample_Engine sample_World sample_Settings sample_Instance "1 / 60"]
    relevant mode
  show ?thesis by (simp add: Let_def RefreshLookTowardsCamera_frame)
qed

text \<open>
  The claim as stated, exactly one look state refreshed on every frame, fails when the aim
  block curve is at 1: the look amount is 0, both states are marked for reinitialisation,
  and the look-towards-camera state, active before, keeps its stale rotation although the
  view rotation differs from it.
\<close>

theorem RefreshView_look_states_counterexample:
  "LookTowardsInput_bReinitializationRequired (ViewState_LookTowardsInput (ViewState
      (RefreshView sample_Engine aim_blocked_World sample_Settings camera_active_Instance (1 / 60)))) \<and>
   LookTowardsCamera_bReinitializationRequired (ViewState_LookTowardsCamera (ViewState
      (RefreshView sample_Engine aim_blocked_World sample_Settings camera_active_Instance (1 / 60)))) \<and>
   \<not> LookTowardsCamera_bReinitializationRequired (ViewState_LookTowardsCamera (ViewState camera_active_Instance)) \<and>
   LookTowardsCamera_Rotation (ViewState_LookTowardsCamera (ViewState
      (RefreshView sample_Engine aim_blocked_World sample_Settings camera_active_Instance (1 / 60)))) =
   LookTowardsCamera_Rotation (ViewState_LookTowardsCamera (ViewState camera_active_Instance)) \<and>
   LookTowardsCamera_Rotation (ViewState_LookTowardsCamera (ViewState camera_active_Instance)) \<noteq>
   ViewState_Rotation (ViewState camera_active_Instance)"
proof -
  have blocked: "\<not> IsRelevant (AimingAllowedAmount aim_blocked_World * (1 - AimingManualAmount aim_blocked_World))"
    by (simp add: AimingAllowedAmount_def AimingManualAmount_def GetCurveValueClamped01_def Clamp01_def
        aim_blocked_World_def IsRelevant_def ZERO_ANIMWEIGHT_THRESH_def)
  show ?thesis
    by (simp add: RefreshView_irrelevant [OF blocked] camera_active_Instance_def sample_ViewState_def
        ZeroRotator_def)
qed


section \<open>The entry points without settings or character\<close>

text \<open>
  Claim C8. When the settings reference or the character reference is null, each of the
  three per-frame entry points returns the instance as it was: every field of every state
  block keeps its value and no montage is played.
\<close>

theorem null_reference_skips_refresh:
  "Settings s = None \<or> Character s = None \<Longrightarrow>
   NativeUpdateAnimation w s DeltaTime = s \<and>
   NativeThreadSafeUpdateAnimation eng w s DeltaTime = s \<and>
   NativePostEvaluateAnimation s = s"
  by (auto simp add: NativeUpdateAnimation_def NativeThreadSafeUpdateAnimation_def
      NativePostEvaluateAnimation_def split: option.splits)

theorem null_reference_skips_refresh_witness:
  "Settings unconfigured_Instance = None \<and> Character orphan_Instance = None \<and>
   NativeUpdateAnimation sample_World unconfigured_Instance (1 / 60) = unconfigured_Instance \<and>
   NativeThreadSafeUpdateAnimation sample_Engine sample_World unconfigured_Instance (1 / 60) = unconfigured_Instance \<and>
   NativePostEvaluateAnimation unconfigured_Instance = unconfigured_Instance \<and>
   NativeUpdateAnimation sample_World orphan_Instance (1 / 60) = orphan_Instance \<and>
   NativeThreadSafeUpdateAnimation sample_Engine sample_World orphan_Instance (1 / 60) = orphan_Instance \<and>
   NativePostEvaluateAnimation orphan_Instance = orphan_Instance"
proof -
  have no_settings: "Settings unconfigured_Instance = None"
    by (simp add: unconfigured_Instance_def)
  have no_character: "Character orphan_Instance = None"
    by (simp add: orphan_Instance_def)
  from null_reference_skips_refresh [of unconfigured_Instance sample_World "1 / 60" sample_Engine]
       null_reference_skips_refresh [of orphan_Instance sample_World "1 / 60" sample_Engine]
       no_settings no_character
  show ?thesis by simp
qed

text \<open>With both references set the post-evaluate entry point does change the instance.\<close>

lemma NativePostEvaluateAnimation_sample:
  "bPendingUpdate sample_Instance \<and> \<not> bPendingUpdate (NativePostEvaluateAnimation sample_Instance) \<and>
   PlayedMontages (NativePostEvaluateAnimation sample_Instance) =
     [PlaySlotAnimationAsDynamicMontage None TransitionSlot (1 / 5) (1 / 5) (3 / 2) 1 0 0]"
  by (simp add: NativePostEvaluateAnimation_def sample_Instance_def Let_def
      PlayQueuedDynamicTransitionAnimation_def PlayQueuedTurnInPlaceAnimation_def sample_Settings_def)


section \<open>Ground prediction\<close>

text \<open>
  Claim C3. Whenever the stored vertical velocity is greater than -200, or the allowance left
  by the ground prediction block curve is at most \<open>KINDA_SMALL_NUMBER\<close>, the ground prediction
  amount after \<^verbatim>\<open>RefreshGroundPredictionAmount\<close> is exactly 0, whatever the engine, the sweep
  of the world, the settings and the rest of the state are.
\<close>

theorem RefreshGroundPredictionAmount_zero:
  "InAirState_VerticalVelocity (InAirState s) > - 200 \<or>
   1 - GetCurveValueClamped01 w GroundPredictionBlockCurve \<le> KINDA_SMALL_NUMBER \<Longrightarrow>
   InAirState_GroundPredictionAmount (InAirState (RefreshGroundPredictionAmount eng w st s)) = 0"
  by (auto simp add: RefreshGroundPredictionAmount_def Let_def)

theorem RefreshGroundPredictionAmount_zero_witness:
  "InAirState_VerticalVelocity (InAirState (falling_Instance (- 100))) > - 200 \<and>
   InAirState_GroundPredictionAmount (InAirState (falling_Instance (- 100))) = 3 / 4 \<and>
   InAirState_GroundPredictionAmount (InAirState
     (RefreshGroundPredictionAmount sample_Engine floor_World sample_Settings (falling_Instance (- 100)))) = 0 \<and>
   1 - GetCurveValueClamped01 block_prediction_World GroundPredictionBlockCurve \<le> KINDA_SMALL_NUMBER \<and>
   InAirState_GroundPredictionAmount (InAirState
     (RefreshGroundPredictionAmount sample_Engine block_prediction_World sample_Settings (falling_Instance (- 1000)))) = 0"
proof -
  have slow: "InAirState_VerticalVelocity (InAirState (falling_Instance (- 100))) > - 200"
    and before: "InAirState_GroundPredictionAmount (InAirState (falling_Instance (- 100))) = 3 / 4"
    by (simp_all add: falling_Instance_def sample_Instance_def)
  have blocked: "1 - GetCurveValueClamped01 block_prediction_World GroundPredictionBlockCurve \<le> KINDA_SMALL_NUMBER"
    by (simp add: GetCurveValueClamped01_def Clamp01_def block_prediction_World_def KINDA_SMALL_NUMBER_def)
  from RefreshGroundPredictionAmount_zero
         [of "falling_Instance (- 100)" floor_World sample_Engine sample_Settings]
       RefreshGroundPredictionAmount_zero
         [of "falling_Instance (- 1000)" block_prediction_World sample_Engine sample_Settings]
       slow before blocked
  show ?thesis by simp
qed

text \<open>
  Below the velocity threshold and with full allowance the amount is not forced to 0: at a
  vertical velocity of -1000, with a walkable hit at half the sweep, it is the value of the
  amount curve at 1 / 2.
\<close>

lemma RefreshGroundPredictionAmount_sample:
  "InAirState_GroundPredictionAmount (InAirState
     (RefreshGroundPredictionAmount sample_Engine floor_World sample_Settings (falling_Instance (- 1000)))) = 1 / 2"
  by (simp add: RefreshGroundPredictionAmount_def Let_def falling_Instance_def sample_Instance_def
      floor_World_def ik_World_def sample_World_def GetCurveValueClamped01_def Clamp01_def
      KINDA_SMALL_NUMBER_def sample_Hit_floor_def IsValidBlockingHit_def sample_LocomotionState_def
      sample_Settings_def)


section \<open>Clamped blend amounts\<close>

lemma Clamp01_in01: "in01 (Clamp01 v)"
  by (simp add: in01_def Clamp01_def)

lemma GetCurveValueClamped01_in01: "in01 (GetCurveValueClamped01 w Name)"
  by (simp add: GetCurveValueClamped01_def Clamp01_in01)

lemma bool_to_float_in01: "in01 (bool_to_float b)"
  by (simp add: in01_def bool_to_float_def)

lemma in01_mult: "in01 a \<Longrightarrow> in01 b \<Longrightarrow> in01 (a * b)"
  by (simp add: in01_def mult_le_one)

lemma in01_complement: "in01 a \<Longrightarrow> in01 (1 - a)"
  by (simp add: in01_def)

lemma RefreshLayering_in01:
  assumes "bAnimationCurvesRelevant s"
  shows "in01 (LayeringState_HeadBlendAmount (LayeringState (RefreshLayering w s)))"
    and "in01 (LayeringState_HeadAdditiveBlendAmount (LayeringState (RefreshLayering w s)))"
    and "in01 (LayeringState_HeadSlotBlendAmount (LayeringState (RefreshLayering w s)))"
    and "in01 (LayeringState_ArmLeftBlendAmount (LayeringState (RefreshLayering w s)))"
    and "in01 (LayeringState_ArmLeftAdditiveBlendAmount (LayeringState (RefreshLayering w s)))"
    and "in01 (LayeringState_ArmLeftSlotBlendAmount (LayeringState (RefreshLayering w s)))"
    and "in01 (LayeringState_ArmLeftLocalSpaceBlendAmount (LayeringState (RefreshLayering w s)))"
    and "in01 (LayeringState_ArmLeftMeshSpaceBlendAmount (LayeringState (RefreshLayering w s)))"
    and "in01 (LayeringState_ArmRightBlendAmount (LayeringState (RefreshLayering w s)))"
    and "in01 (LayeringState_ArmRightAdditiveBlendAmount (LayeringState (RefreshLayering w s)))"
    and "in01 (LayeringState_ArmRightSlotBlendAmount (LayeringState (RefreshLayering w s)))"
    and "in01 (LayeringState_ArmRightLocalSpaceBlendAmount (LayeringState (RefreshLayering w s)))"
    and "in01 (LayeringState_ArmRightMeshSpaceBlendAmount (LayeringState (RefreshLayering w s)))"
    and "in01 (LayeringState_HandLeftBlendAmount (LayeringState (RefreshLayering w s)))"
    and "in01 (LayeringState_HandRightBlendAmount (LayeringState (RefreshLayering w s)))"
    and "in01 (LayeringState_SpineBlendAmount (LayeringState (RefreshLayering w s)))"
    and "in01 (LayeringState_SpineAdditiveBlendAmount (LayeringState (RefreshLayering w s)))"
    and "in01 (LayeringState_SpineSlotBlendAmount (LayeringState (RefreshLayering w s)))"
    and "in01 (LayeringState_PelvisBlendAmount (LayeringState (RefreshLayering w s)))"
    and "in01 (LayeringState_PelvisSlotBlendAmount (LayeringState (RefreshLayering w s)))"
    and "in01 (LayeringState_LegsBlendAmount (LayeringState (RefreshLayering w s)))"
    and "in01 (LayeringState_LegsSlotBlendAmount (LayeringState (RefreshLayering w s)))"
  using assms
  by (simp_all add: RefreshLayering_def Let_def GetCurveValueClamped01_in01 bool_to_float_in01)

lemma RefreshPose_in01:
  assumes "bAnimationCurvesRelevant s"
  shows "in01 (PoseState_GaitWalkingAmount (PoseState (RefreshPose w s)))"
    and "in01 (PoseState_GaitRunningAmount (PoseState (RefreshPose w s)))"
    and "in01 (PoseState_GaitSprintingAmount (PoseState (RefreshPose w s)))"
    and "in01 (PoseState_MovingAmount (PoseState (RefreshPose w s)))"
    and "in01 (PoseState_StandingAmount (PoseState (RefreshPose w s)))"
    and "in01 (PoseState_CrouchingAmount (PoseState (RefreshPose w s)))"
    and "in01 (PoseState_GroundedAmount (PoseState (RefreshPose w s)))"
    and "in01 (PoseState_InAirAmount (PoseState (RefreshPose w s)))"
  using assms
  by (simp_all add: RefreshPose_def Let_def GetCurveValueClamped01_in01 Clamp01_in01)

lemma Aiming_in01: "in01 (AimingAllowedAmount w)" "in01 (AimingManualAmount w)"
  by (simp_all add: AimingAllowedAmount_def AimingManualAmount_def in01_complement
      GetCurveValueClamped01_in01)

lemma RefreshView_LookAmount_in01:
  "in01 (ViewState_LookAmount (ViewState (RefreshView eng w st s dt)))"
  by (simp add: RefreshView_LookAmount in01_mult in01_complement Aiming_in01)

text \<open>The steps of \<^verbatim>\<open>RefreshFoot\<close> after the first leave the IK amount and, apart from the
  foot lock refresh, the lock amount as they are.\<close>

lemma Foot_IkAmount_frame:
  "Foot_IkAmount (ProcessFootLockTeleport eng w s F) = Foot_IkAmount F"
  "Foot_IkAmount (ProcessFootLockBaseChange eng s F CTI) = Foot_IkAmount F"
  "Foot_IkAmount (fst (RefreshFootLock eng w st s F Name CTI dt Final)) = Foot_IkAmount F"
  "Foot_IkAmount (fst (RefreshFootOffset eng w st s F dt Final)) = Foot_IkAmount F"
  by (simp_all add: ProcessFootLockTeleport_def ProcessFootLockBaseChange_def RefreshFootLock_def
      RefreshFootOffset_def Let_def)

lemma Foot_LockAmount_frame:
  "Foot_LockAmount (ProcessFootLockTeleport eng w s F) = Foot_LockAmount F"
  "Foot_LockAmount (ProcessFootLockBaseChange eng s F CTI) = Foot_LockAmount F"
  "Foot_LockAmount (fst (RefreshFootOffset eng w st s F dt Final)) = Foot_LockAmount F"
  by (simp_all add: ProcessFootLockTeleport_def ProcessFootLockBaseChange_def
      RefreshFootOffset_def Let_def)

lemma RefreshFoot_IkAmount:
  "Foot_IkAmount (RefreshFoot eng w st s F IkName LockName CTI dt) = GetCurveValueClamped01 w IkName"
  by (simp add: RefreshFoot_def Let_def Foot_IkAmount_frame)

lemma RefreshFeet_amounts:
  assumes "bAnimationCurvesRelevant s"
  shows "FeetState_FeetCrossingAmount (FeetState (RefreshFeet eng w st s dt)) =
           GetCurveValueClamped01 w FeetCrossingCurve"
    and "Foot_IkAmount (FeetState_Left (FeetState (RefreshFeet eng w st s dt))) =
           GetCurveValueClamped01 w FootLeftIkCurve"
    and "Foot_IkAmount (FeetState_Right (FeetState (RefreshFeet eng w st s dt))) =
           GetCurveValueClamped01 w FootRightIkCurve"
  using assms by (simp_all add: RefreshFeet_def Let_def RefreshFoot_IkAmount)

text \<open>
  Claim C1. Whatever the curve source returns, negative values and values above 1 included,
  every clamped blend amount written by the layering, pose, view and feet refresh lies
  between 0 and 1 afterwards: the amounts set from \<^verbatim>\<open>GetCurveValueClamped01\<close> (and the two
  mesh-space amounts and three gait amounts derived beside them), the aiming-allowed and
  manual-aim amounts and the look amount computed from them, the feet crossing amount and
  the IK amount of each foot. Layering, pose and feet write their amounts only when the
  animation curves are relevant.
\<close>

theorem clamped_amounts_in_unit_interval:
  "let L = LayeringState (RefreshLayering w s);
       P = PoseState (RefreshPose w s);
       V = ViewState (RefreshView eng w st s DeltaTime);
       F = FeetState (RefreshFeet eng w st s DeltaTime)
   in (bAnimationCurvesRelevant s \<longrightarrow>
         in01 (LayeringState_HeadBlendAmount L) \<and>
         in01 (LayeringState_HeadAdditiveBlendAmount L) \<and>
         in01 (LayeringState_HeadSlotBlendAmount L) \<and>
         in01 (LayeringState_ArmLeftBlendAmount L) \<and>
         in01 (LayeringState_ArmLeftAdditiveBlendAmount L) \<and>
         in01 (LayeringState_ArmLeftSlotBlendAmount L) \<and>
         in01 (LayeringState_ArmLeftLocalSpaceBlendAmount L) \<and>
         in01 (LayeringState_ArmLeftMeshSpaceBlendAmount L) \<and>
         in01 (LayeringState_ArmRightBlendAmount L) \<and>
         in01 (LayeringState_ArmRightAdditiveBlendAmount L) \<and>
         in01 (LayeringState_ArmRightSlotBlendAmount L) \<and>
         in01 (LayeringState_ArmRightLocalSpaceBlendAmount L) \<and>
         in01 (LayeringState_ArmRightMeshSpaceBlendAmount L) \<and>
         in01 (LayeringState_HandLeftBlendAmount L) \<and>
         in01 (LayeringState_HandRightBlendAmount L) \<and>
         in01 (LayeringState_SpineBlendAmount L) \<and>
         in01 (LayeringState_SpineAdditiveBlendAmount L) \<and>
         in01 (LayeringState_SpineSlotBlendAmount L) \<and>
         in01 (LayeringState_PelvisBlendAmount L) \<and>
         in01 (LayeringState_PelvisSlotBlendAmount L) \<and>
         in01 (LayeringState_LegsBlendAmount L) \<and>
         in01 (LayeringState_LegsSlotBlendAmount L) \<and>
         in01 (PoseState_GaitWalkingAmount P) \<and>
         in01 (PoseState_GaitRunningAmount P) \<and>
         in01 (PoseState_GaitSprintingAmount P) \<and>
         in01 (PoseState_MovingAmount P) \<and>
         in01 (PoseState_StandingAmount P) \<and>
         in01 (PoseState_CrouchingAmount P) \<and>
         in01 (PoseState_GroundedAmount P) \<and>
         in01 (PoseState_InAirAmount P) \<and>
         in01 (FeetState_FeetCrossingAmount F) \<and>
         in01 (Foot_IkAmount (FeetState_Left F)) \<and>
         in01 (Foot_IkAmount (FeetState_Right F))) \<and>
      in01 (AimingAllowedAmount w) \<and>
      in01 (AimingManualAmount w) \<and>
      in01 (ViewState_LookAmount V)"
  by (simp add: Let_def RefreshLayering_in01 RefreshPose_in01 RefreshFeet_amounts
      GetCurveValueClamped01_in01 Aiming_in01 RefreshView_LookAmount_in01)

theorem clamped_amounts_in_unit_interval_witness:
  "bAnimationCurvesRelevant sample_Instance \<and>
   GetCurveValue out_of_range_World LayerHeadCurve = 5 \<and>
   GetCurveValue out_of_range_World LayerSpineCurve = - 3 \<and>
   LayeringState_HeadBlendAmount (LayeringState (RefreshLayering out_of_range_World sample_Instance)) = 1 \<and>
   LayeringState_SpineBlendAmount (LayeringState (RefreshLayering out_of_range_World sample_Instance)) = 0 \<and>
   in01 (LayeringState_LegsBlendAmount (LayeringState (RefreshLayering out_of_range_World sample_Instance))) \<and>
   in01 (PoseState_MovingAmount (PoseState (RefreshPose out_of_range_World sample_Instance))) \<and>
   in01 (Foot_IkAmount (FeetState_Left (FeetState
     (RefreshFeet sample_Engine out_of_range_World sample_Settings sample_Instance (1 / 60))))) \<and>
   in01 (Foot_IkAmount (FeetState_Right (FeetState
     (RefreshFeet sample_Engine out_of_range_World sample_Settings sample_Instance (1 / 60))))) \<and>
   in01 (AimingAllowedAmount out_of_range_World) \<and>
   in01 (ViewState_LookAmount (ViewState
     (RefreshView sample_Engine out_of_range_World sample_Settings sample_Instance (1 / 60))))"
proof -
  have relevant: "bAnimationCurvesRelevant sample_Instance"
    by (simp add: sample_Instance_def)
  have raw: "GetCurveValue out_of_range_World LayerHeadCurve = 5"
    "GetCurveValue out_of_range_World LayerSpineCurve = - 3"
    by (simp_all add: out_of_range_World_def)
  have head: "LayeringState_HeadBlendAmount (LayeringState (RefreshLayering out_of_range_World sample_Instance)) = 1"
    using relevant by (simp add: RefreshLayering_def Let_def GetCurveValueClamped01_def raw Clamp01_def)
  have spine: "LayeringState_SpineBlendAmount (LayeringState (RefreshLayering out_of_range_World sample_Instance)) = 0"
    using relevant by (simp add: RefreshLayering_def Let_def GetCurveValueClamped01_def raw Clamp01_def)
  from clamped_amounts_in_unit_interval
         [of out_of_range_World sample_Instance sample_Engine sample_Settings "1 / 60"]
       relevant raw head spine
  show ?thesis by (simp add: Let_def)
qed


section \<open>Foot lock amount\<close>

lemma RefreshFoot_LockAmount:
  "Foot_LockAmount (RefreshFoot eng w st s F IkName LockName CTI dt) =
   Foot_LockAmount (fst (RefreshFootLock eng w st s
      (ProcessFootLockBaseChange eng s
         (ProcessFootLockTeleport eng w s (F\<lparr>Foot_IkAmount := GetCurveValueClamped01 w IkName\<rparr>)) CTI)
      LockName CTI dt
      (Foot_TargetLocation (ProcessFootLockBaseChange eng s
         (ProcessFootLockTeleport eng w s (F\<lparr>Foot_IkAmount := GetCurveValueClamped01 w IkName\<rparr>)) CTI),
       Foot_TargetRotation (ProcessFootLockBaseChange eng s
         (ProcessFootLockTeleport eng w s (F\<lparr>Foot_IkAmount := GetCurveValueClamped01 w IkName\<rparr>)) CTI))))"
  by (simp add: RefreshFoot_def Let_def Foot_LockAmount_frame)

lemma RefreshFootLock_LockAmount:
  "Foot_LockAmount (fst (RefreshFootLock eng w st s F Name CTI dt Final)) \<le> Foot_LockAmount F \<or>
   Foot_LockAmount (fst (RefreshFootLock eng w st s F Name CTI dt Final)) = 1"
  by (auto simp add: RefreshFootLock_def Let_def)

lemma NewFootLockAmount_cases:
  "(\<not> LocomotionState_bMovingSmooth (LocomotionState s) \<and> LocomotionMode s = LocomotionMode_Grounded \<longrightarrow>
      NewFootLockAmount w s FootState FootLockCurveName DeltaTime =
        GetCurveValueClamped01 w FootLockCurveName) \<and>
   ((LocomotionState_bMovingSmooth (LocomotionState s) \<or> LocomotionMode s \<noteq> LocomotionMode_Grounded) \<and>
    FeetState_bReinitializationRequired (FeetState s) \<longrightarrow>
      NewFootLockAmount w s FootState FootLockCurveName DeltaTime = 0) \<and>
   ((LocomotionState_bMovingSmooth (LocomotionState s) \<or> LocomotionMode s \<noteq> LocomotionMode_Grounded) \<and>
    \<not> FeetState_bReinitializationRequired (FeetState s) \<longrightarrow>
      NewFootLockAmount w s FootState FootLockCurveName DeltaTime =
        max 0 (min (GetCurveValueClamped01 w FootLockCurveName)
                 (Foot_LockAmount FootState -
                  DeltaTime * (if LocomotionState_bMovingSmooth (LocomotionState s) then 5 else 3 / 5))))"
  by (simp add: NewFootLockAmount_def Let_def)

text \<open>
  Claim C2, as the code has it. In one update of \<^verbatim>\<open>RefreshFootLock\<close> with foot locking
  enabled and the lock relevant, the stored lock amount becomes exactly 1 when the new lock
  amount is full weight, and otherwise does not increase. The new lock amount is the value
  of the local variable \<^verbatim>\<open>NewFootLockAmount\<close> the source tests:

  \<^item> while the character is grounded and not moving smoothly, the clamped sample of the lock
    curve, so that there the stored amount becomes 1 exactly when the sample is full weight;

  \<^item> while the character is moving smoothly or is not grounded, 0 when the feet are being
    reinitialised, and otherwise the smaller of the sample and the previous lock amount
    lowered by the frame time multiplied by 5 (moving smoothly) or by 0.6 (not grounded),
    but not less than 0.

  In every update, also with locking disabled or not relevant, and through the whole of
  \<^verbatim>\<open>RefreshFoot\<close>, the lock amount ends at most at its previous value or at exactly 1, never
  strictly between its previous value and 1.
\<close>

theorem RefreshFootLock_never_blends_in:
  "let Sample = GetCurveValueClamped01 w FootLockCurveName;
       New = NewFootLockAmount w s FootState FootLockCurveName DeltaTime;
       Locked = Foot_LockAmount (fst (RefreshFootLock eng w st s FootState FootLockCurveName
                  ComponentTransformInverse DeltaTime Final));
       Refreshed = Foot_LockAmount (RefreshFoot eng w st s FootState FootIkCurveName FootLockCurveName
                  ComponentTransformInverse DeltaTime)
   in (\<not> Feet_bDisableFootLock (Feet st) \<and> IsRelevant (Foot_IkAmount FootState * New) \<longrightarrow>
         (IsFullWeight New \<longrightarrow> Locked = 1) \<and>
         (\<not> IsFullWeight New \<longrightarrow> Locked \<le> Foot_LockAmount FootState)) \<and>
      (\<not> LocomotionState_bMovingSmooth (LocomotionState s) \<and> LocomotionMode s = LocomotionMode_Grounded \<longrightarrow>
         New = Sample) \<and>
      ((LocomotionState_bMovingSmooth (LocomotionState s) \<or> LocomotionMode s \<noteq> LocomotionMode_Grounded) \<and>
       FeetState_bReinitializationRequired (FeetState s) \<longrightarrow> New = 0) \<and>
      ((LocomotionState_bMovingSmooth (LocomotionState s) \<or> LocomotionMode s \<noteq> LocomotionMode_Grounded) \<and>
       \<not> FeetState_bReinitializationRequired (FeetState s) \<longrightarrow>
         New = max 0 (min Sample
                 (Foot_LockAmount FootState -
                  DeltaTime * (if LocomotionState_bMovingSmooth (LocomotionState s) then 5 else 3 / 5)))) \<and>
      (Locked \<le> Foot_LockAmount FootState \<or> Locked = 1) \<and>
      \<not> (Foot_LockAmount FootState < Locked \<and> Locked < 1) \<and>
      (Refreshed \<le> Foot_LockAmount FootState \<or> Refreshed = 1)"
proof -
  have enabled:
    "\<not> Feet_bDisableFootLock (Feet st) \<and>
       IsRelevant (Foot_IkAmount FootState * NewFootLockAmount w s FootState FootLockCurveName DeltaTime) \<longrightarrow>
     (IsFullWeight (NewFootLockAmount w s FootState FootLockCurveName DeltaTime) \<longrightarrow>
        Foot_LockAmount (fst (RefreshFootLock eng w st s FootState FootLockCurveName
          ComponentTransformInverse DeltaTime Final)) = 1) \<and>
     (\<not> IsFullWeight (NewFootLockAmount w s FootState FootLockCurveName DeltaTime) \<longrightarrow>
        Foot_LockAmount (fst (RefreshFootLock eng w st s FootState FootLockCurveName
          ComponentTransformInverse DeltaTime Final)) \<le> Foot_LockAmount FootState)"
    by (auto simp add: RefreshFootLock_def Let_def)
  note new = NewFootLockAmount_cases [of s w FootState FootLockCurveName DeltaTime]
  note locked = RefreshFootLock_LockAmount
    [of eng w st s FootState FootLockCurveName ComponentTransformInverse DeltaTime Final]
  have refreshed:
    "Foot_LockAmount (RefreshFoot eng w st s FootState FootIkCurveName FootLockCurveName
        ComponentTransformInverse DeltaTime) \<le> Foot_LockAmount FootState \<or>
     Foot_LockAmount (RefreshFoot eng w st s FootState FootIkCurveName FootLockCurveName
        ComponentTransformInverse DeltaTime) = 1"
    using RefreshFootLock_LockAmount
      [of eng w st s
          "ProcessFootLockBaseChange eng s (ProcessFootLockTeleport eng w s
             (FootState\<lparr>Foot_IkAmount := GetCurveValueClamped01 w FootIkCurveName\<rparr>)) ComponentTransformInverse"
          FootLockCurveName ComponentTransformInverse DeltaTime]
    by (simp add: RefreshFoot_LockAmount Foot_LockAmount_frame)
  have never: "\<not> (Foot_LockAmount FootState <
        Foot_LockAmount (fst (RefreshFootLock eng w st s FootState FootLockCurveName
          ComponentTransformInverse DeltaTime Final)) \<and>
      Foot_LockAmount (fst (RefreshFootLock eng w st s FootState FootLockCurveName
          ComponentTransformInverse DeltaTime Final)) < 1)"
    using locked by linarith
  from enabled new locked never refreshed show ?thesis
    unfolding Let_def by blast
qed

lemma NewFootLockAmount_sample:
  "NewFootLockAmount (lock_World v) sample_Instance half_locked_Foot FootLeftLockCurve (1 / 60) = Clamp01 v"
  by (simp add: NewFootLockAmount_def Let_def sample_Instance_def sample_LocomotionState_def
      GetCurveValueClamped01_def lock_World_def)

lemma running_Instance_facts:
  "LocomotionState_bMovingSmooth (LocomotionState running_Instance)"
  "\<not> FeetState_bReinitializationRequired (FeetState running_Instance)"
  "LocomotionMode running_Instance = LocomotionMode_Grounded"
  "\<not> BasedMovement_bHasRelativeLocation (LocomotionState_BasedMovement (LocomotionState running_Instance))"
  by (simp_all add: running_Instance_def sample_Instance_def sample_LocomotionState_def)

lemma lock_World_sample: "GetCurveValueClamped01 (lock_World 1) FootLeftLockCurve = 1"
  by (simp add: GetCurveValueClamped01_def lock_World_def Clamp01_def)

lemma weight_samples:
  "IsRelevant 1" "IsFullWeight 1" "IsRelevant (3 / 5)" "\<not> IsFullWeight (3 / 5)"
  "IsRelevant (27 / 64)" "\<not> IsFullWeight (27 / 64)" "IsRelevant (1 / 2)"
  by (simp_all add: IsRelevant_def IsFullWeight_def ZERO_ANIMWEIGHT_THRESH_def FULL_ANIMWEIGHT_THRESH_def)

theorem RefreshFootLock_never_blends_in_witness:
  "\<not> Feet_bDisableFootLock (Feet sample_Settings) \<and>
   Foot_LockAmount half_locked_Foot = 3 / 10 \<and>
   NewFootLockAmount (lock_World 1) sample_Instance half_locked_Foot FootLeftLockCurve (1 / 60) = 1 \<and>
   Foot_LockAmount (fst (RefreshFootLock sample_Engine (lock_World 1) sample_Settings sample_Instance
     half_locked_Foot FootLeftLockCurve IdentityTransform (1 / 60) (ZeroVector, QuatIdentity))) = 1 \<and>
   NewFootLockAmount (lock_World (3 / 5)) sample_Instance half_locked_Foot FootLeftLockCurve (1 / 60) = 3 / 5 \<and>
   Foot_LockAmount (fst (RefreshFootLock sample_Engine (lock_World (3 / 5)) sample_Settings sample_Instance
     half_locked_Foot FootLeftLockCurve IdentityTransform (1 / 60) (ZeroVector, QuatIdentity))) \<le> 3 / 10 \<and>
   LocomotionState_bMovingSmooth (LocomotionState running_Instance) \<and>
   Foot_LockAmount (locked_Foot (1 / 2) ZeroVector) = 1 / 2 \<and>
   NewFootLockAmount (lock_World 1) running_Instance (locked_Foot (1 / 2) ZeroVector) FootLeftLockCurve (1 / 64) =
     27 / 64 \<and>
   Foot_LockAmount (fst (RefreshFootLock sample_Engine (lock_World 1) sample_Settings running_Instance
     (locked_Foot (1 / 2) ZeroVector) FootLeftLockCurve IdentityTransform (1 / 64) (ZeroVector, QuatIdentity)))
     \<le> 1 / 2"
proof -
  have enabled: "\<not> Feet_bDisableFootLock (Feet sample_Settings)"
    by (simp add: sample_Settings_def)
  have foot: "Foot_LockAmount half_locked_Foot = 3 / 10" "Foot_IkAmount half_locked_Foot = 1"
    "Foot_LockAmount (locked_Foot (1 / 2) ZeroVector) = 1 / 2" "Foot_IkAmount (locked_Foot (1 / 2) ZeroVector) = 1"
    by (simp_all add: half_locked_Foot_def locked_Foot_def)
  have full: "NewFootLockAmount (lock_World 1) sample_Instance half_locked_Foot FootLeftLockCurve (1 / 60) = 1"
    by (simp add: NewFootLockAmount_sample Clamp01_def)
  have partial: "NewFootLockAmount (lock_World (3 / 5)) sample_Instance half_locked_Foot FootLeftLockCurve (1 / 60) = 3 / 5"
    by (simp add: NewFootLockAmount_sample Clamp01_def)
  from RefreshFootLock_never_blends_in
         [where w="lock_World 1" and s=sample_Instance and FootState="half_locked_Foot" and FootLockCurveName=FootLeftLockCurve
             and DeltaTime="1 / 60" and eng=sample_Engine and st=sample_Settings
             and ComponentTransformInverse=IdentityTransform and Final="(ZeroVector, QuatIdentity)"
             and FootIkCurveName=FootLeftIkCurve]
       RefreshFootLock_never_blends_in
         [where w="lock_World (3 / 5)" and s=sample_Instance and FootState="half_locked_Foot" and FootLockCurveName=FootLeftLockCurve
             and DeltaTime="1 / 60" and eng=sample_Engine and st=sample_Settings
             and ComponentTransformInverse=IdentityTransform and Final="(ZeroVector, QuatIdentity)"
             and FootIkCurveName=FootLeftIkCurve]
       enabled foot full partial weight_samples
  have standing:
    "Foot_LockAmount (fst (RefreshFootLock sample_Engine (lock_World 1) sample_Settings sample_Instance
       half_locked_Foot FootLeftLockCurve IdentityTransform (1 / 60) (ZeroVector, QuatIdentity))) = 1 \<and>
     Foot_LockAmount (fst (RefreshFootLock sample_Engine (lock_World (3 / 5)) sample_Settings sample_Instance
       half_locked_Foot FootLeftLockCurve IdentityTransform (1 / 60) (ZeroVector, QuatIdentity))) \<le> 3 / 10"
    by (simp add: Let_def)
  from RefreshFootLock_never_blends_in
         [where w="lock_World 1" and s=running_Instance and FootState="locked_Foot (1 / 2) ZeroVector" and FootLockCurveName=FootLeftLockCurve
             and DeltaTime="1 / 64" and eng=sample_Engine and st=sample_Settings
             and ComponentTransformInverse=IdentityTransform and Final="(ZeroVector, QuatIdentity)"
             and FootIkCurveName=FootLeftIkCurve]
       enabled foot running_Instance_facts lock_World_sample
  have moving_amount:
    "NewFootLockAmount (lock_World 1) running_Instance (locked_Foot (1 / 2) ZeroVector) FootLeftLockCurve (1 / 64) =
       27 / 64"
    by (simp add: Let_def)
  from RefreshFootLock_never_blends_in
         [where w="lock_World 1" and s=running_Instance and FootState="locked_Foot (1 / 2) ZeroVector" and FootLockCurveName=FootLeftLockCurve
             and DeltaTime="1 / 64" and eng=sample_Engine and st=sample_Settings
             and ComponentTransformInverse=IdentityTransform and Final="(ZeroVector, QuatIdentity)"
             and FootIkCurveName=FootLeftIkCurve]
       enabled foot moving_amount weight_samples
  have moving:
    "Foot_LockAmount (fst (RefreshFootLock sample_Engine (lock_World 1) sample_Settings running_Instance
       (locked_Foot (1 / 2) ZeroVector) FootLeftLockCurve IdentityTransform (1 / 64) (ZeroVector, QuatIdentity)))
       \<le> 1 / 2"
    by (simp add: Let_def)
  from enabled foot full partial standing running_Instance_facts(1) moving_amount moving show ?thesis
    by blast
qed

text \<open>
  The claim as stated fails while the character moves. With foot locking enabled, a lock
  curve at 1 (a new curve sample of full weight), a previous lock amount of 1/2 and a frame
  time of 1/64, the new lock amount is 1/2 - 5/64 = 27/64: the lock is relevant, and the
  stored amount becomes 27/64, not 1.
\<close>

theorem RefreshFootLock_never_blends_in_counterexample:
  "\<not> Feet_bDisableFootLock (Feet sample_Settings) \<and>
   LocomotionState_bMovingSmooth (LocomotionState running_Instance) \<and>
   GetCurveValueClamped01 (lock_World 1) FootLeftLockCurve = 1 \<and>
   IsFullWeight (GetCurveValueClamped01 (lock_World 1) FootLeftLockCurve) \<and>
   Foot_IkAmount (locked_Foot (1 / 2) ZeroVector) = 1 \<and>
   Foot_LockAmount (locked_Foot (1 / 2) ZeroVector) = 1 / 2 \<and>
   IsRelevant (Foot_IkAmount (locked_Foot (1 / 2) ZeroVector) *
     GetCurveValueClamped01 (lock_World 1) FootLeftLockCurve) \<and>
   IsRelevant (Foot_IkAmount (locked_Foot (1 / 2) ZeroVector) *
     NewFootLockAmount (lock_World 1) running_Instance (locked_Foot (1 / 2) ZeroVector) FootLeftLockCurve (1 / 64)) \<and>
   Foot_LockAmount (fst (RefreshFootLock sample_Engine (lock_World 1) sample_Settings running_Instance
     (locked_Foot (1 / 2) ZeroVector) FootLeftLockCurve IdentityTransform (1 / 64) (ZeroVector, QuatIdentity))) =
     27 / 64 \<and>
   Foot_LockAmount (fst (RefreshFootLock sample_Engine (lock_World 1) sample_Settings running_Instance
     (locked_Foot (1 / 2) ZeroVector) FootLeftLockCurve IdentityTransform (1 / 64) (ZeroVector, QuatIdentity))) \<noteq> 1"
proof -
  have amount:
    "NewFootLockAmount (lock_World 1) running_Instance (locked_Foot (1 / 2) ZeroVector) FootLeftLockCurve (1 / 64) =
       27 / 64"
    by (simp add: NewFootLockAmount_def Let_def running_Instance_facts lock_World_sample locked_Foot_def)
  have foot: "Foot_IkAmount (locked_Foot (1 / 2) ZeroVector) = 1"
    "Foot_LockAmount (locked_Foot (1 / 2) ZeroVector) = 1 / 2"
    by (simp_all add: locked_Foot_def)
  have enabled: "\<not> Feet_bDisableFootLock (Feet sample_Settings)"
    by (simp add: sample_Settings_def)
  have stored:
    "Foot_LockAmount (fst (RefreshFootLock sample_Engine (lock_World 1) sample_Settings running_Instance
       (locked_Foot (1 / 2) ZeroVector) FootLeftLockCurve IdentityTransform (1 / 64) (ZeroVector, QuatIdentity))) =
       27 / 64"
    by (simp add: RefreshFootLock_def Let_def amount foot enabled weight_samples running_Instance_facts)
  show ?thesis
    by (simp add: enabled running_Instance_facts(1) lock_World_sample foot amount stored weight_samples)
qed


section \<open>Velocity blend after reinitialisation\<close>

lemma snap_pair: "\<bar>x\<bar> \<le> 1 \<Longrightarrow> Clamp01 x + \<bar>Clamp x (- 1) 0\<bar> = \<bar>x\<bar>"
  by (auto simp add: Clamp01_def Clamp_def)

lemma snap_pair_commuted: "\<bar>x\<bar> \<le> 1 \<Longrightarrow> \<bar>Clamp x (- 1) 0\<bar> + Clamp01 x = \<bar>x\<bar>"
  by (auto simp add: Clamp01_def Clamp_def)

lemma l1_fraction_bounded:
  fixes a b c :: real
  assumes "\<bar>a\<bar> + \<bar>b\<bar> + \<bar>c\<bar> \<noteq> 0"
  shows "\<bar>a / (\<bar>a\<bar> + \<bar>b\<bar> + \<bar>c\<bar>)\<bar> \<le> 1" and "\<bar>b / (\<bar>a\<bar> + \<bar>b\<bar> + \<bar>c\<bar>)\<bar> \<le> 1"
proof -
  have positive: "0 < \<bar>a\<bar> + \<bar>b\<bar> + \<bar>c\<bar>"
    using assms by linarith
  show "\<bar>a / (\<bar>a\<bar> + \<bar>b\<bar> + \<bar>c\<bar>)\<bar> \<le> 1"
    using positive by (simp add: abs_divide)
  show "\<bar>b / (\<bar>a\<bar> + \<bar>b\<bar> + \<bar>c\<bar>)\<bar> \<le> 1"
    using positive by (simp add: abs_divide)
qed

lemma l1_fraction_axis:
  fixes a :: real
  assumes "a \<noteq> 0"
  shows "\<bar>a / \<bar>a\<bar>\<bar> = 1"
  using assms by (simp add: abs_divide)

lemma RefreshVelocityBlend_snap:
  assumes "VelocityBlend_bReinitializationRequired (GroundedState_VelocityBlend (GroundedState s)) \<or>
           bPendingUpdate s"
  shows "VelocityBlend_ForwardAmount (GroundedState_VelocityBlend (GroundedState
           (RefreshVelocityBlend eng st s dt))) = Clamp01Value eng (ComponentX (RelativeDirection eng s))"
    and "VelocityBlend_BackwardAmount (GroundedState_VelocityBlend (GroundedState
           (RefreshVelocityBlend eng st s dt))) = AbsClampValue eng (ComponentX (RelativeDirection eng s)) (- 1) 0"
    and "VelocityBlend_LeftAmount (GroundedState_VelocityBlend (GroundedState
           (RefreshVelocityBlend eng st s dt))) = AbsClampValue eng (ComponentY (RelativeDirection eng s)) (- 1) 0"
    and "VelocityBlend_RightAmount (GroundedState_VelocityBlend (GroundedState
           (RefreshVelocityBlend eng st s dt))) = Clamp01Value eng (ComponentY (RelativeDirection eng s))"
  using assms by (simp_all add: RefreshVelocityBlend_def Let_def)

text \<open>
  The relative direction is the relative velocity divided by the sum of the absolute values
  of its components, whenever the engine's normalisation returns its argument scaled by a
  positive factor and the velocity is not zero.
\<close>

lemma RelativeDirection_l1_normalized:
  assumes "0 < k" and "\<bar>X R\<bar> + \<bar>Y R\<bar> + \<bar>Z R\<bar> \<noteq> 0"
    and "RelativeVelocityDirection eng s = FVector_scale R k"
  shows "RelativeDirection eng s = Some (FVector_div R (\<bar>X R\<bar> + \<bar>Y R\<bar> + \<bar>Z R\<bar>))"
proof -
  have sum: "\<bar>X R * k\<bar> + \<bar>Y R * k\<bar> + \<bar>Z R * k\<bar> = k * (\<bar>X R\<bar> + \<bar>Y R\<bar> + \<bar>Z R\<bar>)"
    using assms(1) by (simp add: abs_mult algebra_simps)
  show ?thesis
    using assms(1,2)
    by (simp add: RelativeDirection_def assms(3) FVector_div_def FVector_scale_def sum)
qed

text \<open>
  Claim C5, as the code has it. \<open>N\<close> is the unit vector of the velocity in the frame of the
  character, as the engine's \<^verbatim>\<open>GetSafeNormal\<close> returns it, and \<open>L1\<close> the sum of the absolute
  values of its components. After the reinitialisation branch of \<^verbatim>\<open>RefreshVelocityBlend\<close>
  (the flag of the velocity blend or the pending update set):

  \<^item> when \<open>N\<close> is not the zero vector, the forward and backward amounts add up to the absolute
    value of the X component of \<open>N\<close> divided by \<open>L1\<close>, and the left and right amounts add up to
    that of the Y component. For a direction along the forward axis the first pair adds up
    to 1 and the second to 0; for a direction along the sideways axis it is the other way
    round; for a direction along the vertical axis both pairs are 0;

  \<^item> when \<open>N\<close> is the zero vector, the source divides zero by zero: the direction is not a
    number, and the four amounts are what the two clamps return for such a value.
\<close>

theorem RefreshVelocityBlend_snap_amounts:
  "let N = GetSafeNormal eng
             (UnrotateVector eng (LocomotionState_RotationQuaternion (LocomotionState s))
                (LocomotionState_Velocity (LocomotionState s)));
       L1 = \<bar>X N\<bar> + \<bar>Y N\<bar> + \<bar>Z N\<bar>;
       Blend = GroundedState_VelocityBlend (GroundedState (RefreshVelocityBlend eng st s DeltaTime));
       ForwardBackward = FloatValue_add (VelocityBlend_ForwardAmount Blend) (VelocityBlend_BackwardAmount Blend);
       LeftRight = FloatValue_add (VelocityBlend_LeftAmount Blend) (VelocityBlend_RightAmount Blend)
   in ((VelocityBlend_bReinitializationRequired (GroundedState_VelocityBlend (GroundedState s)) \<or>
        bPendingUpdate s) \<and> L1 \<noteq> 0 \<longrightarrow>
         RelativeDirection eng s = Some (FVector_div N L1) \<and>
         ForwardBackward = Number \<bar>X N / L1\<bar> \<and>
         LeftRight = Number \<bar>Y N / L1\<bar> \<and>
         (Y N = 0 \<and> Z N = 0 \<longrightarrow> ForwardBackward = Number 1 \<and> LeftRight = Number 0) \<and>
         (X N = 0 \<and> Z N = 0 \<longrightarrow> ForwardBackward = Number 0 \<and> LeftRight = Number 1) \<and>
         (X N = 0 \<and> Y N = 0 \<longrightarrow> ForwardBackward = Number 0 \<and> LeftRight = Number 0)) \<and>
      ((VelocityBlend_bReinitializationRequired (GroundedState_VelocityBlend (GroundedState s)) \<or>
        bPendingUpdate s) \<and> L1 = 0 \<longrightarrow>
         RelativeDirection eng s = None \<and>
         VelocityBlend_ForwardAmount Blend = Clamp01NaN eng \<and>
         VelocityBlend_BackwardAmount Blend = AbsClampNaN eng (- 1) 0 \<and>
         VelocityBlend_LeftAmount Blend = AbsClampNaN eng (- 1) 0 \<and>
         VelocityBlend_RightAmount Blend = Clamp01NaN eng)"
proof -
  define N where "N = GetSafeNormal eng
             (UnrotateVector eng (LocomotionState_RotationQuaternion (LocomotionState s))
                (LocomotionState_Velocity (LocomotionState s)))"
  define L1 where "L1 = \<bar>X N\<bar> + \<bar>Y N\<bar> + \<bar>Z N\<bar>"
  define Blend where
    "Blend = GroundedState_VelocityBlend (GroundedState (RefreshVelocityBlend eng st s DeltaTime))"
  have unit: "RelativeVelocityDirection eng s = N"
    by (simp add: RelativeVelocityDirection_def N_def)
  have defined: "RelativeDirection eng s = Some (FVector_div N L1)" if "L1 \<noteq> 0"
    using that by (simp add: RelativeDirection_def unit L1_def)
  have not_defined: "RelativeDirection eng s = None" if "L1 = 0"
    using that by (simp add: RelativeDirection_def unit L1_def)
  have bounded: "\<bar>X N / L1\<bar> \<le> 1" "\<bar>Y N / L1\<bar> \<le> 1" if "L1 \<noteq> 0"
    using that l1_fraction_bounded [of "X N" "Y N" "Z N"] by (simp_all add: L1_def)
  have numbers:
    "FloatValue_add (VelocityBlend_ForwardAmount Blend) (VelocityBlend_BackwardAmount Blend) =
       Number \<bar>X N / L1\<bar>"
    "FloatValue_add (VelocityBlend_LeftAmount Blend) (VelocityBlend_RightAmount Blend) =
       Number \<bar>Y N / L1\<bar>"
    if snap: "VelocityBlend_bReinitializationRequired (GroundedState_VelocityBlend (GroundedState s)) \<or>
              bPendingUpdate s" and nonzero: "L1 \<noteq> 0"
    using RefreshVelocityBlend_snap [OF snap, of eng st DeltaTime] bounded [OF nonzero]
    by (simp_all add: Blend_def defined [OF nonzero] FVector_div_def snap_pair snap_pair_commuted)
  have forward: "\<bar>X N / L1\<bar> = 1" "\<bar>Y N / L1\<bar> = 0" if "L1 \<noteq> 0" "Y N = 0" "Z N = 0"
    using that by (simp_all add: L1_def abs_divide)
  have sideways: "\<bar>X N / L1\<bar> = 0" "\<bar>Y N / L1\<bar> = 1" if "L1 \<noteq> 0" "X N = 0" "Z N = 0"
    using that by (simp_all add: L1_def abs_divide)
  have vertical: "\<bar>X N / L1\<bar> = 0" "\<bar>Y N / L1\<bar> = 0" if "X N = 0" "Y N = 0"
    using that by simp_all
  have not_a_number:
    "VelocityBlend_ForwardAmount Blend = Clamp01NaN eng \<and>
     VelocityBlend_BackwardAmount Blend = AbsClampNaN eng (- 1) 0 \<and>
     VelocityBlend_LeftAmount Blend = AbsClampNaN eng (- 1) 0 \<and>
     VelocityBlend_RightAmount Blend = Clamp01NaN eng"
    if snap: "VelocityBlend_bReinitializationRequired (GroundedState_VelocityBlend (GroundedState s)) \<or>
              bPendingUpdate s" and zero: "L1 = 0"
    using RefreshVelocityBlend_snap [OF snap, of eng st DeltaTime]
    by (simp add: Blend_def not_defined [OF zero])
  have
    "((VelocityBlend_bReinitializationRequired (GroundedState_VelocityBlend (GroundedState s)) \<or>
        bPendingUpdate s) \<and> L1 \<noteq> 0 \<longrightarrow>
         RelativeDirection eng s = Some (FVector_div N L1) \<and>
         FloatValue_add (VelocityBlend_ForwardAmount Blend) (VelocityBlend_BackwardAmount Blend) =
           Number \<bar>X N / L1\<bar> \<and>
         FloatValue_add (VelocityBlend_LeftAmount Blend) (VelocityBlend_RightAmount Blend) =
           Number \<bar>Y N / L1\<bar> \<and>
         (Y N = 0 \<and> Z N = 0 \<longrightarrow>
            FloatValue_add (VelocityBlend_ForwardAmount Blend) (VelocityBlend_BackwardAmount Blend) = Number 1 \<and>
            FloatValue_add (VelocityBlend_LeftAmount Blend) (VelocityBlend_RightAmount Blend) = Number 0) \<and>
         (X N = 0 \<and> Z N = 0 \<longrightarrow>
            FloatValue_add (VelocityBlend_ForwardAmount Blend) (VelocityBlend_BackwardAmount Blend) = Number 0 \<and>
            FloatValue_add (VelocityBlend_LeftAmount Blend) (VelocityBlend_RightAmount Blend) = Number 1) \<and>
         (X N = 0 \<and> Y N = 0 \<longrightarrow>
            FloatValue_add (VelocityBlend_ForwardAmount Blend) (VelocityBlend_BackwardAmount Blend) = Number 0 \<and>
            FloatValue_add (VelocityBlend_LeftAmount Blend) (VelocityBlend_RightAmount Blend) = Number 0)) \<and>
      ((VelocityBlend_bReinitializationRequired (GroundedState_VelocityBlend (GroundedState s)) \<or>
        bPendingUpdate s) \<and> L1 = 0 \<longrightarrow>
         RelativeDirection eng s = None \<and>
         VelocityBlend_ForwardAmount Blend = Clamp01NaN eng \<and>
         VelocityBlend_BackwardAmount Blend = AbsClampNaN eng (- 1) 0 \<and>
         VelocityBlend_LeftAmount Blend = AbsClampNaN eng (- 1) 0 \<and>
         VelocityBlend_RightAmount Blend = Clamp01NaN eng)"
  proof (intro conjI impI; (elim conjE)?)
    assume snap: "VelocityBlend_bReinitializationRequired (GroundedState_VelocityBlend (GroundedState s)) \<or>
                  bPendingUpdate s" and nonzero: "L1 \<noteq> 0"
    show "RelativeDirection eng s = Some (FVector_div N L1)"
      by (rule defined [OF nonzero])
    show "FloatValue_add (VelocityBlend_ForwardAmount Blend) (VelocityBlend_BackwardAmount Blend) =
            Number \<bar>X N / L1\<bar>"
      by (rule numbers(1) [OF snap nonzero])
    show "FloatValue_add (VelocityBlend_LeftAmount Blend) (VelocityBlend_RightAmount Blend) =
            Number \<bar>Y N / L1\<bar>"
      by (rule numbers(2) [OF snap nonzero])
  next
    assume snap: "VelocityBlend_bReinitializationRequired (GroundedState_VelocityBlend (GroundedState s)) \<or>
                  bPendingUpdate s" and nonzero: "L1 \<noteq> 0"
    assume axis: "Y N = 0" "Z N = 0"
    from numbers(1) [OF snap nonzero]
    show "FloatValue_add (VelocityBlend_ForwardAmount Blend) (VelocityBlend_BackwardAmount Blend) = Number 1"
      by (simp only: forward(1) [OF nonzero axis])
    from numbers(2) [OF snap nonzero]
    show "FloatValue_add (VelocityBlend_LeftAmount Blend) (VelocityBlend_RightAmount Blend) = Number 0"
      by (simp only: forward(2) [OF nonzero axis])
  next
    assume snap: "VelocityBlend_bReinitializationRequired (GroundedState_VelocityBlend (GroundedState s)) \<or>
                  bPendingUpdate s" and nonzero: "L1 \<noteq> 0"
    assume axis: "X N = 0" "Z N = 0"
    from numbers(1) [OF snap nonzero]
    show "FloatValue_add (VelocityBlend_ForwardAmount Blend) (VelocityBlend_BackwardAmount Blend) = Number 0"
      by (simp only: sideways(1) [OF nonzero axis])
    from numbers(2) [OF snap nonzero]
    show "FloatValue_add (VelocityBlend_LeftAmount Blend) (VelocityBlend_RightAmount Blend) = Number 1"
      by (simp only: sideways(2) [OF nonzero axis])
  next
    assume snap: "VelocityBlend_bReinitializationRequired (GroundedState_VelocityBlend (GroundedState s)) \<or>
                  bPendingUpdate s" and nonzero: "L1 \<noteq> 0"
    assume axis: "X N = 0" "Y N = 0"
    from numbers(1) [OF snap nonzero]
    show "FloatValue_add (VelocityBlend_ForwardAmount Blend) (VelocityBlend_BackwardAmount Blend) = Number 0"
      by (simp only: vertical(1) [OF axis])
    from numbers(2) [OF snap nonzero]
    show "FloatValue_add (VelocityBlend_LeftAmount Blend) (VelocityBlend_RightAmount Blend) = Number 0"
      by (simp only: vertical(2) [OF axis])
  next
    assume snap: "VelocityBlend_bReinitializationRequired (GroundedState_VelocityBlend (GroundedState s)) \<or>
                  bPendingUpdate s" and zero: "L1 = 0"
    show "RelativeDirection eng s = None"
      by (rule not_defined [OF zero])
    from not_a_number [OF snap zero]
    show "VelocityBlend_ForwardAmount Blend = Clamp01NaN eng"
      and "VelocityBlend_BackwardAmount Blend = AbsClampNaN eng (- 1) 0"
      and "VelocityBlend_LeftAmount Blend = AbsClampNaN eng (- 1) 0"
      and "VelocityBlend_RightAmount Blend = Clamp01NaN eng"
      by simp_all
  qed
  from this [unfolded Blend_def L1_def N_def] show ?thesis
    unfolding Let_def .
qed

lemma sqrt_90000: "sqrt 90000 = 300"
  by (rule real_sqrt_unique) simp_all

lemma sample_sideways_direction:
  "GetSafeNormal sample_Engine
     (UnrotateVector sample_Engine
        (LocomotionState_RotationQuaternion (LocomotionState (moving_Instance \<lparr>X = 0, Y = - 300, Z = 0\<rparr>)))
        (LocomotionState_Velocity (LocomotionState (moving_Instance \<lparr>X = 0, Y = - 300, Z = 0\<rparr>)))) =
     \<lparr>X = 0, Y = - 1, Z = 0\<rparr>"
  by (simp add: sample_Engine_def moving_Instance_def
      sample_LocomotionState_def sample_UnrotateVector_def sample_RotateVector_def
      sample_QuatInverse_def QuatIdentity_def FVector_cross_def FVector_scale_def FVector_add_def
      sample_GetSafeNormal_def FVector_dot_def SMALL_NUMBER_def Let_def sqrt_90000)

lemma sample_vertical_direction:
  "GetSafeNormal sample_Engine
     (UnrotateVector sample_Engine
        (LocomotionState_RotationQuaternion (LocomotionState (moving_Instance \<lparr>X = 0, Y = 0, Z = - 300\<rparr>)))
        (LocomotionState_Velocity (LocomotionState (moving_Instance \<lparr>X = 0, Y = 0, Z = - 300\<rparr>)))) =
     \<lparr>X = 0, Y = 0, Z = - 1\<rparr>"
  by (simp add: sample_Engine_def moving_Instance_def
      sample_LocomotionState_def sample_UnrotateVector_def sample_RotateVector_def
      sample_QuatInverse_def QuatIdentity_def FVector_cross_def FVector_scale_def FVector_add_def
      sample_GetSafeNormal_def FVector_dot_def SMALL_NUMBER_def Let_def sqrt_90000)

lemma sample_zero_direction:
  "GetSafeNormal sample_Engine
     (UnrotateVector sample_Engine
        (LocomotionState_RotationQuaternion (LocomotionState (moving_Instance ZeroVector)))
        (LocomotionState_Velocity (LocomotionState (moving_Instance ZeroVector)))) = ZeroVector"
  by (simp add: sample_Engine_def moving_Instance_def
      sample_LocomotionState_def sample_UnrotateVector_def sample_RotateVector_def
      sample_QuatInverse_def QuatIdentity_def FVector_cross_def FVector_scale_def FVector_add_def
      sample_GetSafeNormal_def FVector_dot_def SMALL_NUMBER_def Let_def ZeroVector_def)

lemma ZeroVector_components: "X ZeroVector = 0" "Y ZeroVector = 0" "Z ZeroVector = 0"
  by (simp_all add: ZeroVector_def)

lemma moving_Instance_pending: "bPendingUpdate (moving_Instance v)"
  by (simp add: moving_Instance_def sample_Instance_def)

theorem RefreshVelocityBlend_snap_amounts_witness:
  "bPendingUpdate (moving_Instance \<lparr>X = 0, Y = - 300, Z = 0\<rparr>) \<and>
   RelativeDirection sample_Engine (moving_Instance \<lparr>X = 0, Y = - 300, Z = 0\<rparr>) =
     Some \<lparr>X = 0, Y = - 1, Z = 0\<rparr> \<and>
   FloatValue_add
     (VelocityBlend_ForwardAmount (GroundedState_VelocityBlend (GroundedState
        (RefreshVelocityBlend sample_Engine sample_Settings (moving_Instance \<lparr>X = 0, Y = - 300, Z = 0\<rparr>) (1 / 60)))))
     (VelocityBlend_BackwardAmount (GroundedState_VelocityBlend (GroundedState
        (RefreshVelocityBlend sample_Engine sample_Settings (moving_Instance \<lparr>X = 0, Y = - 300, Z = 0\<rparr>) (1 / 60)))))
     = Number 0 \<and>
   FloatValue_add
     (VelocityBlend_LeftAmount (GroundedState_VelocityBlend (GroundedState
        (RefreshVelocityBlend sample_Engine sample_Settings (moving_Instance \<lparr>X = 0, Y = - 300, Z = 0\<rparr>) (1 / 60)))))
     (VelocityBlend_RightAmount (GroundedState_VelocityBlend (GroundedState
        (RefreshVelocityBlend sample_Engine sample_Settings (moving_Instance \<lparr>X = 0, Y = - 300, Z = 0\<rparr>) (1 / 60)))))
     = Number 1 \<and>
   RelativeDirection sample_Engine (moving_Instance ZeroVector) = None \<and>
   VelocityBlend_ForwardAmount (GroundedState_VelocityBlend (GroundedState
     (RefreshVelocityBlend sample_Engine sample_Settings (moving_Instance ZeroVector) (1 / 60)))) =
     Clamp01NaN sample_Engine"
proof -
  from RefreshVelocityBlend_snap_amounts
         [of sample_Engine "moving_Instance \<lparr>X = 0, Y = - 300, Z = 0\<rparr>" sample_Settings "1 / 60"]
       moving_Instance_pending [of "\<lparr>X = 0, Y = - 300, Z = 0\<rparr>"]
  have sideways:
    "RelativeDirection sample_Engine (moving_Instance \<lparr>X = 0, Y = - 300, Z = 0\<rparr>) =
       Some \<lparr>X = 0, Y = - 1, Z = 0\<rparr> \<and>
     FloatValue_add
       (VelocityBlend_ForwardAmount (GroundedState_VelocityBlend (GroundedState
          (RefreshVelocityBlend sample_Engine sample_Settings (moving_Instance \<lparr>X = 0, Y = - 300, Z = 0\<rparr>) (1 / 60)))))
       (VelocityBlend_BackwardAmount (GroundedState_VelocityBlend (GroundedState
          (RefreshVelocityBlend sample_Engine sample_Settings (moving_Instance \<lparr>X = 0, Y = - 300, Z = 0\<rparr>) (1 / 60)))))
       = Number 0 \<and>
     FloatValue_add
       (VelocityBlend_LeftAmount (GroundedState_VelocityBlend (GroundedState
          (RefreshVelocityBlend sample_Engine sample_Settings (moving_Instance \<lparr>X = 0, Y = - 300, Z = 0\<rparr>) (1 / 60)))))
       (VelocityBlend_RightAmount (GroundedState_VelocityBlend (GroundedState
          (RefreshVelocityBlend sample_Engine sample_Settings (moving_Instance \<lparr>X = 0, Y = - 300, Z = 0\<rparr>) (1 / 60)))))
       = Number 1"
    by (simp add: Let_def sample_sideways_direction FVector_div_def)
  from RefreshVelocityBlend_snap_amounts
         [of sample_Engine "moving_Instance ZeroVector" sample_Settings "1 / 60"]
       moving_Instance_pending [of ZeroVector]
  have zero:
    "RelativeDirection sample_Engine (moving_Instance ZeroVector) = None \<and>
     VelocityBlend_ForwardAmount (GroundedState_VelocityBlend (GroundedState
       (RefreshVelocityBlend sample_Engine sample_Settings (moving_Instance ZeroVector) (1 / 60)))) =
       Clamp01NaN sample_Engine"
    by (simp add: Let_def sample_zero_direction ZeroVector_components)
  from sideways zero moving_Instance_pending [of "\<lparr>X = 0, Y = - 300, Z = 0\<rparr>"] show ?thesis
    by blast
qed

text \<open>
  The claim as stated fails on two kinds of velocity. A velocity along the vertical axis of
  the character is axis-aligned, and after the reinitialisation branch both pairs are zero,
  not exactly one of them. For a zero velocity there is no relative velocity divided by the
  sum of the absolute values of its components: the source divides zero by zero.
\<close>

theorem RefreshVelocityBlend_snap_amounts_counterexample:
  "bPendingUpdate (moving_Instance \<lparr>X = 0, Y = 0, Z = - 300\<rparr>) \<and>
   RelativeVelocityDirection sample_Engine (moving_Instance \<lparr>X = 0, Y = 0, Z = - 300\<rparr>) =
     \<lparr>X = 0, Y = 0, Z = - 1\<rparr> \<and>
   VelocityBlend_ForwardAmount (GroundedState_VelocityBlend (GroundedState
     (RefreshVelocityBlend sample_Engine sample_Settings (moving_Instance \<lparr>X = 0, Y = 0, Z = - 300\<rparr>) (1 / 60)))) =
     Number 0 \<and>
   VelocityBlend_BackwardAmount (GroundedState_VelocityBlend (GroundedState
     (RefreshVelocityBlend sample_Engine sample_Settings (moving_Instance \<lparr>X = 0, Y = 0, Z = - 300\<rparr>) (1 / 60)))) =
     Number 0 \<and>
   VelocityBlend_LeftAmount (GroundedState_VelocityBlend (GroundedState
     (RefreshVelocityBlend sample_Engine sample_Settings (moving_Instance \<lparr>X = 0, Y = 0, Z = - 300\<rparr>) (1 / 60)))) =
     Number 0 \<and>
   VelocityBlend_RightAmount (GroundedState_VelocityBlend (GroundedState
     (RefreshVelocityBlend sample_Engine sample_Settings (moving_Instance \<lparr>X = 0, Y = 0, Z = - 300\<rparr>) (1 / 60)))) =
     Number 0 \<and>
   bPendingUpdate (moving_Instance ZeroVector) \<and>
   RelativeVelocityDirection sample_Engine (moving_Instance ZeroVector) = ZeroVector \<and>
   RelativeDirection sample_Engine (moving_Instance ZeroVector) = None \<and>
   VelocityBlend_ForwardAmount (GroundedState_VelocityBlend (GroundedState
     (RefreshVelocityBlend sample_Engine sample_Settings (moving_Instance ZeroVector) (1 / 60)))) =
     NotANumber"
proof -
  have vertical: "RelativeVelocityDirection sample_Engine (moving_Instance \<lparr>X = 0, Y = 0, Z = - 300\<rparr>) =
      \<lparr>X = 0, Y = 0, Z = - 1\<rparr>"
    by (simp add: RelativeVelocityDirection_def sample_vertical_direction)
  have zero: "RelativeVelocityDirection sample_Engine (moving_Instance ZeroVector) = ZeroVector"
    by (simp add: RelativeVelocityDirection_def sample_zero_direction)
  have vertical_direction:
    "RelativeDirection sample_Engine (moving_Instance \<lparr>X = 0, Y = 0, Z = - 300\<rparr>) =
       Some \<lparr>X = 0, Y = 0, Z = - 1\<rparr>"
    by (simp add: RelativeDirection_def vertical FVector_div_def)
  have zero_direction: "RelativeDirection sample_Engine (moving_Instance ZeroVector) = None"
    by (simp add: RelativeDirection_def zero ZeroVector_components)
  have not_a_number: "Clamp01NaN sample_Engine = NotANumber"
    by (simp add: sample_Engine_def)
  show ?thesis
    using moving_Instance_pending [of "\<lparr>X = 0, Y = 0, Z = - 300\<rparr>"] moving_Instance_pending [of ZeroVector]
    by (simp add: RefreshVelocityBlend_def Let_def vertical zero vertical_direction zero_direction
        not_a_number Clamp01_def Clamp_def)
qed


section \<open>Turn in place: activation delay\<close>

lemma PlayQueuedTurnInPlaceAnimation_frame:
  "TurnInPlaceState_ActivationDelay (TurnInPlaceState (PlayQueuedTurnInPlaceAnimation st s)) =
     TurnInPlaceState_ActivationDelay (TurnInPlaceState s)"
  "ViewState (PlayQueuedTurnInPlaceAnimation st s) = ViewState s"
  by (simp_all add: PlayQueuedTurnInPlaceAnimation_def split: option.splits)

lemma RefreshTurnInPlace_reset:
  assumes "ViewState_YawSpeed (ViewState s) \<ge> TurnInPlace_ViewYawSpeedThreshold (TurnInPlace st) \<or>
           \<bar>ViewState_YawAngle (ViewState s)\<bar> \<le> TurnInPlace_ViewYawAngleThreshold (TurnInPlace st)"
  shows "TurnInPlaceState_ActivationDelay (TurnInPlaceState (RefreshTurnInPlace eng w st s dt)) = 0"
    and "TurnInPlaceQueue (RefreshTurnInPlace eng w st s dt) = TurnInPlaceQueue s"
  using assms by (simp_all add: RefreshTurnInPlace_def TurnInPlaceQueue_def)

lemma RefreshTurnInPlace_not_allowed:
  assumes "LocomotionState_bMoving (LocomotionState s) \<or> LocomotionMode s \<noteq> LocomotionMode_Grounded \<or>
           \<not> IsTurnInPlaceAllowed s \<or> \<not> TransitionsState_bTransitionsAllowed (TransitionsState s)"
  shows "TurnInPlaceState_ActivationDelay (TurnInPlaceState (RefreshTurnInPlace eng w st s dt)) = 0"
    and "TurnInPlaceQueue (RefreshTurnInPlace eng w st s dt) = TurnInPlaceQueue s"
  using assms by (auto simp add: RefreshTurnInPlace_def TurnInPlaceQueue_def)

lemma RefreshTurnInPlace_accumulates:
  assumes "\<not> LocomotionState_bMoving (LocomotionState s)"
    and "LocomotionMode s = LocomotionMode_Grounded"
    and "IsTurnInPlaceAllowed s"
    and "TransitionsState_bTransitionsAllowed (TransitionsState s)"
    and "ViewState_YawSpeed (ViewState s) < TurnInPlace_ViewYawSpeedThreshold (TurnInPlace st)"
    and "\<bar>ViewState_YawAngle (ViewState s)\<bar> > TurnInPlace_ViewYawAngleThreshold (TurnInPlace st)"
  shows "TurnInPlaceState_ActivationDelay (TurnInPlaceState (RefreshTurnInPlace eng w st s dt)) =
          (if bPendingUpdate s then 0 else TurnInPlaceState_ActivationDelay (TurnInPlaceState s) + dt)"
  using assms
  by (simp add: RefreshTurnInPlace_def Let_def PlayQueuedTurnInPlaceAnimation_frame split: option.splits)

lemma RefreshTurnInPlace_below_threshold:
  assumes "\<not> TurnInPlaceState_ActivationDelay (TurnInPlaceState (RefreshTurnInPlace eng w st s dt)) >
             TurnInPlaceActivationDelay eng st s"
  shows "TurnInPlaceQueue (RefreshTurnInPlace eng w st s dt) = TurnInPlaceQueue s"
proof (cases "LocomotionState_bMoving (LocomotionState s) \<or> LocomotionMode s \<noteq> LocomotionMode_Grounded \<or>
        \<not> IsTurnInPlaceAllowed s \<or> \<not> TransitionsState_bTransitionsAllowed (TransitionsState s)")
  case True
  then show ?thesis by (rule RefreshTurnInPlace_not_allowed)
next
  case allowed: False
  show ?thesis
  proof (cases "ViewState_YawSpeed (ViewState s) \<ge> TurnInPlace_ViewYawSpeedThreshold (TurnInPlace st) \<or>
           \<bar>ViewState_YawAngle (ViewState s)\<bar> \<le> TurnInPlace_ViewYawAngleThreshold (TurnInPlace st)")
    case True
    then show ?thesis by (rule RefreshTurnInPlace_reset)
  next
    case False
    with allowed have accumulated:
      "TurnInPlaceState_ActivationDelay (TurnInPlaceState (RefreshTurnInPlace eng w st s dt)) =
         (if bPendingUpdate s then 0 else TurnInPlaceState_ActivationDelay (TurnInPlaceState s) + dt)"
      by (intro RefreshTurnInPlace_accumulates) auto
    from assms accumulated have below:
      "(if bPendingUpdate s then 0 else TurnInPlaceState_ActivationDelay (TurnInPlaceState s) + dt)
         \<le> TurnInPlaceActivationDelay eng st s"
      by simp
    from allowed False below show ?thesis
      by (simp add: RefreshTurnInPlace_def Let_def TurnInPlaceQueue_def TurnInPlaceActivationDelay_def)
  qed
qed

text \<open>
  Claim C4. In every update of \<^verbatim>\<open>RefreshTurnInPlace\<close>, from any previous state and so along
  every sequence of updates: a turn is queued or played (the queued settings, slot or angle
  or the list of played montages change) only if the accumulated activation delay after the
  update strictly exceeds the delay mapped from the absolute view yaw angle; when the view
  yaw speed is at or above its threshold, or the absolute yaw angle is within its threshold,
  the accumulated delay is reset to 0 and nothing is queued; and while the character is
  grounded and not moving, turn in place and transitions are allowed, the yaw speed is below
  and the yaw angle beyond the thresholds, the delay accumulates the frame time (from 0 on a
  pending update).
\<close>

theorem RefreshTurnInPlace_activation:
  "let s' = RefreshTurnInPlace eng w st s DeltaTime;
       Delay' = TurnInPlaceState_ActivationDelay (TurnInPlaceState s')
   in (TurnInPlaceQueue s' \<noteq> TurnInPlaceQueue s \<longrightarrow> Delay' > TurnInPlaceActivationDelay eng st s) \<and>
      (ViewState_YawSpeed (ViewState s) \<ge> TurnInPlace_ViewYawSpeedThreshold (TurnInPlace st) \<or>
       \<bar>ViewState_YawAngle (ViewState s)\<bar> \<le> TurnInPlace_ViewYawAngleThreshold (TurnInPlace st) \<longrightarrow>
         Delay' = 0 \<and> TurnInPlaceQueue s' = TurnInPlaceQueue s) \<and>
      (\<not> LocomotionState_bMoving (LocomotionState s) \<and> LocomotionMode s = LocomotionMode_Grounded \<and>
       IsTurnInPlaceAllowed s \<and> TransitionsState_bTransitionsAllowed (TransitionsState s) \<and>
       ViewState_YawSpeed (ViewState s) < TurnInPlace_ViewYawSpeedThreshold (TurnInPlace st) \<and>
       \<bar>ViewState_YawAngle (ViewState s)\<bar> > TurnInPlace_ViewYawAngleThreshold (TurnInPlace st) \<longrightarrow>
         Delay' = (if bPendingUpdate s then 0
                   else TurnInPlaceState_ActivationDelay (TurnInPlaceState s) + DeltaTime))"
  unfolding Let_def
  using RefreshTurnInPlace_below_threshold [where eng=eng and w=w and st=st and s=s and dt=DeltaTime]
        RefreshTurnInPlace_reset [where eng=eng and w=w and st=st and s=s and dt=DeltaTime]
        RefreshTurnInPlace_accumulates [where eng=eng and w=w and st=st and s=s and dt=DeltaTime]
  by blast

lemma sample_turn_threshold:
  "TurnInPlaceActivationDelay sample_Engine sample_Settings (turning_Instance 90 YawSpeed Delay) = 1 / 2"
  by (simp add: TurnInPlaceActivationDelay_def sample_Engine_def sample_Settings_def
      turning_Instance_def sample_ViewState_def sample_GetMappedRangeValueClamped_def
      Let_def Clamp_def Lerp_def)

lemma sample_turn_queued:
  "RefreshTurnInPlace sample_Engine sample_World sample_Settings (turning_Instance 90 0 1) (1 / 60) =
     (turning_Instance 90 0 1)
       \<lparr>TurnInPlaceState := (TurnInPlaceState (turning_Instance 90 0 1))
          \<lparr>TurnInPlaceState_ActivationDelay := 61 / 60,
           TurnInPlaceState_QueuedSettings := Some (sample_TurnSettings 12 90),
           TurnInPlaceState_QueuedSlotName := TurnInPlaceStandingSlot,
           TurnInPlaceState_QueuedTurnYawAngle := 90\<rparr>\<rparr>"
proof -
  have threshold:
    "TurnInPlaceActivationDelay sample_Engine sample_Settings
       ((turning_Instance 90 0 1)
          \<lparr>TurnInPlaceState := (TurnInPlaceState (turning_Instance 90 0 1))
             \<lparr>TurnInPlaceState_ActivationDelay := 61 / 60\<rparr>\<rparr>) = 1 / 2"
    using sample_turn_threshold [of 0 1]
    by (simp add: TurnInPlaceActivationDelay_def)
  have selected:
    "SelectTurnInPlaceSettings sample_Engine sample_Settings
       ((turning_Instance 90 0 1)
          \<lparr>TurnInPlaceState := (TurnInPlaceState (turning_Instance 90 0 1))
             \<lparr>TurnInPlaceState_ActivationDelay := 61 / 60\<rparr>\<rparr>) = Some (sample_TurnSettings 12 90)"
    by (simp add: SelectTurnInPlaceSettings_def bTurnLeft_def turning_Instance_def sample_Instance_def
        sample_ViewState_def sample_Settings_def sample_Engine_def)
  have slot:
    "SelectTurnInPlaceSlotName
       ((turning_Instance 90 0 1)
          \<lparr>TurnInPlaceState := (TurnInPlaceState (turning_Instance 90 0 1))
             \<lparr>TurnInPlaceState_ActivationDelay := 61 / 60\<rparr>\<rparr>) = TurnInPlaceStandingSlot"
    by (simp add: SelectTurnInPlaceSlotName_def turning_Instance_def sample_Instance_def)
  have state:
    "\<not> LocomotionState_bMoving (LocomotionState (turning_Instance 90 0 1))"
    "LocomotionMode (turning_Instance 90 0 1) = LocomotionMode_Grounded"
    "IsTurnInPlaceAllowed (turning_Instance 90 0 1)"
    "TransitionsState_bTransitionsAllowed (TransitionsState (turning_Instance 90 0 1))"
    "\<not> bPendingUpdate (turning_Instance 90 0 1)"
    "TurnInPlaceState_ActivationDelay (TurnInPlaceState (turning_Instance 90 0 1)) = 1"
    "ViewState_YawSpeed (ViewState (turning_Instance 90 0 1)) = 0"
    "ViewState_YawAngle (ViewState (turning_Instance 90 0 1)) = 90"
    by (simp_all add: turning_Instance_def sample_Instance_def sample_LocomotionState_def
        IsTurnInPlaceAllowed_def sample_ViewState_def)
  have settings:
    "TurnInPlace_ViewYawSpeedThreshold (TurnInPlace sample_Settings) = 50"
    "TurnInPlace_ViewYawAngleThreshold (TurnInPlace sample_Settings) = 45"
    "\<not> IsInGameThread sample_World"
    "Turn_Animation (sample_TurnSettings 12 90) = Some 12"
    by (simp_all add: sample_Settings_def sample_World_def sample_TurnSettings_def)
  show ?thesis
    by (simp add: RefreshTurnInPlace_def Let_def state settings threshold selected slot)
qed

theorem RefreshTurnInPlace_activation_witness:
  "TurnInPlaceQueue (RefreshTurnInPlace sample_Engine sample_World sample_Settings (turning_Instance 90 0 1) (1 / 60))
     \<noteq> TurnInPlaceQueue (turning_Instance 90 0 1) \<and>
   TurnInPlaceState_ActivationDelay (TurnInPlaceState
     (RefreshTurnInPlace sample_Engine sample_World sample_Settings (turning_Instance 90 0 1) (1 / 60))) > 1 / 2 \<and>
   ViewState_YawSpeed (ViewState (turning_Instance 90 60 1)) \<ge>
     TurnInPlace_ViewYawSpeedThreshold (TurnInPlace sample_Settings) \<and>
   TurnInPlaceState_ActivationDelay (TurnInPlaceState (turning_Instance 90 60 1)) = 1 \<and>
   TurnInPlaceState_ActivationDelay (TurnInPlaceState
     (RefreshTurnInPlace sample_Engine sample_World sample_Settings (turning_Instance 90 60 1) (1 / 60))) = 0"
proof -
  have queued:
    "TurnInPlaceQueue (RefreshTurnInPlace sample_Engine sample_World sample_Settings (turning_Instance 90 0 1) (1 / 60))
       \<noteq> TurnInPlaceQueue (turning_Instance 90 0 1)"
    by (simp add: sample_turn_queued TurnInPlaceQueue_def)
       (simp add: turning_Instance_def sample_Instance_def)
  have fast:
    "ViewState_YawSpeed (ViewState (turning_Instance 90 60 1)) \<ge>
       TurnInPlace_ViewYawSpeedThreshold (TurnInPlace sample_Settings)"
    "TurnInPlaceState_ActivationDelay (TurnInPlaceState (turning_Instance 90 60 1)) = 1"
    by (simp_all add: turning_Instance_def sample_ViewState_def sample_Settings_def sample_Instance_def)
  from RefreshTurnInPlace_activation
         [of sample_Engine sample_World sample_Settings "turning_Instance 90 0 1" "1 / 60"]
       RefreshTurnInPlace_activation
         [of sample_Engine sample_World sample_Settings "turning_Instance 90 60 1" "1 / 60"]
       queued fast sample_turn_threshold [of 0 1]
  show ?thesis by (simp add: Let_def)
qed


section \<open>Dynamic transitions\<close>

lemma RefreshDynamicTransition_cooldown:
  "TransitionsState_DynamicTransitionsFrameDelay (TransitionsState s) > 0 \<Longrightarrow>
   RefreshDynamicTransition w st s =
     s\<lparr>TransitionsState := (TransitionsState s)\<lparr>TransitionsState_DynamicTransitionsFrameDelay :=
          TransitionsState_DynamicTransitionsFrameDelay (TransitionsState s) - 1\<rparr>\<rparr>"
  by (simp add: RefreshDynamicTransition_def)

lemma RefreshDynamicTransition_blocked:
  "\<not> TransitionsState_DynamicTransitionsFrameDelay (TransitionsState s) > 0 \<Longrightarrow>
   \<not> bAnimationCurvesRelevant s \<or> \<not> TransitionsState_bTransitionsAllowed (TransitionsState s) \<or>
   LocomotionState_bMoving (LocomotionState s) \<or> LocomotionMode s \<noteq> LocomotionMode_Grounded \<or>
   (\<not> bTransitionLeftAllowed st s \<and> \<not> bTransitionRightAllowed st s) \<Longrightarrow>
   RefreshDynamicTransition w st s = s"
  by (auto simp add: RefreshDynamicTransition_def)

lemma RefreshDynamicTransition_selects:
  assumes "\<not> TransitionsState_DynamicTransitionsFrameDelay (TransitionsState s) > 0"
    and "bAnimationCurvesRelevant s"
    and "TransitionsState_bTransitionsAllowed (TransitionsState s)"
    and "\<not> LocomotionState_bMoving (LocomotionState s)"
    and "LocomotionMode s = LocomotionMode_Grounded"
  shows "bTransitionLeftAllowed st s \<Longrightarrow>
         \<not> bTransitionRightAllowed st s \<or> FootLockLeftDistanceSquared s \<ge> FootLockRightDistanceSquared s \<Longrightarrow>
           RefreshDynamicTransition w st s =
             (case DynamicTransitionLeftAnimation st s of
                None \<Rightarrow> s | Some a \<Rightarrow> SelectDynamicTransition w st s a)"
    and "bTransitionRightAllowed st s \<Longrightarrow>
         \<not> bTransitionLeftAllowed st s \<or> FootLockLeftDistanceSquared s < FootLockRightDistanceSquared s \<Longrightarrow>
           RefreshDynamicTransition w st s =
             (case DynamicTransitionRightAnimation st s of
                None \<Rightarrow> s | Some a \<Rightarrow> SelectDynamicTransition w st s a)"
  using assms
  by (auto simp add: RefreshDynamicTransition_def Let_def SelectDynamicTransition_def split: option.splits)

lemma SelectDynamicTransition_effect:
  "TransitionsState_DynamicTransitionsFrameDelay (TransitionsState (SelectDynamicTransition w st s a)) = 2"
  "DynamicTransitionQueue (SelectDynamicTransition w st s a) =
     (if IsInGameThread w
      then (None, PlayedMontages s @
              [PlaySlotAnimationAsDynamicMontage (Some a) TransitionSlot
                 (Transitions_DynamicTransitionBlendTime (Transitions st))
                 (Transitions_DynamicTransitionBlendTime (Transitions st))
                 (Transitions_DynamicTransitionPlayRate (Transitions st)) 1 0 0])
      else (Some a, PlayedMontages s))"
  by (simp_all add: SelectDynamicTransition_def Let_def PlayQueuedDynamicTransitionAnimation_def
      DynamicTransitionQueue_def)

lemma RefreshDynamicTransition_queue_changed:
  assumes "DynamicTransitionQueue (RefreshDynamicTransition w st s) \<noteq> DynamicTransitionQueue s"
  shows "\<not> TransitionsState_DynamicTransitionsFrameDelay (TransitionsState s) > 0"
    and "bAnimationCurvesRelevant s"
    and "TransitionsState_bTransitionsAllowed (TransitionsState s)"
    and "\<not> LocomotionState_bMoving (LocomotionState s)"
    and "LocomotionMode s = LocomotionMode_Grounded"
    and "bTransitionLeftAllowed st s \<or> bTransitionRightAllowed st s"
    and "TransitionsState_DynamicTransitionsFrameDelay (TransitionsState (RefreshDynamicTransition w st s)) = 2"
proof -
  show ready: "\<not> TransitionsState_DynamicTransitionsFrameDelay (TransitionsState s) > 0"
    using assms by (auto simp add: RefreshDynamicTransition_cooldown DynamicTransitionQueue_def)
  have open_gate:
    "\<not> (\<not> bAnimationCurvesRelevant s \<or> \<not> TransitionsState_bTransitionsAllowed (TransitionsState s) \<or>
        LocomotionState_bMoving (LocomotionState s) \<or> LocomotionMode s \<noteq> LocomotionMode_Grounded \<or>
        (\<not> bTransitionLeftAllowed st s \<and> \<not> bTransitionRightAllowed st s))"
  proof
    assume blocked:
      "\<not> bAnimationCurvesRelevant s \<or> \<not> TransitionsState_bTransitionsAllowed (TransitionsState s) \<or>
       LocomotionState_bMoving (LocomotionState s) \<or> LocomotionMode s \<noteq> LocomotionMode_Grounded \<or>
       (\<not> bTransitionLeftAllowed st s \<and> \<not> bTransitionRightAllowed st s)"
    from RefreshDynamicTransition_blocked [OF ready blocked, of w] assms
    show False by simp
  qed
  then show relevant: "bAnimationCurvesRelevant s"
    and allowed: "TransitionsState_bTransitionsAllowed (TransitionsState s)"
    and still: "\<not> LocomotionState_bMoving (LocomotionState s)"
    and grounded: "LocomotionMode s = LocomotionMode_Grounded"
    and qualifies: "bTransitionLeftAllowed st s \<or> bTransitionRightAllowed st s"
    by auto
  note selects = RefreshDynamicTransition_selects [OF ready relevant allowed still grounded, of st w]
  consider (left) "bTransitionLeftAllowed st s"
      "\<not> bTransitionRightAllowed st s \<or> FootLockLeftDistanceSquared s \<ge> FootLockRightDistanceSquared s"
    | (right) "bTransitionRightAllowed st s"
      "\<not> bTransitionLeftAllowed st s \<or> FootLockLeftDistanceSquared s < FootLockRightDistanceSquared s"
    using qualifies by fastforce
  then show "TransitionsState_DynamicTransitionsFrameDelay (TransitionsState (RefreshDynamicTransition w st s)) = 2"
  proof cases
    case left
    with assms selects(1) show ?thesis
      by (cases "DynamicTransitionLeftAnimation st s") (simp_all add: SelectDynamicTransition_effect)
  next
    case right
    with assms selects(2) show ?thesis
      by (cases "DynamicTransitionRightAnimation st s") (simp_all add: SelectDynamicTransition_effect)
  qed
qed

text \<open>
  Claim C7. In every call of \<^verbatim>\<open>RefreshDynamicTransition\<close>: a transition is selected (the
  queued animation or the list of played montages changes) only if the frame delay counter
  has reached 0, the animation curves are relevant, transitions are allowed, the character
  is not moving and is grounded, and a foot qualifies; the selection sets the counter to 2,
  and while the counter is positive a call only decrements it, so that the two updates after
  a selection select nothing. A foot qualifies exactly when its lock amount is relevant and
  the squared distance between its target and its lock location exceeds the square of the
  threshold scaled by the scale of the character. With the gates open, the left animation
  of the stance is selected when the left foot qualifies and the right foot does not or its
  distance is not larger; the right animation when the right foot qualifies and the left
  foot does not or its distance is smaller; a null animation selects nothing.
\<close>

theorem RefreshDynamicTransition_selection:
  "let s' = RefreshDynamicTransition w st s;
       Delay = TransitionsState_DynamicTransitionsFrameDelay (TransitionsState s);
       Threshold = Square (Transitions_DynamicTransitionFootLockDistanceThreshold (Transitions st) *
                           LocomotionState_Scale (LocomotionState s));
       LeftDistance = DistSquared (Foot_TargetLocation (FeetState_Left (FeetState s)))
                                  (Foot_LockLocation (FeetState_Left (FeetState s)));
       RightDistance = DistSquared (Foot_TargetLocation (FeetState_Right (FeetState s)))
                                   (Foot_LockLocation (FeetState_Right (FeetState s)));
       LeftQualifies = (IsRelevant (Foot_LockAmount (FeetState_Left (FeetState s))) \<and> LeftDistance > Threshold);
       RightQualifies = (IsRelevant (Foot_LockAmount (FeetState_Right (FeetState s))) \<and> RightDistance > Threshold)
   in (DynamicTransitionQueue s' \<noteq> DynamicTransitionQueue s \<longrightarrow>
         \<not> Delay > 0 \<and> bAnimationCurvesRelevant s \<and>
         TransitionsState_bTransitionsAllowed (TransitionsState s) \<and>
         \<not> LocomotionState_bMoving (LocomotionState s) \<and> LocomotionMode s = LocomotionMode_Grounded \<and>
         (LeftQualifies \<or> RightQualifies) \<and>
         TransitionsState_DynamicTransitionsFrameDelay (TransitionsState s') = 2) \<and>
      (Delay > 0 \<longrightarrow>
         s' = s\<lparr>TransitionsState := (TransitionsState s)
                \<lparr>TransitionsState_DynamicTransitionsFrameDelay := Delay - 1\<rparr>\<rparr>) \<and>
      (Delay = 2 \<longrightarrow>
         DynamicTransitionQueue (RefreshDynamicTransition w2 st s') = DynamicTransitionQueue s \<and>
         TransitionsState_DynamicTransitionsFrameDelay
           (TransitionsState (RefreshDynamicTransition w2 st s')) = 0) \<and>
      (\<not> Delay > 0 \<and> bAnimationCurvesRelevant s \<and>
       TransitionsState_bTransitionsAllowed (TransitionsState s) \<and>
       \<not> LocomotionState_bMoving (LocomotionState s) \<and> LocomotionMode s = LocomotionMode_Grounded \<longrightarrow>
         (LeftQualifies \<and> (\<not> RightQualifies \<or> LeftDistance \<ge> RightDistance) \<longrightarrow>
            s' = (case DynamicTransitionLeftAnimation st s of
                    None \<Rightarrow> s | Some a \<Rightarrow> SelectDynamicTransition w st s a)) \<and>
         (RightQualifies \<and> (\<not> LeftQualifies \<or> LeftDistance < RightDistance) \<longrightarrow>
            s' = (case DynamicTransitionRightAnimation st s of
                    None \<Rightarrow> s | Some a \<Rightarrow> SelectDynamicTransition w st s a)) \<and>
         (\<not> LeftQualifies \<and> \<not> RightQualifies \<longrightarrow> s' = s)) \<and>
      TransitionsState_DynamicTransitionsFrameDelay (TransitionsState (SelectDynamicTransition w st s a)) = 2 \<and>
      DynamicTransitionQueue (SelectDynamicTransition w st s a) =
        (if IsInGameThread w
         then (None, PlayedMontages s @
                 [PlaySlotAnimationAsDynamicMontage (Some a) TransitionSlot
                    (Transitions_DynamicTransitionBlendTime (Transitions st))
                    (Transitions_DynamicTransitionBlendTime (Transitions st))
                    (Transitions_DynamicTransitionPlayRate (Transitions st)) 1 0 0])
         else (Some a, PlayedMontages s))"
proof -
  have left: "bTransitionLeftAllowed st s \<longleftrightarrow>
      IsRelevant (Foot_LockAmount (FeetState_Left (FeetState s))) \<and>
      DistSquared (Foot_TargetLocation (FeetState_Left (FeetState s)))
                  (Foot_LockLocation (FeetState_Left (FeetState s))) >
      Square (Transitions_DynamicTransitionFootLockDistanceThreshold (Transitions st) *
              LocomotionState_Scale (LocomotionState s))"
    by (simp add: bTransitionLeftAllowed_def FootLockLeftDistanceSquared_def FootLockDistanceThresholdSquared_def)
  have right: "bTransitionRightAllowed st s \<longleftrightarrow>
      IsRelevant (Foot_LockAmount (FeetState_Right (FeetState s))) \<and>
      DistSquared (Foot_TargetLocation (FeetState_Right (FeetState s)))
                  (Foot_LockLocation (FeetState_Right (FeetState s))) >
      Square (Transitions_DynamicTransitionFootLockDistanceThreshold (Transitions st) *
              LocomotionState_Scale (LocomotionState s))"
    by (simp add: bTransitionRightAllowed_def FootLockRightDistanceSquared_def FootLockDistanceThresholdSquared_def)
  have changed:
    "DynamicTransitionQueue (RefreshDynamicTransition w st s) \<noteq> DynamicTransitionQueue s \<longrightarrow>
       \<not> TransitionsState_DynamicTransitionsFrameDelay (TransitionsState s) > 0 \<and> bAnimationCurvesRelevant s \<and>
       TransitionsState_bTransitionsAllowed (TransitionsState s) \<and>
       \<not> LocomotionState_bMoving (LocomotionState s) \<and> LocomotionMode s = LocomotionMode_Grounded \<and>
       (bTransitionLeftAllowed st s \<or> bTransitionRightAllowed st s) \<and>
       TransitionsState_DynamicTransitionsFrameDelay (TransitionsState (RefreshDynamicTransition w st s)) = 2"
    using RefreshDynamicTransition_queue_changed [of w st s] by blast
  have cooldown:
    "TransitionsState_DynamicTransitionsFrameDelay (TransitionsState s) > 0 \<longrightarrow>
       RefreshDynamicTransition w st s =
         s\<lparr>TransitionsState := (TransitionsState s)\<lparr>TransitionsState_DynamicTransitionsFrameDelay :=
              TransitionsState_DynamicTransitionsFrameDelay (TransitionsState s) - 1\<rparr>\<rparr>"
    by (simp add: RefreshDynamicTransition_cooldown)
  have twice:
    "TransitionsState_DynamicTransitionsFrameDelay (TransitionsState s) = 2 \<longrightarrow>
       DynamicTransitionQueue (RefreshDynamicTransition w2 st (RefreshDynamicTransition w st s)) =
         DynamicTransitionQueue s \<and>
       TransitionsState_DynamicTransitionsFrameDelay
         (TransitionsState (RefreshDynamicTransition w2 st (RefreshDynamicTransition w st s))) = 0"
    by (simp add: RefreshDynamicTransition_cooldown DynamicTransitionQueue_def)
  have selects:
    "\<not> TransitionsState_DynamicTransitionsFrameDelay (TransitionsState s) > 0 \<and> bAnimationCurvesRelevant s \<and>
     TransitionsState_bTransitionsAllowed (TransitionsState s) \<and>
     \<not> LocomotionState_bMoving (LocomotionState s) \<and> LocomotionMode s = LocomotionMode_Grounded \<longrightarrow>
       (bTransitionLeftAllowed st s \<and>
        (\<not> bTransitionRightAllowed st s \<or> FootLockLeftDistanceSquared s \<ge> FootLockRightDistanceSquared s) \<longrightarrow>
          RefreshDynamicTransition w st s =
            (case DynamicTransitionLeftAnimation st s of
               None \<Rightarrow> s | Some a \<Rightarrow> SelectDynamicTransition w st s a)) \<and>
       (bTransitionRightAllowed st s \<and>
        (\<not> bTransitionLeftAllowed st s \<or> FootLockLeftDistanceSquared s < FootLockRightDistanceSquared s) \<longrightarrow>
          RefreshDynamicTransition w st s =
            (case DynamicTransitionRightAnimation st s of
               None \<Rightarrow> s | Some a \<Rightarrow> SelectDynamicTransition w st s a)) \<and>
       (\<not> bTransitionLeftAllowed st s \<and> \<not> bTransitionRightAllowed st s \<longrightarrow>
          RefreshDynamicTransition w st s = s)"
    using RefreshDynamicTransition_selects [of s st w] RefreshDynamicTransition_blocked [of s st w]
    by blast
  show ?thesis
    unfolding Let_def
    using changed cooldown twice selects SelectDynamicTransition_effect [of w st s a]
    unfolding left right FootLockLeftDistanceSquared_def FootLockRightDistanceSquared_def
    by (intro conjI) assumption+
qed

lemma sliding_Instance_facts:
  "TransitionsState_DynamicTransitionsFrameDelay (TransitionsState (sliding_Instance l r d)) = d"
  "bAnimationCurvesRelevant (sliding_Instance l r d)"
  "TransitionsState_bTransitionsAllowed (TransitionsState (sliding_Instance l r d))"
  "\<not> LocomotionState_bMoving (LocomotionState (sliding_Instance l r d))"
  "LocomotionMode (sliding_Instance l r d) = LocomotionMode_Grounded"
  "IsRelevant (Foot_LockAmount (FeetState_Left (FeetState (sliding_Instance l r d))))"
  "IsRelevant (Foot_LockAmount (FeetState_Right (FeetState (sliding_Instance l r d))))"
  "DistSquared (Foot_TargetLocation (FeetState_Left (FeetState (sliding_Instance l r d))))
               (Foot_LockLocation (FeetState_Left (FeetState (sliding_Instance l r d)))) = l * l"
  "DistSquared (Foot_TargetLocation (FeetState_Right (FeetState (sliding_Instance l r d))))
               (Foot_LockLocation (FeetState_Right (FeetState (sliding_Instance l r d)))) = r * r"
  "Square (Transitions_DynamicTransitionFootLockDistanceThreshold (Transitions sample_Settings) *
           LocomotionState_Scale (LocomotionState (sliding_Instance l r d))) = 64"
  "DynamicTransitionLeftAnimation sample_Settings (sliding_Instance l r d) = Some 1"
  "DynamicTransitionRightAnimation sample_Settings (sliding_Instance l r d) = Some 2"
  "PlayedMontages (sliding_Instance l r d) = []"
  by (simp_all add: sliding_Instance_def sample_Instance_def sample_LocomotionState_def sample_Foot_def
      sample_Settings_def IsRelevant_def ZERO_ANIMWEIGHT_THRESH_def DistSquared_def Square_def ZeroVector_def
      DynamicTransitionLeftAnimation_def DynamicTransitionRightAnimation_def)

theorem RefreshDynamicTransition_selection_witness:
  "DynamicTransitionQueue (RefreshDynamicTransition sample_World sample_Settings (sliding_Instance 20 10 0)) =
     (Some 1, []) \<and>
   DynamicTransitionQueue (RefreshDynamicTransition sample_World sample_Settings (sliding_Instance 10 20 0)) =
     (Some 2, []) \<and>
   DynamicTransitionQueue (RefreshDynamicTransition sample_World sample_Settings (sliding_Instance 20 5 0)) =
     (Some 1, []) \<and>
   RefreshDynamicTransition sample_World sample_Settings (sliding_Instance 5 5 0) = sliding_Instance 5 5 0 \<and>
   DynamicTransitionQueue (RefreshDynamicTransition sample_World sample_Settings
     (RefreshDynamicTransition sample_World sample_Settings (sliding_Instance 20 10 2))) = (None, []) \<and>
   TransitionsState_DynamicTransitionsFrameDelay (TransitionsState (RefreshDynamicTransition sample_World
     sample_Settings (RefreshDynamicTransition sample_World sample_Settings (sliding_Instance 20 10 2)))) = 0"
proof -
  have thread: "\<not> IsInGameThread sample_World"
    by (simp add: sample_World_def)
  have waiting: "DynamicTransitionQueue (sliding_Instance 20 10 2) = (None, [])"
    by (simp add: DynamicTransitionQueue_def sliding_Instance_def sample_Instance_def)
  note at = RefreshDynamicTransition_selection [where w = sample_World and st = sample_Settings
      and ?w2.0 = sample_World]
  from at [where s = "sliding_Instance 20 10 0" and a = 1]
  have left_larger:
    "DynamicTransitionQueue (RefreshDynamicTransition sample_World sample_Settings (sliding_Instance 20 10 0)) =
       (Some 1, [])"
    by (simp add: Let_def sliding_Instance_facts thread)
  from at [where s = "sliding_Instance 10 20 0" and a = 2]
  have right_larger:
    "DynamicTransitionQueue (RefreshDynamicTransition sample_World sample_Settings (sliding_Instance 10 20 0)) =
       (Some 2, [])"
    by (simp add: Let_def sliding_Instance_facts thread)
  from at [where s = "sliding_Instance 20 5 0" and a = 1]
  have left_only:
    "DynamicTransitionQueue (RefreshDynamicTransition sample_World sample_Settings (sliding_Instance 20 5 0)) =
       (Some 1, [])"
    by (simp add: Let_def sliding_Instance_facts thread)
  from at [where s = "sliding_Instance 5 5 0" and a = 1]
  have none: "RefreshDynamicTransition sample_World sample_Settings (sliding_Instance 5 5 0) = sliding_Instance 5 5 0"
    by (simp add: Let_def sliding_Instance_facts)
  have delayed: "TransitionsState_DynamicTransitionsFrameDelay (TransitionsState (sliding_Instance 20 10 2)) = 2"
    by (simp add: sliding_Instance_facts)
  from at [where s = "sliding_Instance 20 10 2" and a = 1, unfolded Let_def,
           THEN conjunct2, THEN conjunct2, THEN conjunct1] delayed
  have cooling:
    "DynamicTransitionQueue (RefreshDynamicTransition sample_World sample_Settings
       (RefreshDynamicTransition sample_World sample_Settings (sliding_Instance 20 10 2))) = (None, []) \<and>
     TransitionsState_DynamicTransitionsFrameDelay (TransitionsState (RefreshDynamicTransition sample_World
       sample_Settings (RefreshDynamicTransition sample_World sample_Settings (sliding_Instance 20 10 2)))) = 0"
    by (simp add: waiting)
  from left_larger right_larger left_only none cooling show ?thesis by simp
qed


section \<open>Pending update: what the snapped values depend on\<close>





























end
